theory Spec2Isabelle
  imports Main "HOL-Library.Word" "HOL-Library.Signed_Division"
begin

unbundle bit_operations_syntax

section \<open>Machine types and wire helpers\<close>

text \<open>
  The embedding follows \<^verbatim>\<open>steamnetworkingsockets_udp.cpp\<close>. Fixed-width integers are
  words; \<^verbatim>\<open>SteamNetworkingMicroseconds\<close> is a signed 64-bit integer, kept as a
  64-bit word and read through \<open>sint\<close> where the code compares or divides it.
  A packet is the list of its bytes; \<^verbatim>\<open>cbPkt\<close> is its length.
\<close>

type_synonym uint8 = "8 word"
type_synonym uint16 = "16 word"
type_synonym uint32 = "32 word"
type_synonym uint64 = "64 word"
type_synonym int64 = "64 word"
type_synonym SteamNetworkingMicroseconds = "64 word"

text \<open>Line 10 of the source.\<close>

definition k_cbSteamNetworkingMinPaddedPacketSize :: int where
  "k_cbSteamNetworkingMinPaddedPacketSize = 512"

text \<open>
  \<^verbatim>\<open>sizeof(UDPPaddedMessageHdr)\<close> and \<^verbatim>\<open>sizeof(UDPDataMsgHdr)\<close>: both structs are
  declared under \<^verbatim>\<open>#pragma pack(push, 1)\<close> (lines 15 to 39), so the sizes are the
  sums of the field sizes.
\<close>

definition sizeof_UDPPaddedMessageHdr :: nat where
  "sizeof_UDPPaddedMessageHdr = 3"

definition sizeof_UDPDataMsgHdr :: nat where
  "sizeof_UDPDataMsgHdr = 7"

text \<open>
  Reading a little-endian field of a packed header at byte offset \<open>i\<close>
  (\<^verbatim>\<open>LittleWord(hdr->field)\<close>, \<^verbatim>\<open>LittleDWord(hdr->field)\<close>). Every caller has
  checked the packet length before it reads.
\<close>

definition LittleWord_at :: "uint8 list \<Rightarrow> nat \<Rightarrow> uint16" where
  "LittleWord_at pkt i = ucast (pkt ! i) OR push_bit 8 (ucast (pkt ! (i + 1)))"

definition LittleDWord_at :: "uint8 list \<Rightarrow> nat \<Rightarrow> uint32" where
  "LittleDWord_at pkt i =
     ucast (pkt ! i) OR push_bit 8 (ucast (pkt ! (i + 1)))
       OR push_bit 16 (ucast (pkt ! (i + 2))) OR push_bit 24 (ucast (pkt ! (i + 3)))"

text \<open>Writing a 16-bit value in little-endian byte order.\<close>

definition LittleWord_bytes :: "uint16 \<Rightarrow> uint8 list" where
  "LittleWord_bytes w = [ucast w, ucast (drop_bit 8 w)]"

section \<open>The padded-message envelope\<close>

text \<open>
  The macro \<^verbatim>\<open>ParsePaddedPacket\<close> (lines 89 to 109). Each failure reports a bad packet
  and returns from the enclosing handler; the model returns which check failed, and the
  handler that expands the macro reports and returns. \<^verbatim>\<open>ParseFromArray\<close> belongs to
  the protobuf library and is a parameter; it is given the \<^verbatim>\<open>nMsgLength\<close> bytes that
  follow the header.
\<close>

datatype padded_failure = PacketTooSmall int | InvalidMessageLength int int | ProtobufParseFailed

definition ParsePaddedPacket ::
  "(uint8 list \<Rightarrow> 'm option) \<Rightarrow> uint8 list \<Rightarrow> padded_failure + 'm" where
  "ParsePaddedPacket ParseFromArray pkt =
     (let cbPkt = int (length pkt) in
      if cbPkt < k_cbSteamNetworkingMinPaddedPacketSize then Inl (PacketTooSmall cbPkt)
      else
        let nMsgLength = uint (LittleWord_at pkt 1) in
        if nMsgLength \<le> 0 \<or> nMsgLength + int sizeof_UDPPaddedMessageHdr > cbPkt
        then Inl (InvalidMessageLength nMsgLength cbPkt)
        else
          (case ParseFromArray (take (nat nMsgLength) (drop sizeof_UDPPaddedMessageHdr pkt)) of
             None \<Rightarrow> Inl ProtobufParseFailed
           | Some msg \<Rightarrow> Inr msg))"

section \<open>Data model\<close>

text \<open>
  \<^verbatim>\<open>netadr_t\<close> is declared outside these files; the code reads it through
  \<^verbatim>\<open>GetIPV6\<close> (sixteen bytes) and \<^verbatim>\<open>GetPort\<close>.
\<close>

record netadr_t =
  netadr_ipv6 :: "uint8 list"
  netadr_port :: uint16

text \<open>
  Modelled from the spec: \<^verbatim>\<open>SteamNetworkingIdentity\<close> is declared outside these files.
  The spec gives it as the tagged union
  \<^verbatim>\<open>{ SteamID(u64) | IPAddress(ipv6+port) | String(name) | LocalHost | Invalid }\<close>.
  In the code the anonymous LocalHost identity carries the type tag
  \<^verbatim>\<open>k_ESteamNetworkingIdentityType_IPAddress\<close> (line 360 tests the tag and line 366
  then asks \<^verbatim>\<open>IsLocalHost\<close>), which \<open>m_eType_IPAddress\<close> records.
\<close>

datatype SteamNetworkingIdentity =
    Invalid
  | SteamID uint64
  | IPAddress "uint8 list" uint16
  | GenericString string
  | LocalHost

definition IsInvalid :: "SteamNetworkingIdentity \<Rightarrow> bool" where
  "IsInvalid i = (i = Invalid)"

definition IsLocalHost :: "SteamNetworkingIdentity \<Rightarrow> bool" where
  "IsLocalHost i = (i = LocalHost)"

definition m_eType_IPAddress :: "SteamNetworkingIdentity \<Rightarrow> bool" where
  "m_eType_IPAddress i = (case i of IPAddress a p \<Rightarrow> True | LocalHost \<Rightarrow> True | _ \<Rightarrow> False)"

definition GetSteamID64 :: "SteamNetworkingIdentity \<Rightarrow> uint64" where
  "GetSteamID64 i = (case i of SteamID s \<Rightarrow> s | _ \<Rightarrow> 0)"

text \<open>The states named in the \<^verbatim>\<open>switch ( GetState() )\<close> statements of the source.\<close>

datatype ESteamNetworkingConnectionState =
    k_ESteamNetworkingConnectionState_None
  | k_ESteamNetworkingConnectionState_Connecting
  | k_ESteamNetworkingConnectionState_FindingRoute
  | k_ESteamNetworkingConnectionState_Connected
  | k_ESteamNetworkingConnectionState_ClosedByPeer
  | k_ESteamNetworkingConnectionState_ProblemDetectedLocally
  | k_ESteamNetworkingConnectionState_FinWait
  | k_ESteamNetworkingConnectionState_Linger
  | k_ESteamNetworkingConnectionState_Dead

subsection \<open>Protobuf messages\<close>

text \<open>
  The message classes are generated from a schema outside these files. Each record has
  the fields the source reads or writes; an optional field is \<open>None\<close> when
  \<^verbatim>\<open>has_field()\<close> is false, and the getter \<^verbatim>\<open>field()\<close> of an unset field returns the
  protobuf default (zero, or the empty string), which \<open>pbval\<close> and \<open>pbstr\<close> compute.
\<close>

definition pbval :: "'a::zero option \<Rightarrow> 'a" where
  "pbval f = (case f of None \<Rightarrow> 0 | Some v \<Rightarrow> v)"

definition pbstr :: "string option \<Rightarrow> string" where
  "pbstr f = (case f of None \<Rightarrow> [] | Some v \<Rightarrow> v)"

definition set_if_nonzero :: "'a::zero \<Rightarrow> 'a option" where
  "set_if_nonzero v = (if v = 0 then None else Some v)"

type_synonym CMsgSteamDatagramCertificateSigned = "uint8 list option"
type_synonym CMsgSteamDatagramSessionCryptInfoSigned = "uint8 list option"

record CMsgSteamSockets_UDP_ChallengeRequest =
  ChallengeRequest_connection_id :: "uint32 option"
  ChallengeRequest_my_timestamp :: "uint64 option"
  ChallengeRequest_protocol_version :: "uint32 option"

record CMsgSteamSockets_UDP_ChallengeReply =
  ChallengeReply_connection_id :: "uint32 option"
  ChallengeReply_challenge :: "uint64 option"
  ChallengeReply_your_timestamp :: "uint64 option"
  ChallengeReply_protocol_version :: "uint32 option"

record CMsgSteamSockets_UDP_ConnectRequest =
  ConnectRequest_client_connection_id :: "uint32 option"
  ConnectRequest_challenge :: "uint64 option"
  ConnectRequest_my_timestamp :: "uint64 option"
  ConnectRequest_ping_est_ms :: "uint32 option"
  ConnectRequest_cert :: CMsgSteamDatagramCertificateSigned
  ConnectRequest_crypt :: CMsgSteamDatagramSessionCryptInfoSigned
  ConnectRequest_identity_string :: "string option"
  ConnectRequest_legacy_identity_binary :: "uint8 list option"
  ConnectRequest_legacy_client_steam_id :: "uint64 option"

record CMsgSteamSockets_UDP_ConnectOK =
  ConnectOK_client_connection_id :: "uint32 option"
  ConnectOK_server_connection_id :: "uint32 option"
  ConnectOK_your_timestamp :: "uint64 option"
  ConnectOK_delay_time_usec :: "uint64 option"
  ConnectOK_cert :: CMsgSteamDatagramCertificateSigned
  ConnectOK_crypt :: CMsgSteamDatagramSessionCryptInfoSigned
  ConnectOK_identity_string :: "string option"
  ConnectOK_legacy_identity_binary :: "uint8 list option"
  ConnectOK_legacy_server_steam_id :: "uint64 option"

record CMsgSteamSockets_UDP_ConnectionClosed =
  ConnectionClosed_to_connection_id :: "uint32 option"
  ConnectionClosed_from_connection_id :: "uint32 option"
  ConnectionClosed_reason_code :: "uint32 option"
  ConnectionClosed_debug :: "string option"

record CMsgSteamSockets_UDP_NoConnection =
  NoConnection_from_connection_id :: "uint32 option"
  NoConnection_to_connection_id :: "uint32 option"

record CMsgSteamSockets_UDP_Stats =
  Stats_flags :: "uint32 option"
  Stats_seq_num :: "uint32 option"
  Stats_stats :: "uint8 list option"

subsection \<open>Connection, listener and process state\<close>

text \<open>
  The end-to-end statistics engine (\<^verbatim>\<open>m_statsEndToEnd\<close>) is a collaborator. The
  connection keeps the list of calls the source makes on it, in order, so a handler that
  touches the statistics changes the connection record.
\<close>

datatype stats_call =
    TrackSentPacket int
  | TrackRecvPacket int SteamNetworkingMicroseconds
  | ReceivedPing int SteamNetworkingMicroseconds
  | TrackSentPingRequest SteamNetworkingMicroseconds bool
  | Set_m_nPeerProtocolVersion uint32

text \<open>
  \<open>m_pSocket\<close> is \<open>None\<close> for the null pointer and otherwise holds the address
  \<^verbatim>\<open>GetRemoteHostAddr()\<close> returns. \<open>m_pParentListenSocket\<close> records whether the
  pointer is set.
\<close>

record CSteamNetworkConnectionUDP =
  m_pSocket :: "netadr_t option"
  m_pParentListenSocket :: bool
  m_eConnectionState :: ESteamNetworkingConnectionState
  m_unConnectionIDLocal :: uint32
  m_unConnectionIDRemote :: uint32
  m_identityLocal :: SteamNetworkingIdentity
  m_identityRemote :: SteamNetworkingIdentity
  m_netAdrRemote :: "netadr_t option"
  m_msgSignedCertLocal :: CMsgSteamDatagramCertificateSigned
  m_msgSignedCryptLocal :: CMsgSteamDatagramSessionCryptInfoSigned
  m_bCertHasIdentity :: bool
  m_IP_AllowWithoutAuth :: int
  m_eEndReason :: uint32
  m_szEndDebug :: string
  m_ulHandshakeRemoteTimestamp :: uint64
  m_usecWhenReceivedHandshakeRemoteTimestamp :: SteamNetworkingMicroseconds
  m_usecWhenSentConnectRequest :: SteamNetworkingMicroseconds
  m_statsEndToEnd :: "stats_call list"

abbreviation GetState :: "CSteamNetworkConnectionUDP \<Rightarrow> ESteamNetworkingConnectionState" where
  "GetState c \<equiv> m_eConnectionState c"

text \<open>
  The child-connection table is an association list in insertion order;
  \<^verbatim>\<open>m_mapChildConnections.Find\<close> is \<open>map_of\<close>. \<open>m_pSock\<close> records whether the
  shared socket pointer is set.
\<close>

type_synonym RemoteConnectionKey_t = "SteamNetworkingIdentity \<times> uint32"

record CSteamNetworkListenSocketDirectUDP =
  m_pSock :: bool
  m_argbChallengeSecret :: "uint8 list"
  m_mapChildConnections :: "(RemoteConnectionKey_t \<times> CSteamNetworkConnectionUDP) list"
  m_listen_IP_AllowWithoutAuth :: int

text \<open>
  What a handler does to the outside is appended to a trace: packets handed to a socket,
  log lines, failed assertions, and the calls into collaborators that take no part in
  the result. \<open>UndefinedBehaviour\<close> marks a place where the source would dereference a
  null pointer or run past an array; the model stops the operation there instead of
  giving it a meaning.
\<close>

datatype effect =
    BSendRawPacket "uint8 list" netadr_t
  | BSendRawPacketGather "uint8 list list"
  | ReallyReportBadPacket netadr_t string string
  | SpewWarning string
  | AssertFailed string
  | UndefinedBehaviour string
  | DecryptDataChunk_called uint16 int "uint8 list"
  | EnsureMinThinkTime SteamNetworkingMicroseconds

text \<open>
  The process-wide state: the function-local static of
  \<^verbatim>\<open>BCheckRateLimitReportBadPacket\<close> (line 52), the hidden state of
  \<^verbatim>\<open>BCheckGlobalSpamReplyRateLimit\<close> (defined outside these files), and the trace.
\<close>

record 'g world =
  s_usecLastReport :: SteamNetworkingMicroseconds
  s_spamReplyLimiter :: 'g
  trace :: "effect list"

definition emit :: "effect \<Rightarrow> 'g world \<Rightarrow> 'g world" where
  "emit e w = w\<lparr>trace := trace w @ [e]\<rparr>"

section \<open>What the source takes from outside\<close>

text \<open>
  Constants declared in headers outside these files. The spec leaves the message tags
  open (distinct values with bit 7 clear) and bounds the largest datagram from below, so
  they are parameters here, not numbers.
\<close>

record udp_constants =
  k_ESteamNetworkingUDPMsg_ChallengeRequest :: uint8
  k_ESteamNetworkingUDPMsg_ChallengeReply :: uint8
  k_ESteamNetworkingUDPMsg_ConnectRequest :: uint8
  k_ESteamNetworkingUDPMsg_ConnectOK :: uint8
  k_ESteamNetworkingUDPMsg_ConnectionClosed :: uint8
  k_ESteamNetworkingUDPMsg_NoConnection :: uint8
  k_cbSteamNetworkingSocketsMaxUDPMsgLen :: nat
  k_nCurrentProtocolVersion :: uint32
  k_nMinRequiredProtocolVersion :: uint32
  k_ESteamNetConnectionEnd_Misc_Generic :: uint32
  k_ESteamNetConnectionEnd_Misc_InternalError :: uint32
  k_ESteamNetConnectionEnd_Remote_BadCrypt :: uint32
  k_usecConnectRetryInterval :: SteamNetworkingMicroseconds

text \<open>
  Modelled from the spec: \<^verbatim>\<open>k_nMillion\<close> is declared outside these files; the spec
  gives the windows built from it as 2\_000\_000 and 4\_000\_000 microseconds.
\<close>

definition k_nMillion :: int64 where
  "k_nMillion = 1000000"

text \<open>
  The protobuf library: \<^verbatim>\<open>ParseFromArray\<close> per message class, and the bytes
  \<^verbatim>\<open>SerializeWithCachedSizesToArray\<close> writes. \<^verbatim>\<open>ByteSize()\<close> is the length of those
  bytes (the source asserts as much at lines 491, 508, 949 and 970).
\<close>

record protobuf_codec =
  Parse_ChallengeRequest :: "uint8 list \<Rightarrow> CMsgSteamSockets_UDP_ChallengeRequest option"
  Parse_ChallengeReply :: "uint8 list \<Rightarrow> CMsgSteamSockets_UDP_ChallengeReply option"
  Parse_ConnectRequest :: "uint8 list \<Rightarrow> CMsgSteamSockets_UDP_ConnectRequest option"
  Parse_ConnectOK :: "uint8 list \<Rightarrow> CMsgSteamSockets_UDP_ConnectOK option"
  Parse_ConnectionClosed :: "uint8 list \<Rightarrow> CMsgSteamSockets_UDP_ConnectionClosed option"
  Parse_NoConnection :: "uint8 list \<Rightarrow> CMsgSteamSockets_UDP_NoConnection option"
  Parse_Stats :: "uint8 list \<Rightarrow> CMsgSteamSockets_UDP_Stats option"
  Serialize_ChallengeRequest :: "CMsgSteamSockets_UDP_ChallengeRequest \<Rightarrow> uint8 list"
  Serialize_ChallengeReply :: "CMsgSteamSockets_UDP_ChallengeReply \<Rightarrow> uint8 list"
  Serialize_ConnectRequest :: "CMsgSteamSockets_UDP_ConnectRequest \<Rightarrow> uint8 list"
  Serialize_ConnectOK :: "CMsgSteamSockets_UDP_ConnectOK \<Rightarrow> uint8 list"
  Serialize_ConnectionClosed :: "CMsgSteamSockets_UDP_ConnectionClosed \<Rightarrow> uint8 list"
  Serialize_NoConnection :: "CMsgSteamSockets_UDP_NoConnection \<Rightarrow> uint8 list"

text \<open>
  The collaborators: the hash, the identity helpers, the rate gate for unsolicited
  replies, the crypto and reliable-segment layers, the shared socket and the connection
  base class. A collaborator that can change the connection or send packets maps the
  pair of connection and world to a new pair. The identity helpers return the code
  \<open>r\<close> the source tests (negative: error, zero: nothing found, positive: found) and the
  identity. \<open>DeserializeVarInt\<close> is given the bytes from \<^verbatim>\<open>pIn\<close> to \<^verbatim>\<open>pPktEnd\<close> and
  returns how many it consumed and the value, or \<open>None\<close> for the null pointer.
\<close>

type_synonym 'g conn_world = "CSteamNetworkConnectionUDP \<times> 'g world"

record 'g collaborators =
  siphash :: "uint8 list \<Rightarrow> uint8 list \<Rightarrow> uint64"
  SteamNetworkingIdentityFromSignedCert ::
    "CMsgSteamDatagramCertificateSigned \<Rightarrow> int \<times> SteamNetworkingIdentity"
  SteamNetworkingIdentityFromProtobuf ::
    "string option \<Rightarrow> uint8 list option \<Rightarrow> uint64 option \<Rightarrow> int \<times> SteamNetworkingIdentity"
  SteamNetworkingIdentityToProtobuf ::
    "SteamNetworkingIdentity \<Rightarrow> string option \<times> uint8 list option \<times> uint64 option"
  BCheckGlobalSpamReplyRateLimit :: "SteamNetworkingMicroseconds \<Rightarrow> 'g \<Rightarrow> bool \<times> 'g"
  m_nSmoothedPing :: "stats_call list \<Rightarrow> int"
  DeserializeVarInt :: "uint8 list \<Rightarrow> (nat \<times> uint32) option"
  DecryptDataChunk ::
    "uint16 \<Rightarrow> int \<Rightarrow> uint8 list \<Rightarrow> SteamNetworkingMicroseconds \<Rightarrow> 'g conn_world
      \<Rightarrow> (int \<times> uint8 list) \<times> 'g conn_world"
  ProcessPlainTextDataChunk ::
    "int \<Rightarrow> uint8 list \<Rightarrow> SteamNetworkingMicroseconds \<Rightarrow> 'g conn_world
      \<Rightarrow> bool \<times> 'g conn_world"
  RecvStats ::
    "CMsgSteamSockets_UDP_Stats \<Rightarrow> bool \<Rightarrow> SteamNetworkingMicroseconds \<Rightarrow> 'g conn_world
      \<Rightarrow> 'g conn_world"
  NewConnection :: CSteamNetworkConnectionUDP
  AddRemoteHost :: "netadr_t \<Rightarrow> bool"
  BInitConnection :: "'g conn_world \<Rightarrow> bool \<times> 'g conn_world"
  BRecvCryptoHandshake ::
    "CMsgSteamDatagramCertificateSigned \<Rightarrow> CMsgSteamDatagramSessionCryptInfoSigned \<Rightarrow> bool
      \<Rightarrow> 'g conn_world \<Rightarrow> bool \<times> 'g conn_world"
  Destroy ::
    "CSteamNetworkConnectionUDP \<Rightarrow> CSteamNetworkListenSocketDirectUDP \<times> 'g world
      \<Rightarrow> CSteamNetworkListenSocketDirectUDP \<times> 'g world"
  ConnectionState_ProblemDetectedLocally :: "uint32 \<Rightarrow> string \<Rightarrow> 'g conn_world \<Rightarrow> 'g conn_world"
  ConnectionState_Connected :: "SteamNetworkingMicroseconds \<Rightarrow> 'g conn_world \<Rightarrow> 'g conn_world"
  ConnectionState_ClosedByPeer :: "uint32 \<Rightarrow> string \<Rightarrow> 'g conn_world \<Rightarrow> 'g conn_world"

section \<open>Reporting bad packets\<close>

text \<open>
  \<^verbatim>\<open>BCheckRateLimitReportBadPacket\<close> (lines 50 to 57). The comparison is on signed
  64-bit values; the sum wraps where C leaves the overflow undefined.
\<close>

definition BCheckRateLimitReportBadPacket ::
  "SteamNetworkingMicroseconds \<Rightarrow> 'g world \<Rightarrow> bool \<times> 'g world" where
  "BCheckRateLimitReportBadPacket usecNow w =
     (if usecNow <s s_usecLastReport w + k_nMillion * 2 then (False, w)
      else (True, w\<lparr>s_usecLastReport := usecNow\<rparr>))"

text \<open>
  The macros \<^verbatim>\<open>ReportBadPacketFrom\<close> and \<^verbatim>\<open>ReportBadPacket\<close> (lines 74 to 78): the
  line is printed only when the rate limit lets it through. The format arguments are
  left out of the logged text.
\<close>

definition ReportBadPacketFrom ::
  "netadr_t \<Rightarrow> string \<Rightarrow> string \<Rightarrow> SteamNetworkingMicroseconds \<Rightarrow> 'g world \<Rightarrow> 'g world" where
  "ReportBadPacketFrom adrFrom pszMsgType pszFmt usecNow w =
     (case BCheckRateLimitReportBadPacket usecNow w of
        (True, w') \<Rightarrow> emit (ReallyReportBadPacket adrFrom pszMsgType pszFmt) w'
      | (False, w') \<Rightarrow> w')"

text \<open>
  The macro \<^verbatim>\<open>ReportBadPacketIPv4\<close> (lines 1028 and 1029) takes the address from
  \<^verbatim>\<open>m_pSocket->GetRemoteHostAddr()\<close>, which the conditional expression evaluates only
  when the rate limit lets the line through.
\<close>

definition ReportBadPacketIPv4 ::
  "CSteamNetworkConnectionUDP \<Rightarrow> string \<Rightarrow> string \<Rightarrow> SteamNetworkingMicroseconds
    \<Rightarrow> 'g world \<Rightarrow> 'g world" where
  "ReportBadPacketIPv4 c pszMsgType pszFmt usecNow w =
     (case BCheckRateLimitReportBadPacket usecNow w of
        (True, w') \<Rightarrow>
          (case m_pSocket c of
             None \<Rightarrow> emit (UndefinedBehaviour ''m_pSocket is null'') w'
           | Some adr \<Rightarrow> emit (ReallyReportBadPacket adr pszMsgType pszFmt) w')
      | (False, w') \<Rightarrow> w')"

section \<open>Sending on a connection\<close>

text \<open>\<^verbatim>\<open>SendPacketGather\<close> (lines 984 to 998) and \<^verbatim>\<open>SendPacket\<close> (lines 976 to 982).\<close>

definition SendPacketGather ::
  "uint8 list list \<Rightarrow> int \<Rightarrow> 'g conn_world \<Rightarrow> 'g conn_world" where
  "SendPacketGather pChunks cbSendTotal cw =
     (case cw of (c, w) \<Rightarrow>
        if m_pSocket c = None
        then (c, emit (AssertFailed ''Attemt to send packet, but socket has been closed!'') w)
        else (c\<lparr>m_statsEndToEnd := m_statsEndToEnd c @ [TrackSentPacket cbSendTotal]\<rparr>,
              emit (BSendRawPacketGather pChunks) w))"

definition SendPacket :: "uint8 list \<Rightarrow> 'g conn_world \<Rightarrow> 'g conn_world" where
  "SendPacket pkt cw = SendPacketGather [pkt] (int (length pkt)) cw"

text \<open>
  \<^verbatim>\<open>CSteamNetworkConnectionUDP::SendMsg\<close> (lines 937 to 952). \<open>body\<close> is what
  \<^verbatim>\<open>msg.SerializeWithCachedSizesToArray\<close> writes.
\<close>

definition SendMsg ::
  "udp_constants \<Rightarrow> uint8 \<Rightarrow> uint8 list \<Rightarrow> 'g conn_world \<Rightarrow> 'g conn_world" where
  "SendMsg K nMsgID body cw =
     (let cbPkt = length body + 1 in
      if cbPkt > k_cbSteamNetworkingSocketsMaxUDPMsgLen K
      then (fst cw, emit (AssertFailed ''Msg type %d is %d bytes, larger than MTU of %d bytes'') (snd cw))
      else SendPacket (nMsgID # body) cw)"

text \<open>
  The buffer both \<^verbatim>\<open>SendPaddedMsg\<close> functions build: \<^verbatim>\<open>pkt\<close> zeroed over its whole
  size, the three header bytes, then the body behind the header. \<open>write_at\<close> is meant
  for a write that stays inside the buffer; the callers below check that, or mark the
  overrun.
\<close>

definition write_at :: "uint8 list \<Rightarrow> nat \<Rightarrow> uint8 list \<Rightarrow> uint8 list" where
  "write_at buf off bytes = take off buf @ bytes @ drop (off + length bytes) buf"

definition padded_pkt :: "nat \<Rightarrow> uint8 \<Rightarrow> uint8 list \<Rightarrow> uint8 list" where
  "padded_pkt cap nMsgID body =
     write_at
       (write_at (replicate cap 0) 0 (nMsgID # LittleWord_bytes (of_nat (length body))))
       sizeof_UDPPaddedMessageHdr body"

text \<open>
  \<^verbatim>\<open>CSteamNetworkConnectionUDP::SendPaddedMsg\<close> (lines 954 to 974). The size check of
  line 961 keeps the body inside \<^verbatim>\<open>pkt\<close>; sending \<^verbatim>\<open>cbPkt\<close> bytes reads past
  \<^verbatim>\<open>pkt\<close> only if the array is shorter than the minimum padded size.
\<close>

definition SendPaddedMsg ::
  "udp_constants \<Rightarrow> uint8 \<Rightarrow> uint8 list \<Rightarrow> 'g conn_world \<Rightarrow> 'g conn_world" where
  "SendPaddedMsg K nMsgID body cw =
     (let cap = k_cbSteamNetworkingSocketsMaxUDPMsgLen K;
          nMsgLength = length body in
      if nMsgLength + sizeof_UDPPaddedMessageHdr > cap
      then (fst cw, emit (AssertFailed ''Msg type %d is %d bytes, larger than MTU of %d bytes'') (snd cw))
      else
        let pkt = padded_pkt cap nMsgID body;
            cbPkt = max (sizeof_UDPPaddedMessageHdr + nMsgLength)
                      (nat k_cbSteamNetworkingMinPaddedPacketSize) in
        if cbPkt > cap
        then (fst cw, emit (UndefinedBehaviour ''read past the end of pkt'') (snd cw))
        else SendPacket (take cbPkt pkt) cw)"

text \<open>\<^verbatim>\<open>SendNoConnection\<close> (lines 1644 to 1657).\<close>

definition SendNoConnection ::
  "udp_constants \<Rightarrow> protobuf_codec \<Rightarrow> uint32 \<Rightarrow> uint32 \<Rightarrow> 'g conn_world \<Rightarrow> 'g conn_world" where
  "SendNoConnection K PB unFromConnectionID unToConnectionID cw =
     (if unFromConnectionID = 0 \<and> unToConnectionID = 0
      then (fst cw,
            emit (AssertFailed
              ''Can't send NoConnection, we need at least one of from/to connection ID!'') (snd cw))
      else
        let msg = \<lparr>NoConnection_from_connection_id = set_if_nonzero unFromConnectionID,
                   NoConnection_to_connection_id = set_if_nonzero unToConnectionID\<rparr> in
        SendMsg K (k_ESteamNetworkingUDPMsg_NoConnection K) (Serialize_NoConnection PB msg) cw)"

text \<open>
  \<^verbatim>\<open>SendConnectionClosedOrNoConnection\<close> (lines 1623 to 1642);
  \<open>ConnectionClosed_of\<close> is the message lines 1631 to 1639 fill in.
\<close>

definition ConnectionClosed_of ::
  "CSteamNetworkConnectionUDP \<Rightarrow> CMsgSteamSockets_UDP_ConnectionClosed" where
  "ConnectionClosed_of c =
     \<lparr>ConnectionClosed_to_connection_id = set_if_nonzero (m_unConnectionIDRemote c),
      ConnectionClosed_from_connection_id = Some (m_unConnectionIDLocal c),
      ConnectionClosed_reason_code = Some (m_eEndReason c),
      ConnectionClosed_debug = (if m_szEndDebug c = [] then None else Some (m_szEndDebug c))\<rparr>"

definition SendConnectionClosedOrNoConnection ::
  "udp_constants \<Rightarrow> protobuf_codec \<Rightarrow> 'g conn_world \<Rightarrow> 'g conn_world" where
  "SendConnectionClosedOrNoConnection K PB cw =
     (let c = fst cw in
      if GetState c = k_ESteamNetworkingConnectionState_ClosedByPeer
      then SendNoConnection K PB (m_unConnectionIDLocal c) (m_unConnectionIDRemote c) cw
      else
        SendPaddedMsg K (k_ESteamNetworkingUDPMsg_ConnectionClosed K)
          (Serialize_ConnectionClosed PB (ConnectionClosed_of c)) cw)"

text \<open>
  \<^verbatim>\<open>SendEndToEndConnectRequest\<close> (lines 811 to 829); \<open>ChallengeRequest_of\<close> is the
  message lines 817 to 821 fill in.
\<close>

definition ChallengeRequest_of ::
  "udp_constants \<Rightarrow> CSteamNetworkConnectionUDP \<Rightarrow> SteamNetworkingMicroseconds
    \<Rightarrow> CMsgSteamSockets_UDP_ChallengeRequest" where
  "ChallengeRequest_of K c usecNow =
     \<lparr>ChallengeRequest_connection_id = Some (m_unConnectionIDLocal c),
      ChallengeRequest_my_timestamp = Some usecNow,
      ChallengeRequest_protocol_version = Some (k_nCurrentProtocolVersion K)\<rparr>"

definition SendEndToEndConnectRequest ::
  "udp_constants \<Rightarrow> protobuf_codec \<Rightarrow> SteamNetworkingMicroseconds \<Rightarrow> 'g conn_world
    \<Rightarrow> 'g conn_world" where
  "SendEndToEndConnectRequest K PB usecNow cw =
     (case SendPaddedMsg K (k_ESteamNetworkingUDPMsg_ChallengeRequest K)
             (Serialize_ChallengeRequest PB (ChallengeRequest_of K (fst cw) usecNow)) cw of
        (c', w') \<Rightarrow>
          (c'\<lparr>m_statsEndToEnd := m_statsEndToEnd c' @ [TrackSentPingRequest usecNow False]\<rparr>, w'))"

section \<open>Packets received on a connection\<close>

text \<open>
  Assertions that only log (\<^verbatim>\<open>Assert( cond )\<close> before the code goes on regardless) are
  left out; an \<^verbatim>\<open>Assert( false )\<close> on a branch that returns is an \<open>AssertFailed\<close>
  effect.

  \<^verbatim>\<open>Received_Data\<close> (lines 1162 to 1275). A call of \<^verbatim>\<open>DecryptDataChunk\<close> is
  recorded in the trace before the collaborator runs.
\<close>

definition kFlag_ProtobufBlob :: uint8 where
  "kFlag_ProtobufBlob = 0x01"

definition Received_Data ::
  "udp_constants \<Rightarrow> protobuf_codec \<Rightarrow> 'g collaborators \<Rightarrow> uint8 list
    \<Rightarrow> SteamNetworkingMicroseconds \<Rightarrow> 'g conn_world \<Rightarrow> 'g conn_world" where
  "Received_Data K PB X pkt usecNow cw =
     (case cw of (c, w) \<Rightarrow>
      if length pkt < sizeof_UDPDataMsgHdr
      then (c, ReportBadPacketIPv4 c ''DataPacket'' ''Packet of size %d is too small.'' usecNow w)
      else if LittleDWord_at pkt 1 \<noteq> m_unConnectionIDLocal c
      then
        (let w1 = ReportBadPacketIPv4 c ''DataPacket'' ''Incorrect connection ID'' usecNow w in
         case BCheckGlobalSpamReplyRateLimit X usecNow (s_spamReplyLimiter w1) of
           (True, g') \<Rightarrow>
             SendNoConnection K PB (LittleDWord_at pkt 1) 0 (c, w1\<lparr>s_spamReplyLimiter := g'\<rparr>)
         | (False, g') \<Rightarrow> (c, w1\<lparr>s_spamReplyLimiter := g'\<rparr>))
      else
        let nWirePktNumber = LittleWord_at pkt 5 in
        (case GetState c of
          k_ESteamNetworkingConnectionState_ClosedByPeer \<Rightarrow>
            SendConnectionClosedOrNoConnection K PB cw
        | k_ESteamNetworkingConnectionState_FinWait \<Rightarrow>
            SendConnectionClosedOrNoConnection K PB cw
        | k_ESteamNetworkingConnectionState_ProblemDetectedLocally \<Rightarrow>
            SendConnectionClosedOrNoConnection K PB cw
        | k_ESteamNetworkingConnectionState_Linger \<Rightarrow> cw
        | k_ESteamNetworkingConnectionState_Connecting \<Rightarrow> cw
        | k_ESteamNetworkingConnectionState_Connected \<Rightarrow>
            (let pIn = drop sizeof_UDPDataMsgHdr pkt;
                 inl =
                   (if ((pkt ! 0) AND kFlag_ProtobufBlob) \<noteq> 0 then
                      (case DeserializeVarInt X pIn of
                         None \<Rightarrow> Inl ''Failed to varint decode size of stats blob''
                       | Some (n, cbStatsMsgIn) \<Rightarrow>
                           if n + unat cbStatsMsgIn > length pIn
                           then Inl ''stats message size doesn't make sense.  Stats message size %d, packet size %d''
                           else
                             (case Parse_Stats PB (take (unat cbStatsMsgIn) (drop n pIn)) of
                                None \<Rightarrow> Inl ''protobuf failed to parse inline stats message''
                              | Some msgStats \<Rightarrow>
                                  Inr (Some (msgStats\<lparr>Stats_seq_num := Some (ucast nWirePktNumber)\<rparr>),
                                       drop (n + unat cbStatsMsgIn) pIn)))
                    else Inr (None, pIn)) in
             case inl of
               Inl fmt \<Rightarrow> (c, ReportBadPacketIPv4 c ''DataPacket'' fmt usecNow w)
             | Inr (pMsgStatsIn, chunk) \<Rightarrow>
                 (case DecryptDataChunk X nWirePktNumber (int (length pkt)) chunk usecNow
                         (c, emit (DecryptDataChunk_called nWirePktNumber (int (length pkt)) chunk) w) of
                    ((nFullSequenceNumber, plain), cw1) \<Rightarrow>
                      if nFullSequenceNumber \<le> 0 then cw1
                      else
                        (case ProcessPlainTextDataChunk X nFullSequenceNumber plain usecNow cw1 of
                           (False, cw2) \<Rightarrow> cw2
                         | (True, cw2) \<Rightarrow>
                             (case pMsgStatsIn of
                                None \<Rightarrow> cw2
                              | Some msgStatsIn \<Rightarrow> RecvStats X msgStatsIn True usecNow cw2))))
        | _ \<Rightarrow> (c, emit (AssertFailed ''false'') w)))"

text \<open>
  The timestamp echo, lines 1305 to 1314 of \<^verbatim>\<open>Received_ChallengeReply\<close> and lines 1470
  to 1479 of \<^verbatim>\<open>Received_ConnectOK\<close>: the same statements once \<^verbatim>\<open>usecElapsed\<close> is
  computed. Inside the accepted range \<^verbatim>\<open>usecElapsed + 500\<close> cannot overflow, so the
  division is the truncating division of the integers.
\<close>

definition ReceivedPing_from_elapsed ::
  "int64 \<Rightarrow> SteamNetworkingMicroseconds \<Rightarrow> 'g conn_world \<Rightarrow> 'g conn_world" where
  "ReceivedPing_from_elapsed usecElapsed usecNow cw =
     (case cw of (c, w) \<Rightarrow>
      if usecElapsed <s 0 \<or> 2 * k_nMillion <s usecElapsed
      then (c, emit (SpewWarning ''Ignoring weird timestamp'') w)
      else
        let nPing = (sint usecElapsed + 500) sdiv 1000 in
        (c\<lparr>m_statsEndToEnd := m_statsEndToEnd c @ [ReceivedPing nPing usecNow]\<rparr>, w))"

text \<open>
  \<^verbatim>\<open>Received_ChallengeReply\<close> (lines 1277 to 1362), in two parts: the statements
  after the timestamp echo (lines 1317 to 1361), which build and send the
  ConnectRequest, and the handler, which runs its checks and the timestamp echo and
  then goes on with those statements.
\<close>

definition ChallengeReply_send_ConnectRequest ::
  "udp_constants \<Rightarrow> protobuf_codec \<Rightarrow> 'g collaborators \<Rightarrow> CMsgSteamSockets_UDP_ChallengeReply
    \<Rightarrow> SteamNetworkingMicroseconds \<Rightarrow> 'g conn_world \<Rightarrow> 'g conn_world" where
  "ChallengeReply_send_ConnectRequest K PB X msg usecNow cw1 =
     (case cw1 of (c1, w1) \<Rightarrow>
      if m_msgSignedCertLocal c1 = None \<or> m_msgSignedCryptLocal c1 = None
      then ConnectionState_ProblemDetectedLocally X
             (k_ESteamNetConnectionEnd_Misc_InternalError K)
             ''Tried to connect request, but crypt not ready'' (c1, w1)
      else
        let c2 = c1\<lparr>m_statsEndToEnd := m_statsEndToEnd c1 @
                      [Set_m_nPeerProtocolVersion (pbval (ChallengeReply_protocol_version msg))]\<rparr>;
            nSmoothedPing = m_nSmoothedPing X (m_statsEndToEnd c2) in
        (case (if \<not> m_bCertHasIdentity c2
               then SteamNetworkingIdentityToProtobuf X (m_identityLocal c2)
               else (None, None, set_if_nonzero (GetSteamID64 (m_identityLocal c2)))) of
           (identity_string, legacy_identity_binary, legacy_client_steam_id) \<Rightarrow>
             let msgConnectRequest =
                   \<lparr>ConnectRequest_client_connection_id = Some (m_unConnectionIDLocal c2),
                    ConnectRequest_challenge = Some (pbval (ChallengeReply_challenge msg)),
                    ConnectRequest_my_timestamp = Some usecNow,
                    ConnectRequest_ping_est_ms =
                      (if nSmoothedPing \<ge> 0 then Some (of_int nSmoothedPing) else None),
                    ConnectRequest_cert = m_msgSignedCertLocal c2,
                    ConnectRequest_crypt = m_msgSignedCryptLocal c2,
                    ConnectRequest_identity_string = identity_string,
                    ConnectRequest_legacy_identity_binary = legacy_identity_binary,
                    ConnectRequest_legacy_client_steam_id = legacy_client_steam_id\<rparr> in
             (case SendMsg K (k_ESteamNetworkingUDPMsg_ConnectRequest K)
                     (Serialize_ConnectRequest PB msgConnectRequest) (c2, w1) of
                (c3, w3) \<Rightarrow>
                  (c3\<lparr>m_usecWhenSentConnectRequest := usecNow,
                      m_statsEndToEnd := m_statsEndToEnd c3 @ [TrackSentPingRequest usecNow False]\<rparr>,
                   emit (EnsureMinThinkTime (usecNow + k_usecConnectRetryInterval K)) w3))))"

definition Received_ChallengeReply ::
  "udp_constants \<Rightarrow> protobuf_codec \<Rightarrow> 'g collaborators \<Rightarrow> CMsgSteamSockets_UDP_ChallengeReply
    \<Rightarrow> SteamNetworkingMicroseconds \<Rightarrow> 'g conn_world \<Rightarrow> 'g conn_world" where
  "Received_ChallengeReply K PB X msg usecNow cw =
     (case cw of (c, w) \<Rightarrow>
      if m_pParentListenSocket c
      then (c, ReportBadPacketIPv4 c ''ChallengeReply''
                 ''Shouldn't be receiving this unless on accepted connections, only connections initiated locally.''
                 usecNow w)
      else if GetState c \<noteq> k_ESteamNetworkingConnectionState_Connecting then cw
      else if pbval (ChallengeReply_connection_id msg) \<noteq> m_unConnectionIDLocal c
      then (c, ReportBadPacketIPv4 c ''ChallengeReply''
                 ''Incorrect connection ID.  Message is stale or could be spoofed, ignoring.''
                 usecNow w)
      else if pbval (ChallengeReply_protocol_version msg) < k_nMinRequiredProtocolVersion K
      then ConnectionState_ProblemDetectedLocally X (k_ESteamNetConnectionEnd_Misc_Generic K)
             ''Peer is running old software and needs to be udpated'' cw
      else
        ChallengeReply_send_ConnectRequest K PB X msg usecNow
          (case ChallengeReply_your_timestamp msg of
             None \<Rightarrow> cw
           | Some ts \<Rightarrow> ReceivedPing_from_elapsed (usecNow - ts) usecNow cw))"

text \<open>
  Why a handshake message is dropped before the identity is known: a bad-packet report
  (message type and text), or the dereference of a null \<^verbatim>\<open>m_pSocket\<close>.
\<close>

datatype rejection = Reject string string | Undefined string

text \<open>
  The identity a ConnectOK presents, lines 1382 to 1458 of \<^verbatim>\<open>Received_ConnectOK\<close>:
  from the signed cert, else from the message's identity fields, else LocalHost; an
  anonymous LocalHost is replaced by the address of the socket's remote host when the
  configuration allows it, and a specific IP address is taken only from a cert.
\<close>

definition ConnectOK_identityRemote ::
  "'g collaborators \<Rightarrow> CSteamNetworkConnectionUDP \<Rightarrow> CMsgSteamSockets_UDP_ConnectOK
    \<Rightarrow> rejection + SteamNetworkingIdentity" where
  "ConnectOK_identityRemote X c msg =
     (case SteamNetworkingIdentityFromSignedCert X (ConnectOK_cert msg) of
        (r, idCert) \<Rightarrow>
          if r < 0 then Inl (Reject ''ConnectRequest'' ''Bad identity in cert.  %s'')
          else
            (case (if r = 0
                   then
                     (case SteamNetworkingIdentityFromProtobuf X (ConnectOK_identity_string msg)
                             (ConnectOK_legacy_identity_binary msg)
                             (ConnectOK_legacy_server_steam_id msg) of
                        (r', idMsg) \<Rightarrow>
                          if r' < 0 then Inl (Reject ''ConnectRequest'' ''Bad identity.  %s'')
                          else Inr (False, if r' = 0 then LocalHost else idMsg))
                   else Inr (True, idCert)) of
               Inl e \<Rightarrow> Inl e
             | Inr (bIdentityInCert, identityRemote) \<Rightarrow>
                 if m_eType_IPAddress identityRemote
                 then
                   (case m_pSocket c of
                      None \<Rightarrow> Inl (Undefined ''m_pSocket is null'')
                    | Some adrFrom \<Rightarrow>
                        if IsLocalHost identityRemote
                        then
                          (if m_IP_AllowWithoutAuth c = 0
                           then Inl (Reject ''ConnectOK'' ''Unauthenticated connections not allowed.'')
                           else Inr (IPAddress (netadr_ipv6 adrFrom) (netadr_port adrFrom)))
                        else if \<not> bIdentityInCert
                        then Inl (Reject ''ConnectOK'' ''Cannot use specific IP address.'')
                        else Inr identityRemote)
                 else Inr identityRemote))"

text \<open>
  \<^verbatim>\<open>Received_ConnectOK\<close> (lines 1364 to 1528), in two parts: the switch on the state
  and the statements behind it (lines 1482 to 1527), and the handler, which runs its
  checks and the timestamp echo and then goes on with the switch.
\<close>

definition ConnectOK_check_state ::
  "udp_constants \<Rightarrow> protobuf_codec \<Rightarrow> 'g collaborators \<Rightarrow> CMsgSteamSockets_UDP_ConnectOK
    \<Rightarrow> SteamNetworkingIdentity \<Rightarrow> SteamNetworkingMicroseconds \<Rightarrow> 'g conn_world
    \<Rightarrow> 'g conn_world" where
  "ConnectOK_check_state K PB X msg identityRemote usecNow cw1 =
     (case cw1 of (c1, w1) \<Rightarrow>
      (case GetState c1 of
         k_ESteamNetworkingConnectionState_ClosedByPeer \<Rightarrow>
           SendConnectionClosedOrNoConnection K PB (c1, w1)
       | k_ESteamNetworkingConnectionState_FinWait \<Rightarrow>
           SendConnectionClosedOrNoConnection K PB (c1, w1)
       | k_ESteamNetworkingConnectionState_ProblemDetectedLocally \<Rightarrow>
           SendConnectionClosedOrNoConnection K PB (c1, w1)
       | k_ESteamNetworkingConnectionState_Linger \<Rightarrow> (c1, w1)
       | k_ESteamNetworkingConnectionState_Connected \<Rightarrow> (c1, w1)
       | k_ESteamNetworkingConnectionState_Connecting \<Rightarrow>
           (let c2 = c1\<lparr>m_unConnectionIDRemote := pbval (ConnectOK_server_connection_id msg)\<rparr> in
            if (m_unConnectionIDRemote c2 AND 0xffff) = 0
            then ConnectionState_ProblemDetectedLocally X
                   (k_ESteamNetConnectionEnd_Remote_BadCrypt K)
                   ''Didn't send valid connection ID'' (c2, w1)
            else
              (case BRecvCryptoHandshake X (ConnectOK_cert msg) (ConnectOK_crypt msg)
                      False (c2\<lparr>m_identityRemote := identityRemote\<rparr>, w1) of
                 (False, (c4, w4)) \<Rightarrow>
                   (c4, ReportBadPacketIPv4 c4 ''ConnectOK'' ''Failed crypto init.  %s'' usecNow w4)
               | (True, cw4) \<Rightarrow> ConnectionState_Connected X usecNow cw4))
       | _ \<Rightarrow> (c1, emit (AssertFailed ''false'') w1)))"

definition Received_ConnectOK ::
  "udp_constants \<Rightarrow> protobuf_codec \<Rightarrow> 'g collaborators \<Rightarrow> CMsgSteamSockets_UDP_ConnectOK
    \<Rightarrow> SteamNetworkingMicroseconds \<Rightarrow> 'g conn_world \<Rightarrow> 'g conn_world" where
  "Received_ConnectOK K PB X msg usecNow cw =
     (case cw of (c, w) \<Rightarrow>
      if m_pParentListenSocket c
      then (c, ReportBadPacketIPv4 c ''ConnectOK''
                 ''Shouldn't be receiving this unless on accepted connections, only connections initiated locally.''
                 usecNow w)
      else if pbval (ConnectOK_client_connection_id msg) \<noteq> m_unConnectionIDLocal c
      then (c, ReportBadPacketIPv4 c ''ConnectOK''
                 ''Incorrect connection ID.  Message is stale or could be spoofed, ignoring.''
                 usecNow w)
      else
        (case ConnectOK_identityRemote X c msg of
           Inl (Reject pszMsgType pszFmt) \<Rightarrow> (c, ReportBadPacketIPv4 c pszMsgType pszFmt usecNow w)
         | Inl (Undefined what) \<Rightarrow> (c, emit (UndefinedBehaviour what) w)
         | Inr identityRemote \<Rightarrow>
             if \<not> IsInvalid (m_identityRemote c) \<and> \<not> (m_identityRemote c = identityRemote)
             then (c, ReportBadPacketIPv4 c ''ConnectOK''
                        ''server_steam_id doesn't match who we expect to be connecting to!''
                        usecNow w)
             else
               ConnectOK_check_state K PB X msg identityRemote usecNow
                 (case ConnectOK_your_timestamp msg of
                    None \<Rightarrow> cw
                  | Some ts \<Rightarrow>
                      ReceivedPing_from_elapsed
                        (usecNow - ts - pbval (ConnectOK_delay_time_usec msg)) usecNow cw)))"

text \<open>\<^verbatim>\<open>CSteamNetworkConnectionUDP::Received_ConnectionClosed\<close> (lines 1530 to 1560).\<close>

definition Received_ConnectionClosed ::
  "udp_constants \<Rightarrow> protobuf_codec \<Rightarrow> 'g collaborators \<Rightarrow> CMsgSteamSockets_UDP_ConnectionClosed
    \<Rightarrow> SteamNetworkingMicroseconds \<Rightarrow> 'g conn_world \<Rightarrow> 'g conn_world" where
  "Received_ConnectionClosed K PB X msg usecNow cw =
     (case cw of (c, w) \<Rightarrow>
      let to_connection_id = pbval (ConnectionClosed_to_connection_id msg);
          from_connection_id = pbval (ConnectionClosed_from_connection_id msg);
          bConnectionIDMatch =
            (to_connection_id = m_unConnectionIDLocal c
             \<or> (to_connection_id = 0 \<and> from_connection_id \<noteq> 0
                 \<and> from_connection_id = m_unConnectionIDRemote c)) in
      (case (if bConnectionIDMatch then (True, w)
             else (case BCheckGlobalSpamReplyRateLimit X usecNow (s_spamReplyLimiter w) of
                     (ok, g') \<Rightarrow> (ok, w\<lparr>s_spamReplyLimiter := g'\<rparr>))) of
         (bReply, w1) \<Rightarrow>
           let msgReply = \<lparr>NoConnection_from_connection_id = set_if_nonzero to_connection_id,
                            NoConnection_to_connection_id = set_if_nonzero from_connection_id\<rparr>;
               cw2 = (if bReply
                      then SendMsg K (k_ESteamNetworkingUDPMsg_NoConnection K)
                             (Serialize_NoConnection PB msgReply) (c, w1)
                      else (c, w1)) in
           if \<not> bConnectionIDMatch then cw2
           else ConnectionState_ClosedByPeer X (pbval (ConnectionClosed_reason_code msg))
                  (pbstr (ConnectionClosed_debug msg)) cw2))"

text \<open>\<^verbatim>\<open>Received_NoConnection\<close> (lines 1562 to 1573).\<close>

definition Received_NoConnection ::
  "'g collaborators \<Rightarrow> CMsgSteamSockets_UDP_NoConnection \<Rightarrow> SteamNetworkingMicroseconds
    \<Rightarrow> 'g conn_world \<Rightarrow> 'g conn_world" where
  "Received_NoConnection X msg usecNow cw =
     (case cw of (c, w) \<Rightarrow>
      if pbval (NoConnection_to_connection_id msg) \<noteq> m_unConnectionIDLocal c
         \<or> pbval (NoConnection_from_connection_id msg) \<noteq> m_unConnectionIDRemote c
      then (c, ReportBadPacketIPv4 c ''NoConnection''
                 ''Old/incorrect connection ID.  Message is for a stale connection, or is spoofed.  Ignoring.''
                 usecNow w)
      else ConnectionState_ClosedByPeer X 0 [] cw)"

text \<open>\<^verbatim>\<open>SendConnectOK\<close> (lines 1659 to 1706).\<close>

definition SendConnectOK ::
  "udp_constants \<Rightarrow> protobuf_codec \<Rightarrow> 'g collaborators \<Rightarrow> SteamNetworkingMicroseconds
    \<Rightarrow> 'g conn_world \<Rightarrow> 'g conn_world" where
  "SendConnectOK K PB X usecNow cw =
     (case cw of (c, w) \<Rightarrow>
      (case (if \<not> m_bCertHasIdentity c
             then SteamNetworkingIdentityToProtobuf X (m_identityLocal c)
             else (None, None, set_if_nonzero (GetSteamID64 (m_identityLocal c)))) of
         (identity_string, legacy_identity_binary, legacy_server_steam_id) \<Rightarrow>
           let usecElapsed = usecNow - m_usecWhenReceivedHandshakeRemoteTimestamp c;
               bHave = (m_usecWhenReceivedHandshakeRemoteTimestamp c \<noteq> 0);
               bFresh = (bHave \<and> usecElapsed <s 4 * k_nMillion);
               msg = \<lparr>ConnectOK_client_connection_id = Some (m_unConnectionIDRemote c),
                      ConnectOK_server_connection_id = Some (m_unConnectionIDLocal c),
                      ConnectOK_your_timestamp =
                        (if bFresh then Some (m_ulHandshakeRemoteTimestamp c) else None),
                      ConnectOK_delay_time_usec = (if bFresh then Some usecElapsed else None),
                      ConnectOK_cert = m_msgSignedCertLocal c,
                      ConnectOK_crypt = m_msgSignedCryptLocal c,
                      ConnectOK_identity_string = identity_string,
                      ConnectOK_legacy_identity_binary = legacy_identity_binary,
                      ConnectOK_legacy_server_steam_id = legacy_server_steam_id\<rparr>;
               cw1 = (if bHave \<and> \<not> bFresh
                      then (c\<lparr>m_usecWhenReceivedHandshakeRemoteTimestamp := 0\<rparr>,
                            emit (SpewWarning
                              ''Discarding handshake timestamp that's %lldms old, not sending in ConnectOK'') w)
                      else cw) in
           SendMsg K (k_ESteamNetworkingUDPMsg_ConnectOK K) (Serialize_ConnectOK PB msg) cw1))"

text \<open>\<^verbatim>\<open>Received_ChallengeOrConnectRequest\<close> (lines 1575 to 1621).\<close>

definition Received_ChallengeOrConnectRequest ::
  "udp_constants \<Rightarrow> protobuf_codec \<Rightarrow> 'g collaborators \<Rightarrow> string \<Rightarrow> uint32
    \<Rightarrow> SteamNetworkingMicroseconds \<Rightarrow> 'g conn_world \<Rightarrow> 'g conn_world" where
  "Received_ChallengeOrConnectRequest K PB X pszDebugPacketType unPacketConnectionID usecNow cw =
     (case cw of (c, w) \<Rightarrow>
      if unPacketConnectionID \<noteq> m_unConnectionIDRemote c
      then (c, ReportBadPacketIPv4 c pszDebugPacketType
                 ''Incorrect connection ID, when we do have a connection for this address.  Could be spoofed, ignoring.''
                 usecNow w)
      else
        (case GetState c of
           k_ESteamNetworkingConnectionState_ClosedByPeer \<Rightarrow>
             SendConnectionClosedOrNoConnection K PB cw
         | k_ESteamNetworkingConnectionState_FinWait \<Rightarrow>
             SendConnectionClosedOrNoConnection K PB cw
         | k_ESteamNetworkingConnectionState_ProblemDetectedLocally \<Rightarrow>
             SendConnectionClosedOrNoConnection K PB cw
         | k_ESteamNetworkingConnectionState_Connecting \<Rightarrow> cw
         | k_ESteamNetworkingConnectionState_Linger \<Rightarrow>
             (if \<not> m_pParentListenSocket c
              then (c, ReportBadPacketIPv4 c pszDebugPacketType
                         ''We are the 'client' who initiated the connection, so 'server' shouldn't be sending us this!''
                         usecNow w)
              else SendConnectOK K PB X usecNow cw)
         | k_ESteamNetworkingConnectionState_Connected \<Rightarrow>
             (if \<not> m_pParentListenSocket c
              then (c, ReportBadPacketIPv4 c pszDebugPacketType
                         ''We are the 'client' who initiated the connection, so 'server' shouldn't be sending us this!''
                         usecNow w)
              else SendConnectOK K PB X usecNow cw)
         | _ \<Rightarrow> (c, emit (AssertFailed ''false'') w)))"

text \<open>
  What the expansion of \<^verbatim>\<open>ParsePaddedPacket\<close> reports for each failure (lines 94, 101
  and 106), and \<^verbatim>\<open>PacketReceived\<close> (lines 1031 to 1087).
\<close>

definition padded_failure_text :: "padded_failure \<Rightarrow> string" where
  "padded_failure_text e =
     (case e of
        PacketTooSmall cbPkt \<Rightarrow> ''Packet is %d bytes, must be padded to at least %d bytes.''
      | InvalidMessageLength nMsgLength cbPkt \<Rightarrow>
          ''Invalid encoded message length %d.  Packet is %d bytes.''
      | ProtobufParseFailed \<Rightarrow> ''Protobuf parse failed.'')"

definition PacketReceived ::
  "udp_constants \<Rightarrow> protobuf_codec \<Rightarrow> 'g collaborators \<Rightarrow> uint8 list \<Rightarrow> netadr_t
    \<Rightarrow> SteamNetworkingMicroseconds \<Rightarrow> 'g conn_world \<Rightarrow> 'g conn_world" where
  "PacketReceived K PB X pkt adrFrom usecNow cw =
     (case cw of (c, w) \<Rightarrow>
      if length pkt < 5
      then (c, ReportBadPacketFrom adrFrom ''packet'' ''%d byte packet is too small'' usecNow w)
      else if ((pkt ! 0) AND 0x80) \<noteq> 0 then Received_Data K PB X pkt usecNow cw
      else
        let c1 = c\<lparr>m_statsEndToEnd :=
                     m_statsEndToEnd c @ [TrackRecvPacket (int (length pkt)) usecNow]\<rparr>;
            bad = (\<lambda>cls txt. (c1, ReportBadPacketFrom adrFrom cls txt usecNow w)) in
        if pkt ! 0 = k_ESteamNetworkingUDPMsg_ChallengeReply K then
          (case Parse_ChallengeReply PB (drop 1 pkt) of
             None \<Rightarrow> bad ''CMsgSteamSockets_UDP_ChallengeReply'' ''Protobuf parse failed.''
           | Some msg \<Rightarrow> Received_ChallengeReply K PB X msg usecNow (c1, w))
        else if pkt ! 0 = k_ESteamNetworkingUDPMsg_ConnectOK K then
          (case Parse_ConnectOK PB (drop 1 pkt) of
             None \<Rightarrow> bad ''CMsgSteamSockets_UDP_ConnectOK'' ''Protobuf parse failed.''
           | Some msg \<Rightarrow> Received_ConnectOK K PB X msg usecNow (c1, w))
        else if pkt ! 0 = k_ESteamNetworkingUDPMsg_ConnectionClosed K then
          (case ParsePaddedPacket (Parse_ConnectionClosed PB) pkt of
             Inl e \<Rightarrow> bad ''CMsgSteamSockets_UDP_ConnectionClosed'' (padded_failure_text e)
           | Inr msg \<Rightarrow> Received_ConnectionClosed K PB X msg usecNow (c1, w))
        else if pkt ! 0 = k_ESteamNetworkingUDPMsg_NoConnection K then
          (case Parse_NoConnection PB (drop 1 pkt) of
             None \<Rightarrow> bad ''CMsgSteamSockets_UDP_NoConnection'' ''Protobuf parse failed.''
           | Some msg \<Rightarrow> Received_NoConnection X msg usecNow (c1, w))
        else if pkt ! 0 = k_ESteamNetworkingUDPMsg_ChallengeRequest K then
          (case ParsePaddedPacket (Parse_ChallengeRequest PB) pkt of
             Inl e \<Rightarrow> bad ''CMsgSteamSockets_UDP_ChallengeRequest'' (padded_failure_text e)
           | Inr msg \<Rightarrow>
               Received_ChallengeOrConnectRequest K PB X ''ChallengeRequest''
                 (pbval (ChallengeRequest_connection_id msg)) usecNow (c1, w))
        else if pkt ! 0 = k_ESteamNetworkingUDPMsg_ConnectRequest K then
          (case Parse_ConnectRequest PB (drop 1 pkt) of
             None \<Rightarrow> bad ''CMsgSteamSockets_UDP_ConnectRequest'' ''Protobuf parse failed.''
           | Some msg \<Rightarrow>
               Received_ChallengeOrConnectRequest K PB X ''ConnectRequest''
                 (pbval (ConnectRequest_client_connection_id msg)) usecNow (c1, w))
        else bad ''packet'' ''Lead byte 0x%02x not a known message ID'')"

section \<open>The listen socket\<close>

text \<open>
  \<^verbatim>\<open>GenerateChallenge\<close> (lines 249 to 264). The packed struct is hashed as it lies in
  memory: time, port and the sixteen address bytes, the two 16-bit fields in the byte
  order of a little-endian host. \<^verbatim>\<open>GetChallengeTime\<close> (lines 266 to 269) shifts the
  signed 64-bit time and keeps the low sixteen bits.
\<close>

definition GenerateChallenge ::
  "'g collaborators \<Rightarrow> CSteamNetworkListenSocketDirectUDP \<Rightarrow> uint16 \<Rightarrow> netadr_t \<Rightarrow> uint64" where
  "GenerateChallenge X L nTime adr =
     (let data = LittleWord_bytes nTime @ LittleWord_bytes (netadr_port adr) @ netadr_ipv6 adr;
          nChallenge = siphash X data (m_argbChallengeSecret L) in
      (nChallenge AND 0xffffffffffff0000) OR ucast nTime)"

definition GetChallengeTime :: "SteamNetworkingMicroseconds \<Rightarrow> uint16" where
  "GetChallengeTime usecNow = ucast (signed_drop_bit 20 usecNow)"

text \<open>
  \<^verbatim>\<open>CSteamNetworkListenSocketDirectUDP::SendMsg\<close> (lines 474 to 495) and
  \<^verbatim>\<open>SendPaddedMsg\<close> (lines 497 to 512). The padded variant has neither the null check
  nor the size check of its siblings.
\<close>

definition ListenSocket_SendMsg ::
  "udp_constants \<Rightarrow> uint8 \<Rightarrow> uint8 list \<Rightarrow> netadr_t \<Rightarrow> CSteamNetworkListenSocketDirectUDP
    \<Rightarrow> 'g world \<Rightarrow> 'g world" where
  "ListenSocket_SendMsg K nMsgID body adrTo L w =
     (if \<not> m_pSock L then emit (AssertFailed ''false'') w
      else if length body + 1 > k_cbSteamNetworkingSocketsMaxUDPMsgLen K
      then emit (AssertFailed ''Msg type %d is %d bytes, larger than MTU of %d bytes'') w
      else emit (BSendRawPacket (nMsgID # body) adrTo) w)"

definition ListenSocket_SendPaddedMsg ::
  "udp_constants \<Rightarrow> uint8 \<Rightarrow> uint8 list \<Rightarrow> netadr_t \<Rightarrow> CSteamNetworkListenSocketDirectUDP
    \<Rightarrow> 'g world \<Rightarrow> 'g world" where
  "ListenSocket_SendPaddedMsg K nMsgID body adrTo L w =
     (let cap = k_cbSteamNetworkingSocketsMaxUDPMsgLen K;
          nMsgLength = length body in
      if sizeof_UDPPaddedMessageHdr + nMsgLength > cap
      then emit (UndefinedBehaviour ''write past the end of pkt'') w
      else
        let pkt = padded_pkt cap nMsgID body;
            cbPkt = max (sizeof_UDPPaddedMessageHdr + nMsgLength)
                      (nat k_cbSteamNetworkingMinPaddedPacketSize) in
        if cbPkt > cap then emit (UndefinedBehaviour ''read past the end of pkt'') w
        else if \<not> m_pSock L then emit (UndefinedBehaviour ''m_pSock is null'') w
        else emit (BSendRawPacket (take cbPkt pkt) adrTo) w)"

text \<open>\<^verbatim>\<open>Received_ChallengeRequest\<close> (lines 271 to 298).\<close>

definition Received_ChallengeRequest ::
  "udp_constants \<Rightarrow> protobuf_codec \<Rightarrow> 'g collaborators \<Rightarrow> CMsgSteamSockets_UDP_ChallengeRequest
    \<Rightarrow> netadr_t \<Rightarrow> SteamNetworkingMicroseconds \<Rightarrow> CSteamNetworkListenSocketDirectUDP
    \<Rightarrow> 'g world \<Rightarrow> 'g world" where
  "Received_ChallengeRequest K PB X msg adrFrom usecNow L w =
     (if pbval (ChallengeRequest_connection_id msg) = 0
      then ReportBadPacketFrom adrFrom ''ChallengeRequest'' ''Missing connection_id.'' usecNow w
      else
        let nTime = GetChallengeTime usecNow;
            nChallenge = GenerateChallenge X L nTime adrFrom;
            msgReply =
              \<lparr>ChallengeReply_connection_id = Some (pbval (ChallengeRequest_connection_id msg)),
               ChallengeReply_challenge = Some nChallenge,
               ChallengeReply_your_timestamp = Some (pbval (ChallengeRequest_my_timestamp msg)),
               ChallengeReply_protocol_version = Some (k_nCurrentProtocolVersion K)\<rparr> in
        ListenSocket_SendMsg K (k_ESteamNetworkingUDPMsg_ChallengeReply K)
          (Serialize_ChallengeReply PB msgReply) adrFrom L w)"

text \<open>
  The challenge check at the head of \<^verbatim>\<open>Received_ConnectRequest\<close> (lines 304 to 318):
  the time bucket is the low sixteen bits of the challenge, the age is a 16-bit
  difference, and the challenge is recomputed for that bucket and the packet's source.
\<close>

datatype challenge_verdict = ChallengeOK | ChallengeTooOld | ChallengeIncorrect

definition ConnectRequest_challenge_check ::
  "'g collaborators \<Rightarrow> CSteamNetworkListenSocketDirectUDP \<Rightarrow> uint64 \<Rightarrow> netadr_t
    \<Rightarrow> SteamNetworkingMicroseconds \<Rightarrow> challenge_verdict" where
  "ConnectRequest_challenge_check X L challenge adrFrom usecNow =
     (let nTimeThen = (ucast challenge :: uint16);
          nElapsed = GetChallengeTime usecNow - nTimeThen in
      if nElapsed > GetChallengeTime (4 * k_nMillion) then ChallengeTooOld
      else if GenerateChallenge X L nTimeThen adrFrom \<noteq> challenge then ChallengeIncorrect
      else ChallengeOK)"

text \<open>
  The identity a ConnectRequest presents, lines 327 to 402 of
  \<^verbatim>\<open>Received_ConnectRequest\<close>; a failure is the bad-packet report (type and text).
\<close>

definition ConnectRequest_identityRemote ::
  "'g collaborators \<Rightarrow> CSteamNetworkListenSocketDirectUDP \<Rightarrow> CMsgSteamSockets_UDP_ConnectRequest
    \<Rightarrow> netadr_t \<Rightarrow> (string \<times> string) + SteamNetworkingIdentity" where
  "ConnectRequest_identityRemote X L msg adrFrom =
     (case SteamNetworkingIdentityFromSignedCert X (ConnectRequest_cert msg) of
        (r, idCert) \<Rightarrow>
          if r < 0 then Inl (''ConnectRequest'', ''Bad identity in cert.  %s'')
          else
            (case (if r = 0
                   then
                     (case SteamNetworkingIdentityFromProtobuf X
                             (ConnectRequest_identity_string msg)
                             (ConnectRequest_legacy_identity_binary msg)
                             (ConnectRequest_legacy_client_steam_id msg) of
                        (r', idMsg) \<Rightarrow>
                          if r' < 0 then Inl (''ConnectRequest'', ''Bad identity.  %s'')
                          else Inr (False, if r' = 0 then LocalHost else idMsg))
                   else Inr (True, idCert)) of
               Inl e \<Rightarrow> Inl e
             | Inr (bIdentityInCert, identityRemote) \<Rightarrow>
                 if m_eType_IPAddress identityRemote
                 then
                   (if IsLocalHost identityRemote
                    then
                      (if m_listen_IP_AllowWithoutAuth L = 0
                       then Inl (''ConnectRequest'', ''Unauthenticated connections not allowed.'')
                       else Inr (IPAddress (netadr_ipv6 adrFrom) (netadr_port adrFrom)))
                    else if \<not> bIdentityInCert
                    then Inl (''ConnectRequest'', ''Cannot use specific IP address.'')
                    else Inr identityRemote)
                 else Inr identityRemote))"

text \<open>
  Modelled from the spec: \<^verbatim>\<open>AddChildConnection\<close> belongs to the listen socket's base
  class, outside these files. The spec describes the table as keyed by
  \<^verbatim>\<open>(remote_identity, remote_connection_id)\<close> with the listener holding the child; the
  model appends the entry and sets the child's back-reference. The table holds a pointer
  to the connection, so a later write to the connection shows in the table:
  \<open>sync_child\<close> stores the connection's current value under its key.
\<close>

definition AddChildConnection ::
  "CSteamNetworkConnectionUDP \<Rightarrow> CSteamNetworkListenSocketDirectUDP
    \<Rightarrow> CSteamNetworkConnectionUDP \<times> CSteamNetworkListenSocketDirectUDP" where
  "AddChildConnection c L =
     (let c' = c\<lparr>m_pParentListenSocket := True\<rparr> in
      (c', L\<lparr>m_mapChildConnections :=
               m_mapChildConnections L @ [((m_identityRemote c, m_unConnectionIDRemote c), c')]\<rparr>))"

definition sync_child ::
  "RemoteConnectionKey_t \<Rightarrow> CSteamNetworkConnectionUDP \<Rightarrow> CSteamNetworkListenSocketDirectUDP
    \<Rightarrow> CSteamNetworkListenSocketDirectUDP" where
  "sync_child key c L =
     L\<lparr>m_mapChildConnections :=
         map (\<lambda>(k, v). if k = key then (k, c) else (k, v)) (m_mapChildConnections L)\<rparr>"

text \<open>
  \<^verbatim>\<open>BBeginAccept\<close> (lines 870 to 921). The result is the return value, the connection,
  whether \<^verbatim>\<open>AddChildConnection\<close> was reached, the listener and the world.
\<close>

definition BBeginAccept ::
  "'g collaborators \<Rightarrow> netadr_t \<Rightarrow> SteamNetworkingIdentity \<Rightarrow> uint32
    \<Rightarrow> CMsgSteamDatagramCertificateSigned \<Rightarrow> CMsgSteamDatagramSessionCryptInfoSigned
    \<Rightarrow> CSteamNetworkConnectionUDP \<Rightarrow> CSteamNetworkListenSocketDirectUDP \<Rightarrow> 'g world
    \<Rightarrow> bool \<times> CSteamNetworkConnectionUDP \<times> CSteamNetworkListenSocketDirectUDP \<times> 'g world" where
  "BBeginAccept X adrFrom identityRemote unConnectionIDRemote msgCert msgCryptSessionInfo c L w =
     (if \<not> AddRemoteHost X adrFrom then (False, c, L, w)
      else
        (case AddChildConnection
                (c\<lparr>m_pSocket := Some adrFrom,
                   m_identityRemote := identityRemote,
                   m_unConnectionIDRemote := unConnectionIDRemote,
                   m_netAdrRemote := Some adrFrom\<rparr>) L of
           (c1, L1) \<Rightarrow>
             (case BInitConnection X (c1, w) of
                (False, (c2, w2)) \<Rightarrow> (False, c2\<lparr>m_pSocket := None\<rparr>, L1, w2)
              | (True, cw2) \<Rightarrow>
                  (case BRecvCryptoHandshake X msgCert msgCryptSessionInfo True cw2 of
                     (False, (c3, w3)) \<Rightarrow> (False, c3\<lparr>m_pSocket := None\<rparr>, L1, w3)
                   | (True, (c3, w3)) \<Rightarrow> (True, c3, L1, w3)))))"

text \<open>The reply to a duplicate session, as lines 419 to 422 fill it in.\<close>

definition ConnectionClosed_duplicate ::
  "udp_constants \<Rightarrow> uint32 \<Rightarrow> CMsgSteamSockets_UDP_ConnectionClosed" where
  "ConnectionClosed_duplicate K unClientConnectionID =
     \<lparr>ConnectionClosed_to_connection_id = Some unClientConnectionID,
      ConnectionClosed_from_connection_id = None,
      ConnectionClosed_reason_code = Some (k_ESteamNetConnectionEnd_Misc_Generic K),
      ConnectionClosed_debug = Some ''A connection with that ID already exists.''\<rparr>"

text \<open>
  \<^verbatim>\<open>CSteamNetworkListenSocketDirectUDP::Received_ConnectRequest\<close> (lines 300 to 459).
  \<open>NewConnection\<close> is what the base-class constructor leaves; the constructor of line
  520 then clears \<open>m_pSocket\<close>.
\<close>

definition Received_ConnectRequest ::
  "udp_constants \<Rightarrow> protobuf_codec \<Rightarrow> 'g collaborators \<Rightarrow> CMsgSteamSockets_UDP_ConnectRequest
    \<Rightarrow> netadr_t \<Rightarrow> int \<Rightarrow> SteamNetworkingMicroseconds
    \<Rightarrow> CSteamNetworkListenSocketDirectUDP \<times> 'g world
    \<Rightarrow> CSteamNetworkListenSocketDirectUDP \<times> 'g world" where
  "Received_ConnectRequest K PB X msg adrFrom cbPkt usecNow Lw =
     (case Lw of (L, w) \<Rightarrow>
      (case ConnectRequest_challenge_check X L (pbval (ConnectRequest_challenge msg)) adrFrom usecNow of
         ChallengeTooOld \<Rightarrow>
           (L, ReportBadPacketFrom adrFrom ''ConnectRequest'' ''Challenge too old.'' usecNow w)
       | ChallengeIncorrect \<Rightarrow>
           (L, ReportBadPacketFrom adrFrom ''ConnectRequest''
                 ''Incorrect challenge.  Could be spoofed.'' usecNow w)
       | ChallengeOK \<Rightarrow>
           let unClientConnectionID = pbval (ConnectRequest_client_connection_id msg) in
           if unClientConnectionID = 0
           then (L, ReportBadPacketFrom adrFrom ''ConnectRequest'' ''Missing connection ID'' usecNow w)
           else
             (case ConnectRequest_identityRemote X L msg adrFrom of
                Inl (pszMsgType, pszFmt) \<Rightarrow>
                  (L, ReportBadPacketFrom adrFrom pszMsgType pszFmt usecNow w)
              | Inr identityRemote \<Rightarrow>
                  (case map_of (m_mapChildConnections L) (identityRemote, unClientConnectionID) of
                     Some pOldConn \<Rightarrow>
                       let w1 = ReportBadPacketFrom adrFrom ''ConnectRequest''
                                  ''Rejecting connection request from %s at %s, connection ID %u.  That steamID/ConnectionID pair already has a connection from %s''
                                  usecNow w in
                       (L, ListenSocket_SendPaddedMsg K (k_ESteamNetworkingUDPMsg_ConnectionClosed K)
                             (Serialize_ConnectionClosed PB
                                (ConnectionClosed_duplicate K unClientConnectionID))
                             adrFrom L w1)
                   | None \<Rightarrow>
                       (case BBeginAccept X adrFrom identityRemote unClientConnectionID
                               (ConnectRequest_cert msg) (ConnectRequest_crypt msg)
                               ((NewConnection X)\<lparr>m_pSocket := None\<rparr>) L w of
                          (False, c1, L1, w1) \<Rightarrow>
                            Destroy X c1
                              (sync_child (identityRemote, unClientConnectionID) c1 L1,
                               emit (SpewWarning ''Failed to accept connection from %s.  %s'') w1)
                        | (True, c1, L1, w1) \<Rightarrow>
                            let c2 = c1\<lparr>m_statsEndToEnd :=
                                          m_statsEndToEnd c1 @ [TrackRecvPacket cbPkt usecNow]\<rparr> in
                            (case (case ConnectRequest_ping_est_ms msg of
                                     None \<Rightarrow> (c2, w1)
                                   | Some ping_est_ms \<Rightarrow>
                                       if ping_est_ms > 1500
                                       then (c2, emit (SpewWarning
                                                ''[%s] Ignoring really large ping estimate %u in connect request'') w1)
                                       else (c2\<lparr>m_statsEndToEnd :=
                                                  m_statsEndToEnd c2 @
                                                    [ReceivedPing (uint ping_est_ms) usecNow]\<rparr>, w1)) of
                               (c3, w3) \<Rightarrow>
                                 let c4 = (case ConnectRequest_my_timestamp msg of
                                             None \<Rightarrow> c3
                                           | Some ts \<Rightarrow>
                                               c3\<lparr>m_ulHandshakeRemoteTimestamp := ts,
                                                  m_usecWhenReceivedHandshakeRemoteTimestamp := usecNow\<rparr>) in
                                 (sync_child (identityRemote, unClientConnectionID) c4 L1, w3)))))))"

text \<open>
  \<^verbatim>\<open>CSteamNetworkListenSocketDirectUDP::Received_ConnectionClosed\<close> (lines 461 to 472).
\<close>

definition ListenSocket_Received_ConnectionClosed ::
  "udp_constants \<Rightarrow> protobuf_codec \<Rightarrow> CMsgSteamSockets_UDP_ConnectionClosed \<Rightarrow> netadr_t
    \<Rightarrow> SteamNetworkingMicroseconds \<Rightarrow> CSteamNetworkListenSocketDirectUDP
    \<Rightarrow> 'g world \<Rightarrow> 'g world" where
  "ListenSocket_Received_ConnectionClosed K PB msg adrFrom usecNow L w =
     (let msgReply =
            \<lparr>NoConnection_from_connection_id =
               set_if_nonzero (pbval (ConnectionClosed_to_connection_id msg)),
             NoConnection_to_connection_id =
               set_if_nonzero (pbval (ConnectionClosed_from_connection_id msg))\<rparr> in
      ListenSocket_SendMsg K (k_ESteamNetworkingUDPMsg_NoConnection K)
        (Serialize_NoConnection PB msgReply) adrFrom L w)"

text \<open>\<^verbatim>\<open>ReceivedFromUnknownHost\<close> (lines 182 to 247).\<close>

definition ReceivedFromUnknownHost ::
  "udp_constants \<Rightarrow> protobuf_codec \<Rightarrow> 'g collaborators \<Rightarrow> uint8 list \<Rightarrow> netadr_t
    \<Rightarrow> SteamNetworkingMicroseconds \<Rightarrow> CSteamNetworkListenSocketDirectUDP \<times> 'g world
    \<Rightarrow> CSteamNetworkListenSocketDirectUDP \<times> 'g world" where
  "ReceivedFromUnknownHost K PB X pkt adrFrom usecNow Lw =
     (case Lw of (L, w) \<Rightarrow>
      if length pkt < 5
      then (L, ReportBadPacketFrom adrFrom ''packet'' ''%d byte packet is too small'' usecNow w)
      else if ((pkt ! 0) AND 0x80) \<noteq> 0 then
        (if LittleDWord_at pkt 0 = 0xffffffff then (L, w)
         else (L, ReportBadPacketFrom adrFrom ''Data''
                    ''Stray data packet from host with no connection.  Ignoring.'' usecNow w))
      else if pkt ! 0 = k_ESteamNetworkingUDPMsg_ChallengeRequest K then
        (case ParsePaddedPacket (Parse_ChallengeRequest PB) pkt of
           Inl e \<Rightarrow>
             (L, ReportBadPacketFrom adrFrom ''CMsgSteamSockets_UDP_ChallengeRequest''
                   (padded_failure_text e) usecNow w)
         | Inr msg \<Rightarrow> (L, Received_ChallengeRequest K PB X msg adrFrom usecNow L w))
      else if pkt ! 0 = k_ESteamNetworkingUDPMsg_ConnectRequest K then
        (case Parse_ConnectRequest PB (drop 1 pkt) of
           None \<Rightarrow>
             (L, ReportBadPacketFrom adrFrom ''CMsgSteamSockets_UDP_ConnectRequest''
                   ''Protobuf parse failed.'' usecNow w)
         | Some msg \<Rightarrow>
             Received_ConnectRequest K PB X msg adrFrom (int (length pkt)) usecNow (L, w))
      else if pkt ! 0 = k_ESteamNetworkingUDPMsg_ConnectionClosed K then
        (case ParsePaddedPacket (Parse_ConnectionClosed PB) pkt of
           Inl e \<Rightarrow>
             (L, ReportBadPacketFrom adrFrom ''CMsgSteamSockets_UDP_ConnectionClosed''
                   (padded_failure_text e) usecNow w)
         | Inr msg \<Rightarrow> (L, ListenSocket_Received_ConnectionClosed K PB msg adrFrom usecNow L w))
      else if pkt ! 0 = k_ESteamNetworkingUDPMsg_NoConnection K then (L, w)
      else (L, ReportBadPacketFrom adrFrom ''packet'' ''Invalid lead byte 0x%02x'' usecNow w))"

section \<open>Reading a trace\<close>

text \<open>
  The datagrams a trace puts on the wire, oldest first: what the listener hands to
  \<^verbatim>\<open>BSendRawPacket\<close>, and the chunks a connection hands to
  \<^verbatim>\<open>BSendRawPacketGather\<close>, joined.
\<close>

fun sent_packets :: "effect list \<Rightarrow> uint8 list list" where
  "sent_packets [] = []"
| "sent_packets (BSendRawPacket p a # es) = p # sent_packets es"
| "sent_packets (BSendRawPacketGather chunks # es) = concat chunks # sent_packets es"
| "sent_packets (e # es) = sent_packets es"

fun decrypt_calls :: "effect list \<Rightarrow> effect list" where
  "decrypt_calls [] = []"
| "decrypt_calls (DecryptDataChunk_called n cb chunk # es) =
     DecryptDataChunk_called n cb chunk # decrypt_calls es"
| "decrypt_calls (e # es) = decrypt_calls es"

text \<open>The datagrams sent between an earlier world and a later one.\<close>

definition packets_since :: "'g world \<Rightarrow> 'g world \<Rightarrow> uint8 list list" where
  "packets_since w w' = drop (length (sent_packets (trace w))) (sent_packets (trace w'))"

text \<open>
  A padded datagram as the claims describe it: at least 512 bytes, and nothing but
  zeros behind the header and the \<open>n\<close> bytes of the body.
\<close>

definition zero_padded :: "nat \<Rightarrow> uint8 list \<Rightarrow> bool" where
  "zero_padded n p = (512 \<le> length p \<and> list_all (\<lambda>b. b = 0) (drop (3 + n) p))"

section \<open>A concrete instance of the parameters\<close>

text \<open>
  Values for the constants, a small codec and simple collaborators, used to run the
  model on sample packets. The codec writes each field that is set as a tag byte and
  the value in little-endian order; its parsers read the fields the samples need.
\<close>

definition LittleDWord_bytes :: "uint32 \<Rightarrow> uint8 list" where
  "LittleDWord_bytes w = [ucast w, ucast (drop_bit 8 w), ucast (drop_bit 16 w), ucast (drop_bit 24 w)]"

definition LittleQWord_bytes :: "uint64 \<Rightarrow> uint8 list" where
  "LittleQWord_bytes w = LittleDWord_bytes (ucast w) @ LittleDWord_bytes (ucast (drop_bit 32 w))"

definition LittleQWord_at :: "uint8 list \<Rightarrow> nat \<Rightarrow> uint64" where
  "LittleQWord_at pkt i = ucast (LittleDWord_at pkt i) OR push_bit 32 (ucast (LittleDWord_at pkt (i + 4)))"

definition sample_field32 :: "uint8 \<Rightarrow> uint32 option \<Rightarrow> uint8 list" where
  "sample_field32 t f = (case f of None \<Rightarrow> [] | Some v \<Rightarrow> t # LittleDWord_bytes v)"

definition sample_field64 :: "uint8 \<Rightarrow> uint64 option \<Rightarrow> uint8 list" where
  "sample_field64 t f = (case f of None \<Rightarrow> [] | Some v \<Rightarrow> t # LittleQWord_bytes v)"

definition sample_constants :: udp_constants where
  "sample_constants =
     \<lparr>k_ESteamNetworkingUDPMsg_ChallengeRequest = 32,
      k_ESteamNetworkingUDPMsg_ChallengeReply = 33,
      k_ESteamNetworkingUDPMsg_ConnectRequest = 34,
      k_ESteamNetworkingUDPMsg_ConnectOK = 35,
      k_ESteamNetworkingUDPMsg_ConnectionClosed = 36,
      k_ESteamNetworkingUDPMsg_NoConnection = 37,
      k_cbSteamNetworkingSocketsMaxUDPMsgLen = 1300,
      k_nCurrentProtocolVersion = 5,
      k_nMinRequiredProtocolVersion = 3,
      k_ESteamNetConnectionEnd_Misc_Generic = 5001,
      k_ESteamNetConnectionEnd_Misc_InternalError = 5002,
      k_ESteamNetConnectionEnd_Remote_BadCrypt = 4003,
      k_usecConnectRetryInterval = 1000000\<rparr>"

definition sample_codec :: protobuf_codec where
  "sample_codec =
     \<lparr>Parse_ChallengeRequest =
        (\<lambda>b. if length b = 5 \<and> b ! 0 = 0x0d
             then Some \<lparr>ChallengeRequest_connection_id = Some (LittleDWord_at b 1),
                        ChallengeRequest_my_timestamp = None,
                        ChallengeRequest_protocol_version = None\<rparr>
             else None),
      Parse_ChallengeReply = (\<lambda>b. None),
      Parse_ConnectRequest =
        (\<lambda>b. if length b = 14 \<and> b ! 0 = 0x0d \<and> b ! 5 = 0x11
             then Some \<lparr>ConnectRequest_client_connection_id = Some (LittleDWord_at b 1),
                        ConnectRequest_challenge = Some (LittleQWord_at b 6),
                        ConnectRequest_my_timestamp = None,
                        ConnectRequest_ping_est_ms = None,
                        ConnectRequest_cert = None,
                        ConnectRequest_crypt = None,
                        ConnectRequest_identity_string = None,
                        ConnectRequest_legacy_identity_binary = None,
                        ConnectRequest_legacy_client_steam_id = None\<rparr>
             else None),
      Parse_ConnectOK = (\<lambda>b. None),
      Parse_ConnectionClosed =
        (\<lambda>b. if length b = 5 \<and> b ! 0 = 0x25
             then Some \<lparr>ConnectionClosed_to_connection_id = Some (LittleDWord_at b 1),
                        ConnectionClosed_from_connection_id = None,
                        ConnectionClosed_reason_code = None,
                        ConnectionClosed_debug = None\<rparr>
             else None),
      Parse_NoConnection = (\<lambda>b. None),
      Parse_Stats = (\<lambda>b. None),
      Serialize_ChallengeRequest =
        (\<lambda>m. sample_field32 0x0d (ChallengeRequest_connection_id m)
             @ sample_field64 0x19 (ChallengeRequest_my_timestamp m)
             @ sample_field32 0x20 (ChallengeRequest_protocol_version m)),
      Serialize_ChallengeReply =
        (\<lambda>m. sample_field32 0x0d (ChallengeReply_connection_id m)
             @ sample_field64 0x11 (ChallengeReply_challenge m)
             @ sample_field64 0x19 (ChallengeReply_your_timestamp m)
             @ sample_field32 0x20 (ChallengeReply_protocol_version m)),
      Serialize_ConnectRequest =
        (\<lambda>m. sample_field32 0x0d (ConnectRequest_client_connection_id m)
             @ sample_field64 0x11 (ConnectRequest_challenge m)),
      Serialize_ConnectOK =
        (\<lambda>m. sample_field32 0x0d (ConnectOK_client_connection_id m)
             @ sample_field32 0x2d (ConnectOK_server_connection_id m)),
      Serialize_ConnectionClosed =
        (\<lambda>m. sample_field32 0x25 (ConnectionClosed_to_connection_id m)
             @ sample_field32 0x2d (ConnectionClosed_from_connection_id m)
             @ sample_field32 0x18 (ConnectionClosed_reason_code m)),
      Serialize_NoConnection =
        (\<lambda>m. sample_field32 0x15 (NoConnection_from_connection_id m)
             @ sample_field32 0x1d (NoConnection_to_connection_id m))\<rparr>"

definition sample_siphash :: "uint8 list \<Rightarrow> uint8 list \<Rightarrow> uint64" where
  "sample_siphash data key = of_nat (sum_list (map unat (data @ key))) * 0x9E3779B97F4A7C15"

definition sample_client_adr :: netadr_t where
  "sample_client_adr =
     \<lparr>netadr_ipv6 = [0x20, 0x01, 0x0d, 0xb8, 0, 0, 0, 0, 0, 0, 0, 0, 0, 0, 0, 1],
      netadr_port = 27015\<rparr>"

definition sample_server_adr :: netadr_t where
  "sample_server_adr =
     \<lparr>netadr_ipv6 = [0x20, 0x01, 0x0d, 0xb8, 0, 0, 0, 0, 0, 0, 0, 0, 0, 0, 0, 2],
      netadr_port = 27016\<rparr>"

text \<open>
  A client connection in the middle of its handshake: it knows which server it expects
  (\<open>SteamID 76\<close>) and has not yet learnt the server's connection ID.
\<close>

definition sample_client :: CSteamNetworkConnectionUDP where
  "sample_client =
     \<lparr>m_pSocket = Some sample_server_adr,
      m_pParentListenSocket = False,
      m_eConnectionState = k_ESteamNetworkingConnectionState_Connecting,
      m_unConnectionIDLocal = 0xAAAA0001,
      m_unConnectionIDRemote = 0,
      m_identityLocal = SteamID 42,
      m_identityRemote = SteamID 76,
      m_netAdrRemote = Some sample_server_adr,
      m_msgSignedCertLocal = Some [1],
      m_msgSignedCryptLocal = Some [2],
      m_bCertHasIdentity = True,
      m_IP_AllowWithoutAuth = 1,
      m_eEndReason = 0,
      m_szEndDebug = [],
      m_ulHandshakeRemoteTimestamp = 0,
      m_usecWhenReceivedHandshakeRemoteTimestamp = 0,
      m_usecWhenSentConnectRequest = 0,
      m_statsEndToEnd = []\<rparr>"

text \<open>
  A connection the listener accepted earlier from another address, whose cert asserted
  the IP identity of \<open>sample_client_adr\<close>.
\<close>

definition sample_child :: CSteamNetworkConnectionUDP where
  "sample_child =
     \<lparr>m_pSocket = Some sample_server_adr,
      m_pParentListenSocket = True,
      m_eConnectionState = k_ESteamNetworkingConnectionState_Connected,
      m_unConnectionIDLocal = 0xBBBB0002,
      m_unConnectionIDRemote = 0xAAAA0001,
      m_identityLocal = SteamID 76,
      m_identityRemote = IPAddress (netadr_ipv6 sample_client_adr) (netadr_port sample_client_adr),
      m_netAdrRemote = Some sample_server_adr,
      m_msgSignedCertLocal = Some [1],
      m_msgSignedCryptLocal = Some [2],
      m_bCertHasIdentity = True,
      m_IP_AllowWithoutAuth = 1,
      m_eEndReason = 0,
      m_szEndDebug = [],
      m_ulHandshakeRemoteTimestamp = 0,
      m_usecWhenReceivedHandshakeRemoteTimestamp = 0,
      m_usecWhenSentConnectRequest = 0,
      m_statsEndToEnd = []\<rparr>"

definition sample_listener :: CSteamNetworkListenSocketDirectUDP where
  "sample_listener =
     \<lparr>m_pSock = True,
      m_argbChallengeSecret = [1, 2, 3, 4, 5, 6, 7, 8, 9, 10, 11, 12, 13, 14, 15, 16],
      m_mapChildConnections =
        [((IPAddress (netadr_ipv6 sample_client_adr) (netadr_port sample_client_adr), 0xAAAA0001),
          sample_child)],
      m_listen_IP_AllowWithoutAuth = 1\<rparr>"

text \<open>
  The collaborators of the instance. The gate for unsolicited replies keeps the time of
  the last reply it let through and allows one every quarter of a second.
\<close>

definition sample_collaborators :: "int64 collaborators" where
  "sample_collaborators =
     \<lparr>siphash = sample_siphash,
      SteamNetworkingIdentityFromSignedCert = (\<lambda>cert. (0, Invalid)),
      SteamNetworkingIdentityFromProtobuf =
        (\<lambda>s b legacy. case legacy of None \<Rightarrow> (0, Invalid) | Some v \<Rightarrow> (1, SteamID v)),
      SteamNetworkingIdentityToProtobuf = (\<lambda>i. (None, None, set_if_nonzero (GetSteamID64 i))),
      BCheckGlobalSpamReplyRateLimit =
        (\<lambda>usecNow last. if usecNow <s last + 250000 then (False, last) else (True, usecNow)),
      m_nSmoothedPing = (\<lambda>calls. - 1),
      DeserializeVarInt = (\<lambda>b. None),
      DecryptDataChunk = (\<lambda>n cb chunk usecNow cw. ((0, []), cw)),
      ProcessPlainTextDataChunk = (\<lambda>n plain usecNow cw. (False, cw)),
      RecvStats = (\<lambda>m b usecNow cw. cw),
      NewConnection = sample_child,
      AddRemoteHost = (\<lambda>a. True),
      BInitConnection = (\<lambda>cw. (True, cw)),
      BRecvCryptoHandshake = (\<lambda>cert crypt b cw. (True, cw)),
      Destroy = (\<lambda>c Lw. Lw),
      ConnectionState_ProblemDetectedLocally =
        (\<lambda>r d cw. ((fst cw)\<lparr>m_eConnectionState :=
                                  k_ESteamNetworkingConnectionState_ProblemDetectedLocally,
                                m_eEndReason := r, m_szEndDebug := d\<rparr>, snd cw)),
      ConnectionState_Connected =
        (\<lambda>usecNow cw. ((fst cw)\<lparr>m_eConnectionState :=
                                      k_ESteamNetworkingConnectionState_Connected\<rparr>, snd cw)),
      ConnectionState_ClosedByPeer =
        (\<lambda>r d cw.
           if GetState (fst cw) = k_ESteamNetworkingConnectionState_Connecting
              \<or> GetState (fst cw) = k_ESteamNetworkingConnectionState_Connected
           then ((fst cw)\<lparr>m_eConnectionState := k_ESteamNetworkingConnectionState_ClosedByPeer,
                           m_eEndReason := r, m_szEndDebug := d\<rparr>, snd cw)
           else cw)\<rparr>"

definition sample_world :: "int64 world" where
  "sample_world = \<lparr>s_usecLastReport = 0, s_spamReplyLimiter = 0, trace = []\<rparr>"

text \<open>Sample inputs: a spoofed ConnectRequest (challenge zero) and a padded ChallengeRequest.\<close>

definition sample_spoofed_ConnectRequest :: CMsgSteamSockets_UDP_ConnectRequest where
  "sample_spoofed_ConnectRequest =
     \<lparr>ConnectRequest_client_connection_id = Some 0xAAAA0001,
      ConnectRequest_challenge = Some 0,
      ConnectRequest_my_timestamp = None,
      ConnectRequest_ping_est_ms = None,
      ConnectRequest_cert = None,
      ConnectRequest_crypt = None,
      ConnectRequest_identity_string = None,
      ConnectRequest_legacy_identity_binary = None,
      ConnectRequest_legacy_client_steam_id = None\<rparr>"

definition sample_ChallengeRequest_pkt :: "uint8 list" where
  "sample_ChallengeRequest_pkt = 32 # 5 # 0 # 0x0d # 0x01 # 0x00 # 0xAA # 0xAA # replicate 504 0"

definition sample_ChallengeRequest :: CMsgSteamSockets_UDP_ChallengeRequest where
  "sample_ChallengeRequest =
     \<lparr>ChallengeRequest_connection_id = Some 0xAAAA0001,
      ChallengeRequest_my_timestamp = None,
      ChallengeRequest_protocol_version = None\<rparr>"

text \<open>A data packet addressed to connection ID \<open>0xDEAD\<close>.\<close>

definition sample_data_pkt :: "uint8 list" where
  "sample_data_pkt = [0x80, 0xAD, 0xDE, 0x00, 0x00, 0x01, 0x00, 0x55, 0x66]"

text \<open>
  A ConnectionClosed that names no connection ID, a connection whose peer has closed
  it, the peer's retransmitted ConnectionClosed, and a world in which the gate for
  unsolicited replies has just let a reply through.
\<close>

definition sample_bare_ConnectionClosed :: CMsgSteamSockets_UDP_ConnectionClosed where
  "sample_bare_ConnectionClosed =
     \<lparr>ConnectionClosed_to_connection_id = None,
      ConnectionClosed_from_connection_id = None,
      ConnectionClosed_reason_code = Some 1000,
      ConnectionClosed_debug = None\<rparr>"

definition sample_closed_by_peer :: CSteamNetworkConnectionUDP where
  "sample_closed_by_peer =
     sample_client\<lparr>m_eConnectionState := k_ESteamNetworkingConnectionState_ClosedByPeer,
                   m_unConnectionIDRemote := 0xBBBB0002\<rparr>"

definition sample_ConnectionClosed :: CMsgSteamSockets_UDP_ConnectionClosed where
  "sample_ConnectionClosed =
     \<lparr>ConnectionClosed_to_connection_id = Some 0xAAAA0001,
      ConnectionClosed_from_connection_id = Some 0xBBBB0002,
      ConnectionClosed_reason_code = Some 1000,
      ConnectionClosed_debug = Some ''bye''\<rparr>"

definition sample_busy_world :: "int64 world" where
  "sample_busy_world = \<lparr>s_usecLastReport = 0, s_spamReplyLimiter = 10485760, trace = []\<rparr>"

text \<open>
  A ConnectOK for the sample client that presents \<open>SteamID 99\<close>, not the server the
  client expects; it echoes a timestamp taken 45 milliseconds before \<open>10485760\<close>.
\<close>

definition sample_ConnectOK :: CMsgSteamSockets_UDP_ConnectOK where
  "sample_ConnectOK =
     \<lparr>ConnectOK_client_connection_id = Some 0xAAAA0001,
      ConnectOK_server_connection_id = Some 0xBBBB0002,
      ConnectOK_your_timestamp = Some 10440760,
      ConnectOK_delay_time_usec = Some 5000,
      ConnectOK_cert = None,
      ConnectOK_crypt = None,
      ConnectOK_identity_string = None,
      ConnectOK_legacy_identity_binary = None,
      ConnectOK_legacy_server_steam_id = Some 99\<rparr>"

text \<open>
  A ChallengeReply and a ConnectOK that the sample client accepts: both carry its
  connection ID and echo the same timestamp; the ConnectOK comes from the expected
  server.
\<close>

definition sample_ChallengeReply :: CMsgSteamSockets_UDP_ChallengeReply where
  "sample_ChallengeReply =
     \<lparr>ChallengeReply_connection_id = Some 0xAAAA0001,
      ChallengeReply_challenge = Some 0x25899ED4D19C000A,
      ChallengeReply_your_timestamp = Some 10440760,
      ChallengeReply_protocol_version = Some 5\<rparr>"

definition sample_expected_ConnectOK :: CMsgSteamSockets_UDP_ConnectOK where
  "sample_expected_ConnectOK = sample_ConnectOK\<lparr>ConnectOK_legacy_server_steam_id := Some 76\<rparr>"

text \<open>
  The spoofed ConnectRequest again, now with the challenge the sample listener issues
  to \<open>sample_client_adr\<close> for time bucket 0.
\<close>

definition sample_duplicate_ConnectRequest :: CMsgSteamSockets_UDP_ConnectRequest where
  "sample_duplicate_ConnectRequest =
     sample_spoofed_ConnectRequest\<lparr>ConnectRequest_challenge := Some 0x25899ED4D19C0000\<rparr>"

text \<open>
  A padded ConnectionClosed packet addressed to connection ID \<open>0xAAAA0001\<close>, and the
  message the sample codec reads from it.
\<close>

definition sample_ConnectionClosed_pkt :: "uint8 list" where
  "sample_ConnectionClosed_pkt = 36 # 5 # 0 # 0x25 # 0x01 # 0x00 # 0xAA # 0xAA # replicate 504 0"

definition sample_parsed_ConnectionClosed :: CMsgSteamSockets_UDP_ConnectionClosed where
  "sample_parsed_ConnectionClosed =
     \<lparr>ConnectionClosed_to_connection_id = Some 0xAAAA0001,
      ConnectionClosed_from_connection_id = None,
      ConnectionClosed_reason_code = None,
      ConnectionClosed_debug = None\<rparr>"



section \<open>Properties\<close>

subsection \<open>Helper facts\<close>

lemma sent_packets_append: "sent_packets (xs @ ys) = sent_packets xs @ sent_packets ys"
  by (induction xs rule: sent_packets.induct) auto

lemma sent_packets_ReportBadPacketFrom:
  "sent_packets (trace (ReportBadPacketFrom a t f n w)) = sent_packets (trace w)"
  by (auto simp: ReportBadPacketFrom_def BCheckRateLimitReportBadPacket_def emit_def
      sent_packets_append split: prod.splits bool.splits if_splits)

lemma GetChallengeTime_4M: "GetChallengeTime (4 * k_nMillion) = 3"
  by (simp add: GetChallengeTime_def k_nMillion_def)

lemma challenge_mask: "(0xffffffffffff0000 :: 64 word) = push_bit 16 (mask 48)"
  by (simp add: mask_eq_exp_minus_1)

lemma challenge_low16:
  "(ucast ((h AND 0xffffffffffff0000) OR ucast (t :: 16 word) :: 64 word) :: 16 word) = t"
  unfolding challenge_mask
  by (rule bit_word_eqI) (auto simp: bit_simps)

lemma challenge_check_own:
  "ConnectRequest_challenge_check X L (GenerateChallenge X L t adr) adr usecNow = ChallengeOK
     \<longleftrightarrow> GetChallengeTime usecNow - t \<le> 3"
proof -
  have low: "(ucast (GenerateChallenge X L t adr) :: 16 word) = t"
    by (simp add: GenerateChallenge_def Let_def challenge_low16)
  show ?thesis
    by (auto simp: ConnectRequest_challenge_check_def Let_def GetChallengeTime_4M low)
qed

lemma challenge_check_mismatch:
  "GenerateChallenge X L (ucast c) adr \<noteq> c \<Longrightarrow>
   ConnectRequest_challenge_check X L c adr usecNow \<noteq> ChallengeOK"
  by (auto simp: ConnectRequest_challenge_check_def Let_def)

lemma Received_ConnectRequest_rejected:
  "ConnectRequest_challenge_check X L (pbval (ConnectRequest_challenge msg)) adr usecNow
     \<noteq> ChallengeOK \<Longrightarrow>
   fst (Received_ConnectRequest K PB X msg adr cb usecNow (L, w)) = L \<and>
   sent_packets (trace (snd (Received_ConnectRequest K PB X msg adr cb usecNow (L, w))))
     = sent_packets (trace w)"
  by (cases "ConnectRequest_challenge_check X L (pbval (ConnectRequest_challenge msg)) adr usecNow")
     (simp_all add: Received_ConnectRequest_def sent_packets_ReportBadPacketFrom)

lemma sample_challenge_0:
  "GenerateChallenge sample_collaborators sample_listener 0 sample_client_adr = 0x25899ED4D19C0000"
  by (simp add: GenerateChallenge_def sample_collaborators_def sample_listener_def
      sample_client_adr_def sample_siphash_def LittleWord_bytes_def Let_def)

lemma ParsePaddedPacket_Inr_iff:
  "ParsePaddedPacket P pkt = Inr m \<longleftrightarrow>
     512 \<le> length pkt \<and> 0 < uint (LittleWord_at pkt 1)
     \<and> 3 + uint (LittleWord_at pkt 1) \<le> int (length pkt)
     \<and> P (take (unat (LittleWord_at pkt 1)) (drop 3 pkt)) = Some m"
  by (auto simp: ParsePaddedPacket_def Let_def k_cbSteamNetworkingMinPaddedPacketSize_def
      sizeof_UDPPaddedMessageHdr_def less_le split: option.splits)

lemma sample_ChallengeRequest_pkt_length: "length sample_ChallengeRequest_pkt = 512"
  by (simp add: sample_ChallengeRequest_pkt_def)

lemma sample_ChallengeRequest_pkt_hdr: "LittleWord_at sample_ChallengeRequest_pkt 1 = 5"
  by (simp add: sample_ChallengeRequest_pkt_def LittleWord_at_def)

lemma sample_ChallengeRequest_pkt_body:
  "take 5 (drop 3 sample_ChallengeRequest_pkt) = [0x0d, 0x01, 0x00, 0xAA, 0xAA]"
  by (simp add: sample_ChallengeRequest_pkt_def)

lemma sample_ChallengeRequest_pkt_parse:
  "ParsePaddedPacket (Parse_ChallengeRequest sample_codec) sample_ChallengeRequest_pkt
     = Inr sample_ChallengeRequest"
  unfolding ParsePaddedPacket_Inr_iff
  using sample_ChallengeRequest_pkt_length sample_ChallengeRequest_pkt_hdr
    sample_ChallengeRequest_pkt_body
  by (simp add: sample_codec_def LittleDWord_at_def sample_ChallengeRequest_def)

lemma packets_sinceI:
  "sent_packets (trace w') = sent_packets (trace w) @ ps \<Longrightarrow> packets_since w w' = ps"
  by (simp add: packets_since_def)

lemma sent_packets_emit:
  "sent_packets (trace (emit e w)) = sent_packets (trace w) @ sent_packets [e]"
  by (simp add: emit_def sent_packets_append)

lemma write_at_zeroes:
  assumes "length hdr = 3" "3 + length body \<le> cap"
  shows "write_at (write_at (replicate cap 0) 0 hdr) 3 body
           = hdr @ body @ replicate (cap - 3 - length body) 0"
proof -
  have 1: "write_at (replicate cap 0) 0 hdr = hdr @ replicate (cap - 3) 0"
    using assms by (simp add: write_at_def)
  have 2: "take 3 (hdr @ replicate (cap - 3) 0) = hdr"
    using assms by simp
  have 3: "drop (3 + length body) (hdr @ replicate (cap - 3) 0)
             = replicate (cap - 3 - length body) 0"
    using assms by simp
  show ?thesis
    unfolding 1 by (simp only: write_at_def 2 3)
qed

lemma padded_pkt_eq:
  "3 + length body \<le> cap \<Longrightarrow>
   padded_pkt cap nMsgID body
     = (nMsgID # LittleWord_bytes (of_nat (length body))) @ body
         @ replicate (cap - 3 - length body) 0"
  unfolding padded_pkt_def sizeof_UDPPaddedMessageHdr_def
  by (rule write_at_zeroes) (simp_all add: LittleWord_bytes_def)

lemma take_hdr_body_zeroes:
  assumes "length hb \<le> n" "n \<le> length hb + k"
  shows "take n (hb @ replicate k (0 :: uint8)) = hb @ replicate (n - length hb) 0"
  using assms by (auto simp: min_def)

lemma zero_padded_take:
  assumes "3 + length body \<le> cap" "max (3 + length body) 512 \<le> cap"
  shows "zero_padded (length body) (take (max (3 + length body) 512) (padded_pkt cap nMsgID body))"
proof -
  let ?hb = "(nMsgID # LittleWord_bytes (of_nat (length body))) @ body"
  let ?n = "max (3 + length body) 512"
  have len: "length ?hb = 3 + length body"
    by (simp add: LittleWord_bytes_def)
  have "padded_pkt cap nMsgID body = ?hb @ replicate (cap - 3 - length body) 0"
    using assms(1) by (simp add: padded_pkt_eq)
  then have "take ?n (padded_pkt cap nMsgID body) = ?hb @ replicate (?n - length ?hb) 0"
  proof -
    have "take ?n (?hb @ replicate (cap - 3 - length body) 0) = ?hb @ replicate (?n - length ?hb) 0"
      using assms len by (intro take_hdr_body_zeroes) auto
    then show "padded_pkt cap nMsgID body = ?hb @ replicate (cap - 3 - length body) 0 \<Longrightarrow>
      take ?n (padded_pkt cap nMsgID body) = ?hb @ replicate (?n - length ?hb) 0"
      by simp
  qed
  then have eq: "take ?n (padded_pkt cap nMsgID body) = ?hb @ replicate (?n - (3 + length body)) 0"
    by (simp only: len)
  have "512 \<le> length (?hb @ replicate (?n - (3 + length body)) 0)"
    by (simp only: length_append len length_replicate) (auto simp: LittleWord_bytes_def)
  moreover have "drop (3 + length body) (?hb @ replicate (?n - (3 + length body)) 0)
                   = replicate (?n - (3 + length body)) 0"
    using len by (simp only: drop_append) simp
  ultimately show ?thesis
    unfolding zero_padded_def eq by (simp add: list_all_iff)
qed

lemma sent_SendPacket:
  "sent_packets (trace (snd (SendPacket pkt (c, w))))
     = sent_packets (trace w) @ (if m_pSocket c = None then [] else [pkt])"
  by (simp add: SendPacket_def SendPacketGather_def sent_packets_emit)

lemma sent_SendPaddedMsg:
  "sent_packets (trace (snd (SendPaddedMsg K nMsgID body (c, w))))
     = sent_packets (trace w) @
        (if 3 + length body \<le> k_cbSteamNetworkingSocketsMaxUDPMsgLen K
            \<and> 512 \<le> k_cbSteamNetworkingSocketsMaxUDPMsgLen K \<and> m_pSocket c \<noteq> None
         then [take (max (3 + length body) 512)
                 (padded_pkt (k_cbSteamNetworkingSocketsMaxUDPMsgLen K) nMsgID body)]
         else [])"
  by (auto simp: SendPaddedMsg_def Let_def sent_SendPacket sent_packets_emit
      sizeof_UDPPaddedMessageHdr_def k_cbSteamNetworkingMinPaddedPacketSize_def)

lemma sent_ListenSocket_SendPaddedMsg:
  "sent_packets (trace (ListenSocket_SendPaddedMsg K nMsgID body adrTo L w))
     = sent_packets (trace w) @
        (if 3 + length body \<le> k_cbSteamNetworkingSocketsMaxUDPMsgLen K
            \<and> 512 \<le> k_cbSteamNetworkingSocketsMaxUDPMsgLen K \<and> m_pSock L
         then [take (max (3 + length body) 512)
                 (padded_pkt (k_cbSteamNetworkingSocketsMaxUDPMsgLen K) nMsgID body)]
         else [])"
  by (auto simp: ListenSocket_SendPaddedMsg_def Let_def sent_packets_emit
      sizeof_UDPPaddedMessageHdr_def k_cbSteamNetworkingMinPaddedPacketSize_def)

lemma SendPaddedMsg_zero_padded:
  "list_all (zero_padded (length body))
     (packets_since w (snd (SendPaddedMsg K nMsgID body (c, w))))"
  by (subst packets_sinceI [OF sent_SendPaddedMsg]) (simp add: zero_padded_take)

lemma ListenSocket_SendPaddedMsg_zero_padded:
  "list_all (zero_padded (length body))
     (packets_since w (ListenSocket_SendPaddedMsg K nMsgID body adrTo L w))"
  by (subst packets_sinceI [OF sent_ListenSocket_SendPaddedMsg]) (simp add: zero_padded_take)

lemma SendEndToEndConnectRequest_trace:
  "trace (snd (SendEndToEndConnectRequest K PB usecNow cw))
     = trace (snd (SendPaddedMsg K (k_ESteamNetworkingUDPMsg_ChallengeRequest K)
             (Serialize_ChallengeRequest PB (ChallengeRequest_of K (fst cw) usecNow)) cw))"
  by (simp add: SendEndToEndConnectRequest_def split: prod.splits)

lemma Received_Data_too_small:
  "length pkt < 7 \<Longrightarrow>
   Received_Data K PB X pkt usecNow (c, w)
     = (c, ReportBadPacketIPv4 c ''DataPacket'' ''Packet of size %d is too small.'' usecNow w)"
  unfolding Received_Data_def sizeof_UDPDataMsgHdr_def
  by (simp only: prod.case if_True)

lemma Received_Data_wrong_id:
  "\<not> length pkt < 7 \<Longrightarrow> LittleDWord_at pkt 1 \<noteq> m_unConnectionIDLocal c \<Longrightarrow>
   Received_Data K PB X pkt usecNow (c, w)
     = (let w1 = ReportBadPacketIPv4 c ''DataPacket'' ''Incorrect connection ID'' usecNow w in
         case BCheckGlobalSpamReplyRateLimit X usecNow (s_spamReplyLimiter w1) of
           (True, g') \<Rightarrow>
             SendNoConnection K PB (LittleDWord_at pkt 1) 0 (c, w1\<lparr>s_spamReplyLimiter := g'\<rparr>)
         | (False, g') \<Rightarrow> (c, w1\<lparr>s_spamReplyLimiter := g'\<rparr>))"
  unfolding Received_Data_def sizeof_UDPDataMsgHdr_def
  by (simp only: prod.case if_True if_False simp_thms)

lemma decrypt_calls_append: "decrypt_calls (xs @ ys) = decrypt_calls xs @ decrypt_calls ys"
  by (induction xs rule: decrypt_calls.induct) auto

lemma decrypt_calls_emit:
  "decrypt_calls (trace (emit e w)) = decrypt_calls (trace w) @ decrypt_calls [e]"
  by (simp add: emit_def decrypt_calls_append)

lemma BCheckRateLimitReportBadPacket_frame:
  "trace (snd (BCheckRateLimitReportBadPacket n w)) = trace w"
  "s_spamReplyLimiter (snd (BCheckRateLimitReportBadPacket n w)) = s_spamReplyLimiter w"
  by (simp_all add: BCheckRateLimitReportBadPacket_def)

lemma ReportBadPacketIPv4_frame:
  "sent_packets (trace (ReportBadPacketIPv4 c t f n w)) = sent_packets (trace w)"
  "decrypt_calls (trace (ReportBadPacketIPv4 c t f n w)) = decrypt_calls (trace w)"
  "s_spamReplyLimiter (ReportBadPacketIPv4 c t f n w) = s_spamReplyLimiter w"
  by (auto simp: ReportBadPacketIPv4_def BCheckRateLimitReportBadPacket_def emit_def
      sent_packets_append decrypt_calls_append split: option.splits)

lemma SendMsg_eq:
  "SendMsg K nMsgID body (c, w) =
     (if length body + 1 \<le> k_cbSteamNetworkingSocketsMaxUDPMsgLen K \<and> m_pSocket c \<noteq> None
      then (c\<lparr>m_statsEndToEnd := m_statsEndToEnd c @ [TrackSentPacket (int (length body) + 1)]\<rparr>,
            emit (BSendRawPacketGather [nMsgID # body]) w)
      else if length body + 1 \<le> k_cbSteamNetworkingSocketsMaxUDPMsgLen K
      then (c, emit (AssertFailed ''Attemt to send packet, but socket has been closed!'') w)
      else (c, emit (AssertFailed ''Msg type %d is %d bytes, larger than MTU of %d bytes'') w))"
  by (auto simp: SendMsg_def SendPacket_def SendPacketGather_def Let_def)

lemma SendMsg_frame:
  "sent_packets (trace (snd (SendMsg K nMsgID body (c, w))))
     = sent_packets (trace w) @
         (if length body + 1 \<le> k_cbSteamNetworkingSocketsMaxUDPMsgLen K \<and> m_pSocket c \<noteq> None
          then [nMsgID # body] else [])"
  "decrypt_calls (trace (snd (SendMsg K nMsgID body (c, w)))) = decrypt_calls (trace w)"
  "s_spamReplyLimiter (snd (SendMsg K nMsgID body (c, w))) = s_spamReplyLimiter w"
  "fst (SendMsg K nMsgID body (c, w))
     = (if length body + 1 \<le> k_cbSteamNetworkingSocketsMaxUDPMsgLen K \<and> m_pSocket c \<noteq> None
        then c\<lparr>m_statsEndToEnd := m_statsEndToEnd c @ [TrackSentPacket (int (length body) + 1)]\<rparr>
        else c)"
  by (simp_all add: SendMsg_eq emit_def sent_packets_append decrypt_calls_append)

lemma SendNoConnection_to_0:
  "SendNoConnection K PB from 0 (c, w) =
     (if from = 0
      then (c, emit (AssertFailed
              ''Can't send NoConnection, we need at least one of from/to connection ID!'') w)
      else SendMsg K (k_ESteamNetworkingUDPMsg_NoConnection K)
             (Serialize_NoConnection PB
                \<lparr>NoConnection_from_connection_id = Some from,
                 NoConnection_to_connection_id = None\<rparr>) (c, w))"
  by (simp add: SendNoConnection_def set_if_nonzero_def)

lemma Received_Data_wrong_id_cases:
  assumes "LittleDWord_at pkt 1 \<noteq> m_unConnectionIDLocal c"
  obtains
    (quiet) w' where "Received_Data K PB X pkt usecNow (c, w) = (c, w')"
      "sent_packets (trace w') = sent_packets (trace w)"
      "decrypt_calls (trace w') = decrypt_calls (trace w)"
  | (reply) w2 where "Received_Data K PB X pkt usecNow (c, w)
        = (c\<lparr>m_statsEndToEnd := m_statsEndToEnd c @
              [TrackSentPacket
                 (int (length (Serialize_NoConnection PB
                    \<lparr>NoConnection_from_connection_id = Some (LittleDWord_at pkt 1),
                     NoConnection_to_connection_id = None\<rparr>)) + 1)]\<rparr>,
           emit (BSendRawPacketGather
                   [k_ESteamNetworkingUDPMsg_NoConnection K #
                    Serialize_NoConnection PB
                      \<lparr>NoConnection_from_connection_id = Some (LittleDWord_at pkt 1),
                       NoConnection_to_connection_id = None\<rparr>]) w2)"
      "sent_packets (trace w2) = sent_packets (trace w)"
      "decrypt_calls (trace w2) = decrypt_calls (trace w)"
      "fst (BCheckGlobalSpamReplyRateLimit X usecNow (s_spamReplyLimiter w))"
proof (cases "length pkt < 7")
  case True
  show ?thesis
    by (rule quiet [of "ReportBadPacketIPv4 c ''DataPacket'' ''Packet of size %d is too small.'' usecNow w"])
       (simp_all only: Received_Data_too_small [OF True] ReportBadPacketIPv4_frame)
next
  case False
  obtain ok g' where lim: "BCheckGlobalSpamReplyRateLimit X usecNow (s_spamReplyLimiter w) = (ok, g')"
    by (cases "BCheckGlobalSpamReplyRateLimit X usecNow (s_spamReplyLimiter w)")
  define w1 where "w1 = ReportBadPacketIPv4 c ''DataPacket'' ''Incorrect connection ID'' usecNow w"
  define w2 where "w2 = w1\<lparr>s_spamReplyLimiter := g'\<rparr>"
  have lim1: "BCheckGlobalSpamReplyRateLimit X usecNow (s_spamReplyLimiter w1) = (ok, g')"
    unfolding w1_def by (simp only: ReportBadPacketIPv4_frame lim)
  have R: "Received_Data K PB X pkt usecNow (c, w)
      = (if ok then SendNoConnection K PB (LittleDWord_at pkt 1) 0 (c, w2) else (c, w2))"
    unfolding Received_Data_wrong_id [OF False assms] Let_def w1_def [symmetric] lim1 w2_def
    by (cases ok) (simp_all only: prod.case bool.case if_True if_False)
  have frame: "sent_packets (trace w2) = sent_packets (trace w)"
    "decrypt_calls (trace w2) = decrypt_calls (trace w)"
    unfolding w2_def w1_def by (simp_all add: ReportBadPacketIPv4_frame)
  let ?body = "Serialize_NoConnection PB
                \<lparr>NoConnection_from_connection_id = Some (LittleDWord_at pkt 1),
                 NoConnection_to_connection_id = None\<rparr>"
  let ?tag = "k_ESteamNetworkingUDPMsg_NoConnection K"
  consider (a) "\<not> ok" | (b) "ok" "LittleDWord_at pkt 1 = 0"
    | (c1) "ok" "LittleDWord_at pkt 1 \<noteq> 0"
        "\<not> length ?body + 1 \<le> k_cbSteamNetworkingSocketsMaxUDPMsgLen K"
    | (c2) "ok" "LittleDWord_at pkt 1 \<noteq> 0"
        "length ?body + 1 \<le> k_cbSteamNetworkingSocketsMaxUDPMsgLen K" "m_pSocket c = None"
    | (d) "ok" "LittleDWord_at pkt 1 \<noteq> 0"
        "length ?body + 1 \<le> k_cbSteamNetworkingSocketsMaxUDPMsgLen K" "m_pSocket c \<noteq> None"
    by blast
  then show ?thesis
  proof cases
    case a
    then have "Received_Data K PB X pkt usecNow (c, w) = (c, w2)"
      unfolding R by (simp only: if_False)
    then show ?thesis
      by (rule quiet) (rule frame)+
  next
    case b
    then have "Received_Data K PB X pkt usecNow (c, w)
        = (c, emit (AssertFailed
              ''Can't send NoConnection, we need at least one of from/to connection ID!'') w2)"
      unfolding R by (simp only: if_True SendNoConnection_to_0 simp_thms)
    then show ?thesis
      by (rule quiet) (simp_all add: sent_packets_emit decrypt_calls_emit frame)
  next
    case c1
    then have "Received_Data K PB X pkt usecNow (c, w)
        = (c, emit (AssertFailed ''Msg type %d is %d bytes, larger than MTU of %d bytes'') w2)"
      unfolding R SendNoConnection_to_0 SendMsg_eq by (simp only: if_True if_False simp_thms)
    then show ?thesis
      by (rule quiet) (simp_all add: sent_packets_emit decrypt_calls_emit frame)
  next
    case c2
    then have "Received_Data K PB X pkt usecNow (c, w)
        = (c, emit (AssertFailed ''Attemt to send packet, but socket has been closed!'') w2)"
      unfolding R SendNoConnection_to_0 SendMsg_eq by (simp only: if_True if_False simp_thms)
    then show ?thesis
      by (rule quiet) (simp_all add: sent_packets_emit decrypt_calls_emit frame)
  next
    case d
    then have "Received_Data K PB X pkt usecNow (c, w)
        = (c\<lparr>m_statsEndToEnd := m_statsEndToEnd c @ [TrackSentPacket (int (length ?body) + 1)]\<rparr>,
           emit (BSendRawPacketGather [?tag # ?body]) w2)"
      unfolding R SendNoConnection_to_0 SendMsg_eq by (simp only: if_True if_False simp_thms)
    moreover from d lim have "fst (BCheckGlobalSpamReplyRateLimit X usecNow (s_spamReplyLimiter w))"
      by simp
    ultimately show ?thesis
      using frame by (intro reply)
  qed
qed

lemma sample_data_pkt_to: "LittleDWord_at sample_data_pkt 1 = 0xDEAD"
  by (simp add: sample_data_pkt_def LittleDWord_at_def)

lemma sample_Received_Data:
  "Received_Data sample_constants sample_codec sample_collaborators sample_data_pkt 10485760
     (sample_client, sample_world)
   = (sample_client\<lparr>m_statsEndToEnd := [TrackSentPacket 6]\<rparr>,
      \<lparr>s_usecLastReport = 10485760, s_spamReplyLimiter = 10485760,
       trace = [ReallyReportBadPacket sample_server_adr ''DataPacket'' ''Incorrect connection ID'',
                BSendRawPacketGather [[37, 0x15, 0xAD, 0xDE, 0, 0]]]\<rparr>)"
proof -
  have len: "\<not> length sample_data_pkt < 7"
    by (simp add: sample_data_pkt_def)
  have ne: "LittleDWord_at sample_data_pkt 1 \<noteq> m_unConnectionIDLocal sample_client"
    using sample_data_pkt_to by (simp add: sample_client_def)
  have rep: "ReportBadPacketIPv4 sample_client ''DataPacket'' ''Incorrect connection ID'' 10485760 sample_world
      = \<lparr>s_usecLastReport = 10485760, s_spamReplyLimiter = 0,
         trace = [ReallyReportBadPacket sample_server_adr ''DataPacket'' ''Incorrect connection ID'']\<rparr>"
    by (simp add: ReportBadPacketIPv4_def BCheckRateLimitReportBadPacket_def sample_world_def
        sample_client_def k_nMillion_def emit_def)
  have lim: "BCheckGlobalSpamReplyRateLimit sample_collaborators 10485760 0 = (True, 10485760)"
    by (simp add: sample_collaborators_def)
  have body: "Serialize_NoConnection sample_codec
                \<lparr>NoConnection_from_connection_id = Some 0xDEAD,
                 NoConnection_to_connection_id = None\<rparr> = [0x15, 0xAD, 0xDE, 0, 0]"
    by (simp add: sample_codec_def sample_field32_def LittleDWord_bytes_def)
  have cap: "k_cbSteamNetworkingSocketsMaxUDPMsgLen sample_constants = 1300"
    "k_ESteamNetworkingUDPMsg_NoConnection sample_constants = 37"
    by (simp_all add: sample_constants_def)
  have sock: "m_pSocket sample_client \<noteq> None" "m_statsEndToEnd sample_client = []"
    by (simp_all add: sample_client_def)
  show ?thesis
    unfolding Received_Data_wrong_id [OF len ne] Let_def rep sample_data_pkt_to
    by (simp add: lim SendNoConnection_to_0 SendMsg_eq body cap sock emit_def)
qed

lemma Received_ConnectionClosed_match:
  assumes "pbval (ConnectionClosed_to_connection_id msg) = m_unConnectionIDLocal c
     \<or> (pbval (ConnectionClosed_to_connection_id msg) = 0
         \<and> pbval (ConnectionClosed_from_connection_id msg) \<noteq> 0
         \<and> pbval (ConnectionClosed_from_connection_id msg) = m_unConnectionIDRemote c)"
  shows "Received_ConnectionClosed K PB X msg usecNow (c, w)
     = ConnectionState_ClosedByPeer X (pbval (ConnectionClosed_reason_code msg))
         (pbstr (ConnectionClosed_debug msg))
         (SendMsg K (k_ESteamNetworkingUDPMsg_NoConnection K)
            (Serialize_NoConnection PB
               \<lparr>NoConnection_from_connection_id =
                  set_if_nonzero (pbval (ConnectionClosed_to_connection_id msg)),
                NoConnection_to_connection_id =
                  set_if_nonzero (pbval (ConnectionClosed_from_connection_id msg))\<rparr>) (c, w))"
  unfolding Received_ConnectionClosed_def Let_def
  using assms by (simp only: prod.case if_True if_False simp_thms)

lemma Received_ConnectionClosed_no_match:
  assumes "\<not> (pbval (ConnectionClosed_to_connection_id msg) = m_unConnectionIDLocal c
     \<or> (pbval (ConnectionClosed_to_connection_id msg) = 0
         \<and> pbval (ConnectionClosed_from_connection_id msg) \<noteq> 0
         \<and> pbval (ConnectionClosed_from_connection_id msg) = m_unConnectionIDRemote c))"
    and "BCheckGlobalSpamReplyRateLimit X usecNow (s_spamReplyLimiter w) = (ok, g')"
  shows "Received_ConnectionClosed K PB X msg usecNow (c, w)
     = (if ok
        then SendMsg K (k_ESteamNetworkingUDPMsg_NoConnection K)
            (Serialize_NoConnection PB
               \<lparr>NoConnection_from_connection_id =
                  set_if_nonzero (pbval (ConnectionClosed_to_connection_id msg)),
                NoConnection_to_connection_id =
                  set_if_nonzero (pbval (ConnectionClosed_from_connection_id msg))\<rparr>)
            (c, w\<lparr>s_spamReplyLimiter := g'\<rparr>)
        else (c, w\<lparr>s_spamReplyLimiter := g'\<rparr>))"
  unfolding Received_ConnectionClosed_def Let_def
  using assms by (simp only: prod.case if_True if_False simp_thms)

lemma SendNoConnection_0_0:
  "SendNoConnection K PB 0 0 (c, w)
     = (c, emit (AssertFailed
              ''Can't send NoConnection, we need at least one of from/to connection ID!'') w)"
  by (simp add: SendNoConnection_def)

lemma Received_ConnectOK_identity_mismatch:
  assumes "\<not> IsInvalid (m_identityRemote c)"
    and "ConnectOK_identityRemote X c msg = Inr identityRemote"
    and "identityRemote \<noteq> m_identityRemote c"
  obtains pszMsgType pszFmt where
    "Received_ConnectOK K PB X msg usecNow (c, w)
       = (c, ReportBadPacketIPv4 c pszMsgType pszFmt usecNow w)"
proof (cases "m_pParentListenSocket c
    \<or> pbval (ConnectOK_client_connection_id msg) \<noteq> m_unConnectionIDLocal c")
  case True
  then consider "m_pParentListenSocket c"
    | "\<not> m_pParentListenSocket c"
      "pbval (ConnectOK_client_connection_id msg) \<noteq> m_unConnectionIDLocal c"
    by blast
  then show ?thesis
  proof cases
    case 1
    show ?thesis
      by (rule that, unfold Received_ConnectOK_def)
         (simp only: 1 prod.case if_True simp_thms)
  next
    case 2
    show ?thesis
      by (rule that, unfold Received_ConnectOK_def)
         (simp only: 2 prod.case if_True if_False simp_thms)
  qed
next
  case False
  then have a: "\<not> m_pParentListenSocket c"
    "\<not> pbval (ConnectOK_client_connection_id msg) \<noteq> m_unConnectionIDLocal c"
    by blast+
  have b: "\<not> IsInvalid (m_identityRemote c) \<and> \<not> (m_identityRemote c = identityRemote)"
    using assms by auto
  show ?thesis
    by (rule that, unfold Received_ConnectOK_def)
       (simp only: a b assms(2) prod.case if_True if_False sum.case simp_thms)
qed

lemma sample_ConnectOK_identity:
  "ConnectOK_identityRemote sample_collaborators sample_client sample_ConnectOK = Inr (SteamID 99)"
  by (simp add: ConnectOK_identityRemote_def sample_collaborators_def sample_ConnectOK_def
      m_eType_IPAddress_def)

lemma ReceivedPing_from_elapsed_sint:
  "ReceivedPing_from_elapsed usecElapsed usecNow (c, w) =
     (if 0 \<le> sint usecElapsed \<and> sint usecElapsed \<le> 2000000
      then (c\<lparr>m_statsEndToEnd := m_statsEndToEnd c @
                 [ReceivedPing ((sint usecElapsed + 500) div 1000) usecNow]\<rparr>, w)
      else (c, emit (SpewWarning ''Ignoring weird timestamp'') w))"
proof -
  have k: "sint (2 * k_nMillion) = 2000000"
    by (simp add: k_nMillion_def)
  have d: "0 \<le> sint usecElapsed \<Longrightarrow> (sint usecElapsed + 500) sdiv 1000 = (sint usecElapsed + 500) div 1000"
    by (simp add: signed_divide_int_def sgn_if)
  show ?thesis
    unfolding ReceivedPing_from_elapsed_def
    by (simp only: prod.case word_sless_alt k Let_def) (auto simp: d)
qed

lemma Received_ChallengeReply_echo:
  assumes "\<not> m_pParentListenSocket c"
    and "GetState c = k_ESteamNetworkingConnectionState_Connecting"
    and "pbval (ChallengeReply_connection_id msg) = m_unConnectionIDLocal c"
    and "\<not> pbval (ChallengeReply_protocol_version msg) < k_nMinRequiredProtocolVersion K"
    and "ChallengeReply_your_timestamp msg = Some ts"
  shows "Received_ChallengeReply K PB X msg usecNow (c, w) =
           ChallengeReply_send_ConnectRequest K PB X msg usecNow
             (ReceivedPing_from_elapsed (usecNow - ts) usecNow (c, w))"
  unfolding Received_ChallengeReply_def
  using assms by (simp only: prod.case if_True if_False simp_thms option.case)

lemma Received_ConnectOK_echo:
  assumes "\<not> m_pParentListenSocket c"
    and "pbval (ConnectOK_client_connection_id msg) = m_unConnectionIDLocal c"
    and "ConnectOK_identityRemote X c msg = Inr identityRemote"
    and "IsInvalid (m_identityRemote c) \<or> m_identityRemote c = identityRemote"
    and "ConnectOK_your_timestamp msg = Some ts"
  shows "Received_ConnectOK K PB X msg usecNow (c, w) =
           ConnectOK_check_state K PB X msg identityRemote usecNow
             (ReceivedPing_from_elapsed (usecNow - ts - pbval (ConnectOK_delay_time_usec msg))
                usecNow (c, w))"
proof -
  have g: "\<not> (\<not> IsInvalid (m_identityRemote c) \<and> \<not> (m_identityRemote c = identityRemote))"
    using assms(4) by blast
  show ?thesis
    unfolding Received_ConnectOK_def
    using assms(1,2,3,5) g by (simp only: prod.case if_True if_False simp_thms option.case sum.case)
qed

lemma sample_expected_ConnectOK_identity:
  "ConnectOK_identityRemote sample_collaborators sample_client sample_expected_ConnectOK
     = Inr (SteamID 76)"
  by (simp add: ConnectOK_identityRemote_def sample_collaborators_def sample_ConnectOK_def
      sample_expected_ConnectOK_def m_eType_IPAddress_def)

lemma packets_since_emit_send:
  "packets_since w (emit (BSendRawPacketGather [p]) w) = [p]"
  by (simp add: packets_since_def emit_def sent_packets_append)

lemma Received_ConnectionClosed_match_sent:
  assumes "pbval (ConnectionClosed_to_connection_id msg) = m_unConnectionIDLocal c
     \<or> (pbval (ConnectionClosed_to_connection_id msg) = 0
         \<and> pbval (ConnectionClosed_from_connection_id msg) \<noteq> 0
         \<and> pbval (ConnectionClosed_from_connection_id msg) = m_unConnectionIDRemote c)"
    and "m_pSocket c \<noteq> None"
    and "length body + 1 \<le> k_cbSteamNetworkingSocketsMaxUDPMsgLen K"
    and "body = Serialize_NoConnection PB
               \<lparr>NoConnection_from_connection_id =
                  set_if_nonzero (pbval (ConnectionClosed_to_connection_id msg)),
                NoConnection_to_connection_id =
                  set_if_nonzero (pbval (ConnectionClosed_from_connection_id msg))\<rparr>"
  shows "Received_ConnectionClosed K PB X msg usecNow (c, w)
     = ConnectionState_ClosedByPeer X (pbval (ConnectionClosed_reason_code msg))
         (pbstr (ConnectionClosed_debug msg))
         (c\<lparr>m_statsEndToEnd := m_statsEndToEnd c @ [TrackSentPacket (int (length body) + 1)]\<rparr>,
          emit (BSendRawPacketGather [k_ESteamNetworkingUDPMsg_NoConnection K # body]) w)"
proof -
  have "SendMsg K (k_ESteamNetworkingUDPMsg_NoConnection K) body (c, w)
      = (c\<lparr>m_statsEndToEnd := m_statsEndToEnd c @ [TrackSentPacket (int (length body) + 1)]\<rparr>,
          emit (BSendRawPacketGather [k_ESteamNetworkingUDPMsg_NoConnection K # body]) w)"
    unfolding SendMsg_eq using assms(2,3) by (simp only: simp_thms if_True)
  then show ?thesis
    unfolding Received_ConnectionClosed_match [OF assms(1)] assms(4) [symmetric] by (rule arg_cong)
qed

lemma sample_NoConnection_ack:
  "Serialize_NoConnection sample_codec
     \<lparr>NoConnection_from_connection_id =
        set_if_nonzero (pbval (ConnectionClosed_to_connection_id sample_ConnectionClosed)),
      NoConnection_to_connection_id =
        set_if_nonzero (pbval (ConnectionClosed_from_connection_id sample_ConnectionClosed))\<rparr>
   = [0x15, 0x01, 0x00, 0xAA, 0xAA, 0x1d, 0x02, 0x00, 0xBB, 0xBB]"
  by (simp add: sample_codec_def sample_ConnectionClosed_def pbval_def set_if_nonzero_def
      sample_field32_def LittleDWord_bytes_def)

lemma sample_ClosedByPeer_ignored:
  "GetState (fst cw) = k_ESteamNetworkingConnectionState_ClosedByPeer
     \<Longrightarrow> ConnectionState_ClosedByPeer sample_collaborators r d cw = cw"
  by (simp add: sample_collaborators_def)

lemma sample_closed_by_peer_facts:
  "GetState sample_closed_by_peer = k_ESteamNetworkingConnectionState_ClosedByPeer"
  "m_unConnectionIDLocal sample_closed_by_peer = 0xAAAA0001"
  "m_pSocket sample_closed_by_peer \<noteq> None"
  "m_statsEndToEnd sample_closed_by_peer = []"
  by (simp_all add: sample_closed_by_peer_def sample_client_def)

lemma sample_retransmitted_ConnectionClosed:
  "Received_ConnectionClosed sample_constants sample_codec sample_collaborators
      sample_ConnectionClosed 10485761 (sample_closed_by_peer, sample_busy_world)
   = (sample_closed_by_peer\<lparr>m_statsEndToEnd := [TrackSentPacket 11]\<rparr>,
      emit (BSendRawPacketGather [[37, 0x15, 0x01, 0x00, 0xAA, 0xAA, 0x1d, 0x02, 0x00, 0xBB, 0xBB]])
        sample_busy_world)"
proof -
  have m: "pbval (ConnectionClosed_to_connection_id sample_ConnectionClosed)
             = m_unConnectionIDLocal sample_closed_by_peer
     \<or> (pbval (ConnectionClosed_to_connection_id sample_ConnectionClosed) = 0
         \<and> pbval (ConnectionClosed_from_connection_id sample_ConnectionClosed) \<noteq> 0
         \<and> pbval (ConnectionClosed_from_connection_id sample_ConnectionClosed)
             = m_unConnectionIDRemote sample_closed_by_peer)"
    by (simp add: sample_closed_by_peer_facts sample_ConnectionClosed_def pbval_def)
  have k: "k_cbSteamNetworkingSocketsMaxUDPMsgLen sample_constants = 1300"
    "k_ESteamNetworkingUDPMsg_NoConnection sample_constants = 37"
    by (simp_all add: sample_constants_def)
  have l: "length [0x15, 0x01, 0x00, 0xAA, 0xAA, 0x1d, 0x02, 0x00, 0xBB, 0xBB :: uint8] + 1
             \<le> k_cbSteamNetworkingSocketsMaxUDPMsgLen sample_constants"
    unfolding k by simp
  have s: "GetState (fst (sample_closed_by_peer\<lparr>m_statsEndToEnd := [TrackSentPacket 11]\<rparr>, w'))
      = k_ESteamNetworkingConnectionState_ClosedByPeer" for w' :: "int64 world"
    by (simp add: sample_closed_by_peer_facts)
  from Received_ConnectionClosed_match_sent [OF m sample_closed_by_peer_facts(3) l
      sample_NoConnection_ack [symmetric], of sample_collaborators 10485761 sample_busy_world]
  show ?thesis
    by (simp add: k sample_closed_by_peer_facts(4) sample_ClosedByPeer_ignored [OF s])
qed

lemma sync_child_keys:
  "map fst (m_mapChildConnections (sync_child key c L)) = map fst (m_mapChildConnections L)"
  by (simp add: sync_child_def split_def comp_def if_distrib [of fst] cong: if_cong)

lemma BBeginAccept_keys:
  assumes "BBeginAccept X adrFrom ident cid cert crypt c L w = (ok, c1, L1, w1)"
  shows "map fst (m_mapChildConnections L1) = map fst (m_mapChildConnections L)
       \<or> map fst (m_mapChildConnections L1) = map fst (m_mapChildConnections L) @ [(ident, cid)]"
  using assms
  by (auto simp: BBeginAccept_def AddChildConnection_def Let_def
      split: if_splits prod.splits bool.splits)

lemma Received_ConnectRequest_duplicate:
  assumes "ConnectRequest_challenge_check X L (pbval (ConnectRequest_challenge msg)) adrFrom usecNow
             = ChallengeOK"
    and "pbval (ConnectRequest_client_connection_id msg) \<noteq> 0"
    and "ConnectRequest_identityRemote X L msg adrFrom = Inr ident"
    and "map_of (m_mapChildConnections L) (ident, pbval (ConnectRequest_client_connection_id msg))
           = Some pOldConn"
  shows "Received_ConnectRequest K PB X msg adrFrom cbPkt usecNow (L, w) =
     (L, ListenSocket_SendPaddedMsg K (k_ESteamNetworkingUDPMsg_ConnectionClosed K)
           (Serialize_ConnectionClosed PB
              (ConnectionClosed_duplicate K (pbval (ConnectRequest_client_connection_id msg))))
           adrFrom L
           (ReportBadPacketFrom adrFrom ''ConnectRequest''
              ''Rejecting connection request from %s at %s, connection ID %u.  That steamID/ConnectionID pair already has a connection from %s''
              usecNow w))"
  unfolding Received_ConnectRequest_def Let_def
  using assms
  by (simp only: prod.case challenge_verdict.case if_False sum.case option.case simp_thms)

lemma Received_ConnectRequest_no_accept:
  assumes "ConnectRequest_challenge_check X L (pbval (ConnectRequest_challenge msg)) adrFrom usecNow
             \<noteq> ChallengeOK
        \<or> pbval (ConnectRequest_client_connection_id msg) = 0
        \<or> (\<exists>e. ConnectRequest_identityRemote X L msg adrFrom = Inl e)"
  shows "\<exists>t f. Received_ConnectRequest K PB X msg adrFrom cbPkt usecNow (L, w)
           = (L, ReportBadPacketFrom adrFrom t f usecNow w)"
proof (cases "ConnectRequest_challenge_check X L (pbval (ConnectRequest_challenge msg)) adrFrom usecNow")
  case ChallengeTooOld
  show ?thesis
    unfolding Received_ConnectRequest_def Let_def
    using ChallengeTooOld by (simp only: prod.case challenge_verdict.case) blast
next
  case ChallengeIncorrect
  show ?thesis
    unfolding Received_ConnectRequest_def Let_def
    using ChallengeIncorrect by (simp only: prod.case challenge_verdict.case) blast
next
  case ChallengeOK
  show ?thesis
  proof (cases "pbval (ConnectRequest_client_connection_id msg) = 0")
    case True
    show ?thesis
      unfolding Received_ConnectRequest_def Let_def
      using ChallengeOK True by (simp only: prod.case challenge_verdict.case if_True simp_thms) blast
  next
    case False
    with assms ChallengeOK obtain t f where
      e: "ConnectRequest_identityRemote X L msg adrFrom = Inl (t, f)"
      by (metis surj_pair)
    show ?thesis
      unfolding Received_ConnectRequest_def Let_def
      using ChallengeOK e False
      by (simp only: prod.case challenge_verdict.case if_False sum.case) blast
  qed
qed

lemma Received_ConnectRequest_accept:
  assumes "ConnectRequest_challenge_check X L (pbval (ConnectRequest_challenge msg)) adrFrom usecNow
             = ChallengeOK"
    and "pbval (ConnectRequest_client_connection_id msg) \<noteq> 0"
    and "ConnectRequest_identityRemote X L msg adrFrom = Inr ident"
    and "map_of (m_mapChildConnections L) (ident, pbval (ConnectRequest_client_connection_id msg))
           = None"
    and "BBeginAccept X adrFrom ident (pbval (ConnectRequest_client_connection_id msg))
           (ConnectRequest_cert msg) (ConnectRequest_crypt msg)
           ((NewConnection X)\<lparr>m_pSocket := None\<rparr>) L w = (ok, c1, L1, w1)"
  shows "if ok
         then \<exists>c4. fst (Received_ConnectRequest K PB X msg adrFrom cbPkt usecNow (L, w))
                = sync_child (ident, pbval (ConnectRequest_client_connection_id msg)) c4 L1
         else Received_ConnectRequest K PB X msg adrFrom cbPkt usecNow (L, w)
                = Destroy X c1
                    (sync_child (ident, pbval (ConnectRequest_client_connection_id msg)) c1 L1,
                     emit (SpewWarning ''Failed to accept connection from %s.  %s'') w1)"
proof (cases ok)
  case False
  show ?thesis
    unfolding Received_ConnectRequest_def Let_def
    using assms False
    by (simp only: prod.case challenge_verdict.case if_False sum.case option.case simp_thms
        bool.case)
next
  case True
  have "Received_ConnectRequest K PB X msg adrFrom cbPkt usecNow (L, w) =
     (case (case ConnectRequest_ping_est_ms msg of
              None \<Rightarrow> (c1\<lparr>m_statsEndToEnd := m_statsEndToEnd c1 @ [TrackRecvPacket cbPkt usecNow]\<rparr>, w1)
            | Some ping_est_ms \<Rightarrow>
                if ping_est_ms > 1500
                then (c1\<lparr>m_statsEndToEnd := m_statsEndToEnd c1 @ [TrackRecvPacket cbPkt usecNow]\<rparr>,
                      emit (SpewWarning
                         ''[%s] Ignoring really large ping estimate %u in connect request'') w1)
                else (c1\<lparr>m_statsEndToEnd := m_statsEndToEnd c1 @ [TrackRecvPacket cbPkt usecNow]\<rparr>
                        \<lparr>m_statsEndToEnd :=
                           m_statsEndToEnd (c1\<lparr>m_statsEndToEnd := m_statsEndToEnd c1 @ [TrackRecvPacket cbPkt usecNow]\<rparr>) @
                             [ReceivedPing (uint ping_est_ms) usecNow]\<rparr>, w1)) of
        (c3, w3) \<Rightarrow>
          (sync_child (ident, pbval (ConnectRequest_client_connection_id msg))
             (case ConnectRequest_my_timestamp msg of
                None \<Rightarrow> c3
              | Some ts \<Rightarrow>
                  c3\<lparr>m_ulHandshakeRemoteTimestamp := ts,
                     m_usecWhenReceivedHandshakeRemoteTimestamp := usecNow\<rparr>) L1, w3))"
    unfolding Received_ConnectRequest_def Let_def
    using assms True
    by (simp only: prod.case challenge_verdict.case if_False sum.case option.case simp_thms
        bool.case)
  then have "\<exists>c4. fst (Received_ConnectRequest K PB X msg adrFrom cbPkt usecNow (L, w))
                = sync_child (ident, pbval (ConnectRequest_client_connection_id msg)) c4 L1"
    by (simp only: split_def fst_conv) blast
  with True show ?thesis by (simp only: if_True)
qed

lemma Received_ConnectRequest_keys:
  assumes inv: "distinct (map fst (m_mapChildConnections L))"
    and D: "\<forall>c Lw. distinct (map fst (m_mapChildConnections (fst Lw)))
              \<longrightarrow> distinct (map fst (m_mapChildConnections (fst (Destroy X c Lw))))"
  shows "distinct (map fst (m_mapChildConnections
           (fst (Received_ConnectRequest K PB X msg adrFrom cbPkt usecNow (L, w)))))"
proof (cases "ConnectRequest_challenge_check X L (pbval (ConnectRequest_challenge msg)) adrFrom usecNow
             \<noteq> ChallengeOK
        \<or> pbval (ConnectRequest_client_connection_id msg) = 0
        \<or> (\<exists>e. ConnectRequest_identityRemote X L msg adrFrom = Inl e)")
  case True
  then obtain t f where "Received_ConnectRequest K PB X msg adrFrom cbPkt usecNow (L, w)
           = (L, ReportBadPacketFrom adrFrom t f usecNow w)"
    using Received_ConnectRequest_no_accept by blast
  then show ?thesis using inv by (simp only: fst_conv)
next
  case False
  then have ok: "ConnectRequest_challenge_check X L (pbval (ConnectRequest_challenge msg)) adrFrom usecNow
             = ChallengeOK"
    and cid: "pbval (ConnectRequest_client_connection_id msg) \<noteq> 0"
    and "\<not> (\<exists>e. ConnectRequest_identityRemote X L msg adrFrom = Inl e)"
    by blast+
  then obtain ident where ident: "ConnectRequest_identityRemote X L msg adrFrom = Inr ident"
    by (cases "ConnectRequest_identityRemote X L msg adrFrom") blast+
  let ?key = "(ident, pbval (ConnectRequest_client_connection_id msg))"
  show ?thesis
  proof (cases "map_of (m_mapChildConnections L) ?key")
    case (Some pOldConn)
    show ?thesis
      unfolding Received_ConnectRequest_duplicate [OF ok cid ident Some]
      using inv by (simp only: fst_conv)
  next
    case None
    then have new: "?key \<notin> set (map fst (m_mapChildConnections L))"
      by (simp add: map_of_eq_None_iff)
    obtain b c1 L1 w1 where B: "BBeginAccept X adrFrom ident (pbval (ConnectRequest_client_connection_id msg))
           (ConnectRequest_cert msg) (ConnectRequest_crypt msg)
           ((NewConnection X)\<lparr>m_pSocket := None\<rparr>) L w = (b, c1, L1, w1)"
      by (rule prod_cases4)
    from BBeginAccept_keys [OF B] inv new
    have d1: "distinct (map fst (m_mapChildConnections L1))"
      by auto
    note A = Received_ConnectRequest_accept [OF ok cid ident None B, where K = K and PB = PB
        and cbPkt = cbPkt]
    show ?thesis
    proof (cases b)
      case True
      with A obtain c4 where "fst (Received_ConnectRequest K PB X msg adrFrom cbPkt usecNow (L, w))
                = sync_child ?key c4 L1"
        by (simp only: if_True) blast
      then show ?thesis using d1 by (simp only: sync_child_keys)
    next
      case False
      with A have R: "Received_ConnectRequest K PB X msg adrFrom cbPkt usecNow (L, w)
                = Destroy X c1
                    (sync_child ?key c1 L1,
                     emit (SpewWarning ''Failed to accept connection from %s.  %s'') w1)"
        by (simp only: if_False)
      have "distinct (map fst (m_mapChildConnections (fst (sync_child ?key c1 L1,
                     emit (SpewWarning ''Failed to accept connection from %s.  %s'') w1))))"
        using d1 by (simp only: fst_conv sync_child_keys)
      with D show ?thesis unfolding R by blast
    qed
  qed
qed

lemma ConnectionClosed_duplicate_fields:
  "ConnectionClosed_to_connection_id (ConnectionClosed_duplicate K cid) = Some cid"
  "ConnectionClosed_reason_code (ConnectionClosed_duplicate K cid)
     = Some (k_ESteamNetConnectionEnd_Misc_Generic K)"
  by (simp_all add: ConnectionClosed_duplicate_def)

lemma packets_since_ListenSocket_SendPaddedMsg_report:
  "packets_since w (ListenSocket_SendPaddedMsg K nMsgID body adrTo L
        (ReportBadPacketFrom adrFrom t f usecNow w))
     = (if 3 + length body \<le> k_cbSteamNetworkingSocketsMaxUDPMsgLen K
            \<and> 512 \<le> k_cbSteamNetworkingSocketsMaxUDPMsgLen K \<and> m_pSock L
         then [take (max (3 + length body) 512)
                 (padded_pkt (k_cbSteamNetworkingSocketsMaxUDPMsgLen K) nMsgID body)]
         else [])"
  by (rule packets_sinceI)
    (simp only: sent_ListenSocket_SendPaddedMsg sent_packets_ReportBadPacketFrom)

lemma sample_ConnectRequest_identity:
  "ConnectRequest_identityRemote sample_collaborators sample_listener
     (sample_spoofed_ConnectRequest\<lparr>ConnectRequest_challenge := ch\<rparr>) sample_client_adr
   = Inr (IPAddress (netadr_ipv6 sample_client_adr) (netadr_port sample_client_adr))"
  by (simp add: ConnectRequest_identityRemote_def sample_collaborators_def
      sample_spoofed_ConnectRequest_def sample_listener_def m_eType_IPAddress_def IsLocalHost_def)

lemma sample_listener_child:
  "map_of (m_mapChildConnections sample_listener)
     (IPAddress (netadr_ipv6 sample_client_adr) (netadr_port sample_client_adr), 0xAAAA0001)
   = Some sample_child"
  "distinct (map fst (m_mapChildConnections sample_listener))"
  "m_pSock sample_listener"
  by (simp_all add: sample_listener_def)

lemma sample_duplicate_challenge:
  "ConnectRequest_challenge_check sample_collaborators sample_listener
     (pbval (ConnectRequest_challenge sample_duplicate_ConnectRequest)) sample_client_adr 1048576
   = ChallengeOK"
proof -
  have "pbval (ConnectRequest_challenge sample_duplicate_ConnectRequest)
      = GenerateChallenge sample_collaborators sample_listener 0 sample_client_adr"
    by (simp add: sample_duplicate_ConnectRequest_def pbval_def sample_challenge_0)
  then show ?thesis
    by (simp only: challenge_check_own) (simp add: GetChallengeTime_def)
qed

lemma sample_duplicate_reply:
  "Serialize_ConnectionClosed sample_codec (ConnectionClosed_duplicate sample_constants 0xAAAA0001)
     = [0x25, 0x01, 0x00, 0xAA, 0xAA, 0x18, 0x89, 0x13, 0x00, 0x00]"
  by (simp add: sample_codec_def ConnectionClosed_duplicate_def sample_constants_def
      sample_field32_def LittleDWord_bytes_def)

lemma ParsePaddedPacket_Inr_length: "ParsePaddedPacket P pkt = Inr m \<Longrightarrow> \<not> length pkt < 5"
  by (simp add: ParsePaddedPacket_Inr_iff)

lemma ReceivedFromUnknownHost_ChallengeRequest:
  assumes "ParsePaddedPacket (Parse_ChallengeRequest PB) pkt = Inr msg"
    and "((pkt ! 0) AND 0x80) = 0"
    and "pkt ! 0 = k_ESteamNetworkingUDPMsg_ChallengeRequest K"
  shows "ReceivedFromUnknownHost K PB X pkt adrFrom usecNow (L, w)
          = (L, Received_ChallengeRequest K PB X msg adrFrom usecNow L w)"
  unfolding ReceivedFromUnknownHost_def
  using assms ParsePaddedPacket_Inr_length [OF assms(1)]
  by (simp only: prod.case if_True if_False simp_thms sum.case)

lemma ReceivedFromUnknownHost_ConnectionClosed:
  assumes "ParsePaddedPacket (Parse_ConnectionClosed PB) pkt = Inr msg"
    and "((pkt ! 0) AND 0x80) = 0"
    and "pkt ! 0 \<noteq> k_ESteamNetworkingUDPMsg_ChallengeRequest K"
    and "pkt ! 0 \<noteq> k_ESteamNetworkingUDPMsg_ConnectRequest K"
    and "pkt ! 0 = k_ESteamNetworkingUDPMsg_ConnectionClosed K"
  shows "ReceivedFromUnknownHost K PB X pkt adrFrom usecNow (L, w)
          = (L, ListenSocket_Received_ConnectionClosed K PB msg adrFrom usecNow L w)"
  unfolding ReceivedFromUnknownHost_def
  using assms(1,2,3,4) ParsePaddedPacket_Inr_length [OF assms(1)] assms(5)
  by (simp only: prod.case if_True if_False simp_thms sum.case)

lemma PacketReceived_ConnectionClosed:
  assumes "ParsePaddedPacket (Parse_ConnectionClosed PB) pkt = Inr msg"
    and "((pkt ! 0) AND 0x80) = 0"
    and "pkt ! 0 \<noteq> k_ESteamNetworkingUDPMsg_ChallengeReply K"
    and "pkt ! 0 \<noteq> k_ESteamNetworkingUDPMsg_ConnectOK K"
    and "pkt ! 0 = k_ESteamNetworkingUDPMsg_ConnectionClosed K"
  shows "PacketReceived K PB X pkt adrFrom usecNow (c, w)
          = Received_ConnectionClosed K PB X msg usecNow
              (c\<lparr>m_statsEndToEnd :=
                   m_statsEndToEnd c @ [TrackRecvPacket (int (length pkt)) usecNow]\<rparr>, w)"
  unfolding PacketReceived_def Let_def
  using assms(1,2,3,4) ParsePaddedPacket_Inr_length [OF assms(1)] assms(5)
  by (simp only: prod.case if_True if_False simp_thms sum.case)

lemma PacketReceived_ChallengeRequest:
  assumes "ParsePaddedPacket (Parse_ChallengeRequest PB) pkt = Inr msg"
    and "((pkt ! 0) AND 0x80) = 0"
    and "pkt ! 0 \<noteq> k_ESteamNetworkingUDPMsg_ChallengeReply K"
    and "pkt ! 0 \<noteq> k_ESteamNetworkingUDPMsg_ConnectOK K"
    and "pkt ! 0 \<noteq> k_ESteamNetworkingUDPMsg_ConnectionClosed K"
    and "pkt ! 0 \<noteq> k_ESteamNetworkingUDPMsg_NoConnection K"
    and "pkt ! 0 = k_ESteamNetworkingUDPMsg_ChallengeRequest K"
  shows "PacketReceived K PB X pkt adrFrom usecNow (c, w)
          = Received_ChallengeOrConnectRequest K PB X ''ChallengeRequest''
              (pbval (ChallengeRequest_connection_id msg)) usecNow
              (c\<lparr>m_statsEndToEnd :=
                   m_statsEndToEnd c @ [TrackRecvPacket (int (length pkt)) usecNow]\<rparr>, w)"
  unfolding PacketReceived_def Let_def
  using assms(1,2,3,4,5,6) ParsePaddedPacket_Inr_length [OF assms(1)] assms(7)
  by (simp only: prod.case if_True if_False simp_thms sum.case)

lemma ParsePaddedPacket_Inl_iff:
  "(\<exists>e. ParsePaddedPacket P pkt = Inl e) \<longleftrightarrow>
      (length pkt < 512
       \<or> uint (LittleWord_at pkt 1) \<le> 0
       \<or> 3 + uint (LittleWord_at pkt 1) > int (length pkt)
       \<or> P (take (unat (LittleWord_at pkt 1)) (drop 3 pkt)) = None)"
  by (auto simp: ParsePaddedPacket_def Let_def k_cbSteamNetworkingMinPaddedPacketSize_def
      sizeof_UDPPaddedMessageHdr_def split: option.splits)

lemma sample_ConnectionClosed_pkt_parse:
  "ParsePaddedPacket (Parse_ConnectionClosed sample_codec) sample_ConnectionClosed_pkt
     = Inr sample_parsed_ConnectionClosed"
proof -
  have "length sample_ConnectionClosed_pkt = 512"
    by (simp add: sample_ConnectionClosed_pkt_def)
  moreover have "LittleWord_at sample_ConnectionClosed_pkt 1 = 5"
    by (simp add: sample_ConnectionClosed_pkt_def LittleWord_at_def)
  moreover have "take 5 (drop 3 sample_ConnectionClosed_pkt) = [0x25, 0x01, 0x00, 0xAA, 0xAA]"
    by (simp add: sample_ConnectionClosed_pkt_def)
  ultimately show ?thesis
    unfolding ParsePaddedPacket_Inr_iff
    by (simp add: sample_codec_def LittleDWord_at_def sample_parsed_ConnectionClosed_def)
qed

lemma sample_pkt_heads:
  "sample_ChallengeRequest_pkt ! 0 = 32" "sample_ConnectionClosed_pkt ! 0 = 36"
  "length sample_ConnectionClosed_pkt = 512"
  by (simp_all add: sample_ChallengeRequest_pkt_def sample_ConnectionClosed_pkt_def)

lemma sample_constants_tags:
  "k_ESteamNetworkingUDPMsg_ChallengeRequest sample_constants = 32"
  "k_ESteamNetworkingUDPMsg_ChallengeReply sample_constants = 33"
  "k_ESteamNetworkingUDPMsg_ConnectRequest sample_constants = 34"
  "k_ESteamNetworkingUDPMsg_ConnectOK sample_constants = 35"
  "k_ESteamNetworkingUDPMsg_ConnectionClosed sample_constants = 36"
  "k_ESteamNetworkingUDPMsg_NoConnection sample_constants = 37"
  by (simp_all add: sample_constants_def)











subsection \<open>The challenge window\<close>

text \<open>
  C1 (as amended). For every source address and every time bucket \<open>t\<close>, a ConnectRequest
  that carries \<open>GenerateChallenge t adr\<close> and arrives from \<open>adr\<close> at \<open>usecNow\<close> passes
  the listener's challenge check exactly when the 16-bit difference between the bucket
  of \<open>usecNow\<close> and \<open>t\<close> is at most 3, which is the bucket of 4\_000\_000 microseconds.
  A received challenge whose recomputed value differs from the carried one is rejected:
  the listener is left as it was and nothing is sent.
\<close>

theorem challenge_verification:
  "(ConnectRequest_challenge_check X L (GenerateChallenge X L t adr) adr usecNow = ChallengeOK
      \<longleftrightarrow> GetChallengeTime usecNow - t \<le> 3)
   \<and> (GenerateChallenge X L (ucast (pbval (ConnectRequest_challenge msg))) adr
          \<noteq> pbval (ConnectRequest_challenge msg) \<longrightarrow>
        ConnectRequest_challenge_check X L (pbval (ConnectRequest_challenge msg)) adr usecNow
          \<noteq> ChallengeOK
        \<and> fst (Received_ConnectRequest K PB X msg adr cbPkt usecNow (L, w)) = L
        \<and> sent_packets (trace (snd (Received_ConnectRequest K PB X msg adr cbPkt usecNow (L, w))))
            = sent_packets (trace w))"
  using challenge_check_own challenge_check_mismatch Received_ConnectRequest_rejected by blast

theorem challenge_verification_witness:
  "ConnectRequest_challenge_check sample_collaborators sample_listener
     (GenerateChallenge sample_collaborators sample_listener 7 sample_client_adr)
     sample_client_adr 10485760 = ChallengeOK
   \<and> ConnectRequest_challenge_check sample_collaborators sample_listener 0 sample_client_adr 10485760
       \<noteq> ChallengeOK
   \<and> fst (Received_ConnectRequest sample_constants sample_codec sample_collaborators
         sample_spoofed_ConnectRequest sample_client_adr 20 10485760 (sample_listener, sample_world))
       = sample_listener"
  using challenge_verification [of sample_collaborators sample_listener 7 sample_client_adr 10485760
      sample_spoofed_ConnectRequest sample_constants sample_codec 20 sample_world]
  by (simp add: GetChallengeTime_def sample_spoofed_ConnectRequest_def pbval_def sample_challenge_0)

text \<open>
  The claim as written allows a difference of 4. A challenge issued for bucket 0 and
  returned in bucket 4 is refused as too old.
\<close>

theorem challenge_window_counterexample:
  "GetChallengeTime 4194304 - 0 \<le> 4
   \<and> ConnectRequest_challenge_check sample_collaborators sample_listener
       (GenerateChallenge sample_collaborators sample_listener 0 sample_client_adr)
       sample_client_adr 4194304 = ChallengeTooOld"
  by (simp add: ConnectRequest_challenge_check_def GetChallengeTime_def k_nMillion_def Let_def
      sample_challenge_0)

subsection \<open>Replies to packets from unverified sources\<close>




subsection \<open>A ConnectRequest for a session that exists\<close>

text \<open>
  C3 (as amended). A ConnectRequest that passes the challenge check, names a connection
  ID and presents an identity, and whose pair of identity and connection ID is already
  in the listener's table of child connections, is answered with a padded
  ConnectionClosed addressed to that connection ID with the reason Misc\_Generic, and
  with nothing else: the listener, its table and the connection already there are left
  as they were. Whatever the ConnectRequest, the keys of the table stay distinct,
  provided that destroying a connection whose accept failed keeps them so.
\<close>

theorem duplicate_ConnectRequest_rejected:
  assumes "R = Received_ConnectRequest K PB X msg adrFrom cbPkt usecNow (L, w)"
    and "cid = pbval (ConnectRequest_client_connection_id msg)"
    and "body = Serialize_ConnectionClosed PB (ConnectionClosed_duplicate K cid)"
  shows "(ConnectRequest_challenge_check X L (pbval (ConnectRequest_challenge msg)) adrFrom usecNow
           = ChallengeOK
        \<and> cid \<noteq> 0
        \<and> ConnectRequest_identityRemote X L msg adrFrom = Inr ident
        \<and> map_of (m_mapChildConnections L) (ident, cid) = Some pOldConn
       \<longrightarrow> fst R = L
          \<and> map_of (m_mapChildConnections (fst R)) (ident, cid) = Some pOldConn
          \<and> ConnectionClosed_to_connection_id (ConnectionClosed_duplicate K cid) = Some cid
          \<and> ConnectionClosed_reason_code (ConnectionClosed_duplicate K cid)
              = Some (k_ESteamNetConnectionEnd_Misc_Generic K)
          \<and> packets_since w (snd R)
              = (if 3 + length body \<le> k_cbSteamNetworkingSocketsMaxUDPMsgLen K
                    \<and> 512 \<le> k_cbSteamNetworkingSocketsMaxUDPMsgLen K \<and> m_pSock L
                 then [take (max (3 + length body) 512)
                         (padded_pkt (k_cbSteamNetworkingSocketsMaxUDPMsgLen K)
                            (k_ESteamNetworkingUDPMsg_ConnectionClosed K) body)]
                 else [])
          \<and> list_all (zero_padded (length body)) (packets_since w (snd R)))
    \<and> (distinct (map fst (m_mapChildConnections L))
        \<and> (\<forall>c Lw. distinct (map fst (m_mapChildConnections (fst Lw)))
              \<longrightarrow> distinct (map fst (m_mapChildConnections (fst (Destroy X c Lw)))))
       \<longrightarrow> distinct (map fst (m_mapChildConnections (fst R))))"
proof -
  have 1: "distinct (map fst (m_mapChildConnections (fst R)))"
    if "distinct (map fst (m_mapChildConnections L))"
      and "\<forall>c Lw. distinct (map fst (m_mapChildConnections (fst Lw)))
              \<longrightarrow> distinct (map fst (m_mapChildConnections (fst (Destroy X c Lw))))"
    unfolding assms(1) using that by (rule Received_ConnectRequest_keys)
  have 2: "fst R = L
          \<and> map_of (m_mapChildConnections (fst R)) (ident, cid) = Some pOldConn
          \<and> packets_since w (snd R)
              = (if 3 + length body \<le> k_cbSteamNetworkingSocketsMaxUDPMsgLen K
                    \<and> 512 \<le> k_cbSteamNetworkingSocketsMaxUDPMsgLen K \<and> m_pSock L
                 then [take (max (3 + length body) 512)
                         (padded_pkt (k_cbSteamNetworkingSocketsMaxUDPMsgLen K)
                            (k_ESteamNetworkingUDPMsg_ConnectionClosed K) body)]
                 else [])
          \<and> list_all (zero_padded (length body)) (packets_since w (snd R))"
    if ok: "ConnectRequest_challenge_check X L (pbval (ConnectRequest_challenge msg)) adrFrom usecNow
           = ChallengeOK"
      and cid: "cid \<noteq> 0"
      and ident: "ConnectRequest_identityRemote X L msg adrFrom = Inr ident"
      and old: "map_of (m_mapChildConnections L) (ident, cid) = Some pOldConn"
  proof -
    have R: "R = (L, ListenSocket_SendPaddedMsg K (k_ESteamNetworkingUDPMsg_ConnectionClosed K)
           body adrFrom L
           (ReportBadPacketFrom adrFrom ''ConnectRequest''
              ''Rejecting connection request from %s at %s, connection ID %u.  That steamID/ConnectionID pair already has a connection from %s''
              usecNow w))"
      unfolding assms(1,3)
      using ok cid ident old unfolding assms(2) by (rule Received_ConnectRequest_duplicate)
    have P: "packets_since w (snd R)
              = (if 3 + length body \<le> k_cbSteamNetworkingSocketsMaxUDPMsgLen K
                    \<and> 512 \<le> k_cbSteamNetworkingSocketsMaxUDPMsgLen K \<and> m_pSock L
                 then [take (max (3 + length body) 512)
                         (padded_pkt (k_cbSteamNetworkingSocketsMaxUDPMsgLen K)
                            (k_ESteamNetworkingUDPMsg_ConnectionClosed K) body)]
                 else [])"
      unfolding R snd_conv by (rule packets_since_ListenSocket_SendPaddedMsg_report)
    have Z: "list_all (zero_padded (length body)) (packets_since w (snd R))"
      unfolding P by (simp add: zero_padded_take)
    have F: "fst R = L" unfolding R by (rule fst_conv)
    from F old P Z show ?thesis by (simp only: simp_thms)
  qed
  from 1 2 ConnectionClosed_duplicate_fields [of K cid] show ?thesis by blast
qed

theorem duplicate_ConnectRequest_rejected_witness:
  "fst (Received_ConnectRequest sample_constants sample_codec sample_collaborators
          sample_duplicate_ConnectRequest sample_client_adr 15 1048576
          (sample_listener, sample_world)) = sample_listener
   \<and> packets_since sample_world
       (snd (Received_ConnectRequest sample_constants sample_codec sample_collaborators
          sample_duplicate_ConnectRequest sample_client_adr 15 1048576
          (sample_listener, sample_world)))
     = [take 512 (padded_pkt 1300 36 [0x25, 0x01, 0x00, 0xAA, 0xAA, 0x18, 0x89, 0x13, 0x00, 0x00])]
   \<and> distinct (map fst (m_mapChildConnections
         (fst (Received_ConnectRequest sample_constants sample_codec sample_collaborators
            sample_duplicate_ConnectRequest sample_client_adr 15 1048576
            (sample_listener, sample_world)))))"
proof -
  have cid: "pbval (ConnectRequest_client_connection_id sample_duplicate_ConnectRequest) = 0xAAAA0001"
    by (simp add: sample_duplicate_ConnectRequest_def sample_spoofed_ConnectRequest_def pbval_def)
  have D: "\<forall>c Lw. distinct (map fst (m_mapChildConnections (fst Lw)))
              \<longrightarrow> distinct (map fst (m_mapChildConnections
                     (fst (Destroy sample_collaborators c Lw))))"
    by (simp add: sample_collaborators_def)
  have k: "k_cbSteamNetworkingSocketsMaxUDPMsgLen sample_constants = 1300"
    "k_ESteamNetworkingUDPMsg_ConnectionClosed sample_constants = 36"
    by (simp_all add: sample_constants_def)
  have i: "ConnectRequest_identityRemote sample_collaborators sample_listener
     sample_duplicate_ConnectRequest sample_client_adr
   = Inr (IPAddress (netadr_ipv6 sample_client_adr) (netadr_port sample_client_adr))"
    unfolding sample_duplicate_ConnectRequest_def by (rule sample_ConnectRequest_identity)
  from duplicate_ConnectRequest_rejected [OF refl cid [symmetric]
      sample_duplicate_reply [symmetric],
      where X = sample_collaborators and L = sample_listener
        and adrFrom = sample_client_adr and cbPkt = 15 and usecNow = 1048576 and w = sample_world
        and ident = "IPAddress (netadr_ipv6 sample_client_adr) (netadr_port sample_client_adr)"
        and pOldConn = sample_child]
  show ?thesis
    using sample_duplicate_challenge i sample_listener_child D
    by (simp add: k)
qed

text \<open>
  The claim as written speaks of every ConnectRequest whose pair is in the table. One
  that carries a challenge the listener does not accept is dropped without a reply,
  although its pair is there.
\<close>

theorem unverified_duplicate_counterexample:
  "ConnectRequest_identityRemote sample_collaborators sample_listener
     sample_spoofed_ConnectRequest sample_client_adr
     = Inr (IPAddress (netadr_ipv6 sample_client_adr) (netadr_port sample_client_adr))
   \<and> map_of (m_mapChildConnections sample_listener)
       (IPAddress (netadr_ipv6 sample_client_adr) (netadr_port sample_client_adr),
        pbval (ConnectRequest_client_connection_id sample_spoofed_ConnectRequest))
     = Some sample_child
   \<and> packets_since sample_world
       (snd (Received_ConnectRequest sample_constants sample_codec sample_collaborators
          sample_spoofed_ConnectRequest sample_client_adr 15 10485760
          (sample_listener, sample_world))) = []"
proof -
  have i: "ConnectRequest_identityRemote sample_collaborators sample_listener
     sample_spoofed_ConnectRequest sample_client_adr
     = Inr (IPAddress (netadr_ipv6 sample_client_adr) (netadr_port sample_client_adr))"
    using sample_ConnectRequest_identity [of "ConnectRequest_challenge sample_spoofed_ConnectRequest"]
    by simp
  have cid: "pbval (ConnectRequest_client_connection_id sample_spoofed_ConnectRequest) = 0xAAAA0001"
    by (simp add: sample_spoofed_ConnectRequest_def pbval_def)
  have ch: "pbval (ConnectRequest_challenge sample_spoofed_ConnectRequest) = 0"
    by (simp add: sample_spoofed_ConnectRequest_def pbval_def)
  have "GenerateChallenge sample_collaborators sample_listener (ucast (0 :: uint64)) sample_client_adr
          \<noteq> 0"
    by (simp add: sample_challenge_0)
  then have "ConnectRequest_challenge_check sample_collaborators sample_listener
       (pbval (ConnectRequest_challenge sample_spoofed_ConnectRequest)) sample_client_adr 10485760
     \<noteq> ChallengeOK"
    unfolding ch by (rule challenge_check_mismatch)
  then have "sent_packets (trace (snd (Received_ConnectRequest sample_constants sample_codec
          sample_collaborators sample_spoofed_ConnectRequest sample_client_adr 15 10485760
          (sample_listener, sample_world)))) = sent_packets (trace sample_world) @ []"
    using Received_ConnectRequest_rejected [where K = sample_constants and PB = sample_codec
        and cb = 15 and w = sample_world] by simp
  then have "packets_since sample_world
       (snd (Received_ConnectRequest sample_constants sample_codec sample_collaborators
          sample_spoofed_ConnectRequest sample_client_adr 15 10485760
          (sample_listener, sample_world))) = []"
    by (rule packets_sinceI)
  with i sample_listener_child(1) show ?thesis
    unfolding cid by (simp only: simp_thms)
qed

subsection \<open>Padded messages on the wire\<close>

text \<open>
  C4. Every ChallengeRequest and every ConnectionClosed this layer emits is at least
  512 bytes long, and every byte behind the header and the serialized body, up to the
  length sent, is zero. Both \<open>SendPaddedMsg\<close> functions send nothing else, whatever the
  message. The three places that emit such a message are covered one by one:
  \<open>SendEndToEndConnectRequest\<close> emits the ChallengeRequest and
  \<open>SendConnectionClosedOrNoConnection\<close> the connection's ConnectionClosed, and the
  listener's ConnectionClosed, the answer to a ConnectRequest for a session that
  exists, is the one padded datagram written out below.
\<close>

theorem padded_messages_on_wire:
  "list_all (zero_padded (length body))
     (packets_since w (snd (SendPaddedMsg K nMsgID body (c, w))))
   \<and> list_all (zero_padded (length body))
       (packets_since w (ListenSocket_SendPaddedMsg K nMsgID body adrTo L w))
   \<and> list_all (zero_padded (length (Serialize_ChallengeRequest PB (ChallengeRequest_of K c usecNow))))
       (packets_since w (snd (SendEndToEndConnectRequest K PB usecNow (c, w))))
   \<and> (GetState c \<noteq> k_ESteamNetworkingConnectionState_ClosedByPeer \<longrightarrow>
        list_all (zero_padded (length (Serialize_ConnectionClosed PB (ConnectionClosed_of c))))
          (packets_since w (snd (SendConnectionClosedOrNoConnection K PB (c, w)))))
   \<and> (ConnectRequest_challenge_check X L (pbval (ConnectRequest_challenge msg)) adrFrom usecNow
           = ChallengeOK
        \<and> pbval (ConnectRequest_client_connection_id msg) \<noteq> 0
        \<and> ConnectRequest_identityRemote X L msg adrFrom = Inr ident
        \<and> map_of (m_mapChildConnections L) (ident, pbval (ConnectRequest_client_connection_id msg))
             = Some pOldConn
        \<and> reply = Serialize_ConnectionClosed PB
             (ConnectionClosed_duplicate K (pbval (ConnectRequest_client_connection_id msg)))
       \<longrightarrow> packets_since w (snd (Received_ConnectRequest K PB X msg adrFrom cbPkt usecNow (L, w)))
             = (if 3 + length reply \<le> k_cbSteamNetworkingSocketsMaxUDPMsgLen K
                   \<and> 512 \<le> k_cbSteamNetworkingSocketsMaxUDPMsgLen K \<and> m_pSock L
                then [take (max (3 + length reply) 512)
                        (padded_pkt (k_cbSteamNetworkingSocketsMaxUDPMsgLen K)
                           (k_ESteamNetworkingUDPMsg_ConnectionClosed K) reply)]
                else [])
           \<and> list_all (zero_padded (length reply))
               (packets_since w
                  (snd (Received_ConnectRequest K PB X msg adrFrom cbPkt usecNow (L, w)))))"
proof (intro conjI impI)
  show "list_all (zero_padded (length body))
     (packets_since w (snd (SendPaddedMsg K nMsgID body (c, w))))"
    by (rule SendPaddedMsg_zero_padded)
  show "list_all (zero_padded (length body))
       (packets_since w (ListenSocket_SendPaddedMsg K nMsgID body adrTo L w))"
    by (rule ListenSocket_SendPaddedMsg_zero_padded)
  show "list_all (zero_padded (length (Serialize_ChallengeRequest PB (ChallengeRequest_of K c usecNow))))
       (packets_since w (snd (SendEndToEndConnectRequest K PB usecNow (c, w))))"
    using SendPaddedMsg_zero_padded [of "Serialize_ChallengeRequest PB (ChallengeRequest_of K c usecNow)"
        w K "k_ESteamNetworkingUDPMsg_ChallengeRequest K" c]
    by (simp add: packets_since_def SendEndToEndConnectRequest_trace)
  show "list_all (zero_padded (length (Serialize_ConnectionClosed PB (ConnectionClosed_of c))))
          (packets_since w (snd (SendConnectionClosedOrNoConnection K PB (c, w))))"
    if "GetState c \<noteq> k_ESteamNetworkingConnectionState_ClosedByPeer"
    using that by (simp add: SendConnectionClosedOrNoConnection_def SendPaddedMsg_zero_padded)
  assume dup: "ConnectRequest_challenge_check X L (pbval (ConnectRequest_challenge msg)) adrFrom usecNow
           = ChallengeOK
        \<and> pbval (ConnectRequest_client_connection_id msg) \<noteq> 0
        \<and> ConnectRequest_identityRemote X L msg adrFrom = Inr ident
        \<and> map_of (m_mapChildConnections L) (ident, pbval (ConnectRequest_client_connection_id msg))
             = Some pOldConn
        \<and> reply = Serialize_ConnectionClosed PB
             (ConnectionClosed_duplicate K (pbval (ConnectRequest_client_connection_id msg)))"
  then have R: "Received_ConnectRequest K PB X msg adrFrom cbPkt usecNow (L, w) =
     (L, ListenSocket_SendPaddedMsg K (k_ESteamNetworkingUDPMsg_ConnectionClosed K) reply adrFrom L
           (ReportBadPacketFrom adrFrom ''ConnectRequest''
              ''Rejecting connection request from %s at %s, connection ID %u.  That steamID/ConnectionID pair already has a connection from %s''
              usecNow w))"
    using Received_ConnectRequest_duplicate [of X L msg adrFrom usecNow ident pOldConn K PB cbPkt w]
    by blast
  show P: "packets_since w (snd (Received_ConnectRequest K PB X msg adrFrom cbPkt usecNow (L, w)))
             = (if 3 + length reply \<le> k_cbSteamNetworkingSocketsMaxUDPMsgLen K
                   \<and> 512 \<le> k_cbSteamNetworkingSocketsMaxUDPMsgLen K \<and> m_pSock L
                then [take (max (3 + length reply) 512)
                        (padded_pkt (k_cbSteamNetworkingSocketsMaxUDPMsgLen K)
                           (k_ESteamNetworkingUDPMsg_ConnectionClosed K) reply)]
                else [])"
    unfolding R snd_conv by (rule packets_since_ListenSocket_SendPaddedMsg_report)
  show "list_all (zero_padded (length reply))
               (packets_since w
                  (snd (Received_ConnectRequest K PB X msg adrFrom cbPkt usecNow (L, w))))"
    unfolding P by (simp add: zero_padded_take)
qed

theorem padded_messages_on_wire_witness:
  "length (packets_since sample_world
      (snd (SendConnectionClosedOrNoConnection sample_constants sample_codec
              (sample_client, sample_world)))) = 1
   \<and> list_all
       (zero_padded (length (Serialize_ConnectionClosed sample_codec (ConnectionClosed_of sample_client))))
       (packets_since sample_world
          (snd (SendConnectionClosedOrNoConnection sample_constants sample_codec
                  (sample_client, sample_world))))
   \<and> packets_since sample_world
       (snd (Received_ConnectRequest sample_constants sample_codec sample_collaborators
          sample_duplicate_ConnectRequest sample_client_adr 15 1048576
          (sample_listener, sample_world)))
     = [take 512 (padded_pkt 1300 36 [0x25, 0x01, 0x00, 0xAA, 0xAA, 0x18, 0x89, 0x13, 0x00, 0x00])]"
proof -
  have state: "GetState sample_client \<noteq> k_ESteamNetworkingConnectionState_ClosedByPeer"
    by (simp add: sample_client_def)
  have "length (Serialize_ConnectionClosed sample_codec (ConnectionClosed_of sample_client)) = 10"
    by (simp add: sample_codec_def ConnectionClosed_of_def sample_client_def sample_field32_def
        set_if_nonzero_def LittleDWord_bytes_def)
  moreover have "m_pSocket sample_client \<noteq> None"
    by (simp add: sample_client_def)
  moreover have k: "k_cbSteamNetworkingSocketsMaxUDPMsgLen sample_constants = 1300"
    by (simp add: sample_constants_def)
  ultimately have one: "length (packets_since sample_world
      (snd (SendConnectionClosedOrNoConnection sample_constants sample_codec
              (sample_client, sample_world)))) = 1"
    using state
    by (simp add: SendConnectionClosedOrNoConnection_def Let_def
        packets_sinceI [OF sent_SendPaddedMsg])
  have t: "k_ESteamNetworkingUDPMsg_ConnectionClosed sample_constants = 36"
    by (simp add: sample_constants_def)
  have cid: "pbval (ConnectRequest_client_connection_id sample_duplicate_ConnectRequest) = 0xAAAA0001"
    by (simp add: sample_duplicate_ConnectRequest_def sample_spoofed_ConnectRequest_def pbval_def)
  have i: "ConnectRequest_identityRemote sample_collaborators sample_listener
     sample_duplicate_ConnectRequest sample_client_adr
   = Inr (IPAddress (netadr_ipv6 sample_client_adr) (netadr_port sample_client_adr))"
    unfolding sample_duplicate_ConnectRequest_def by (rule sample_ConnectRequest_identity)
  have r: "Serialize_ConnectionClosed sample_codec
       (ConnectionClosed_duplicate sample_constants
          (pbval (ConnectRequest_client_connection_id sample_duplicate_ConnectRequest)))
     = [0x25, 0x01, 0x00, 0xAA, 0xAA, 0x18, 0x89, 0x13, 0x00, 0x00]"
    unfolding cid by (rule sample_duplicate_reply)
  from padded_messages_on_wire [where c = sample_client and w = sample_world
      and K = sample_constants and PB = sample_codec and X = sample_collaborators
      and L = sample_listener and msg = sample_duplicate_ConnectRequest
      and adrFrom = sample_client_adr and usecNow = 1048576 and cbPkt = 15
      and ident = "IPAddress (netadr_ipv6 sample_client_adr) (netadr_port sample_client_adr)"
      and pOldConn = sample_child
      and reply = "[0x25, 0x01, 0x00, 0xAA, 0xAA, 0x18, 0x89, 0x13, 0x00, 0x00]"]
  show ?thesis
    using state one sample_duplicate_challenge i sample_listener_child(1,3) r
    by (simp add: k t cid)
qed

subsection \<open>Data packets for another connection ID\<close>

text \<open>
  C5. A data packet whose header \<open>to_connection_id\<close> differs from the connection's
  local ID never reaches \<open>DecryptDataChunk\<close> and leaves the connection's state alone.
  Either nothing is sent and the connection record is unchanged, or the rate gate for
  unsolicited replies has let it through and exactly one NoConnection goes out, with
  \<open>from_connection_id\<close> the received \<open>to_connection_id\<close> and no \<open>to_connection_id\<close>;
  then the only change to the connection is the sent-packet count of its statistics.
\<close>

theorem Received_Data_wrong_connection_id:
  assumes "LittleDWord_at pkt 1 \<noteq> m_unConnectionIDLocal c"
  shows "decrypt_calls (trace (snd (Received_Data K PB X pkt usecNow (c, w)))) = decrypt_calls (trace w)
    \<and> GetState (fst (Received_Data K PB X pkt usecNow (c, w))) = GetState c
    \<and> ((packets_since w (snd (Received_Data K PB X pkt usecNow (c, w))) = []
         \<and> fst (Received_Data K PB X pkt usecNow (c, w)) = c)
       \<or> (fst (BCheckGlobalSpamReplyRateLimit X usecNow (s_spamReplyLimiter w))
          \<and> packets_since w (snd (Received_Data K PB X pkt usecNow (c, w)))
              = [k_ESteamNetworkingUDPMsg_NoConnection K #
                 Serialize_NoConnection PB
                   \<lparr>NoConnection_from_connection_id = Some (LittleDWord_at pkt 1),
                    NoConnection_to_connection_id = None\<rparr>]
          \<and> fst (Received_Data K PB X pkt usecNow (c, w))
              = c\<lparr>m_statsEndToEnd := m_statsEndToEnd c @
                    [TrackSentPacket
                       (int (length (Serialize_NoConnection PB
                          \<lparr>NoConnection_from_connection_id = Some (LittleDWord_at pkt 1),
                           NoConnection_to_connection_id = None\<rparr>)) + 1)]\<rparr>))"
  using assms
proof (cases rule: Received_Data_wrong_id_cases [where K = K and PB = PB and X = X
      and usecNow = usecNow and w = w])
  case (quiet w')
  have "packets_since w w' = []"
    by (rule packets_sinceI) (simp add: quiet(2))
  then show ?thesis
    unfolding quiet(1) by (simp only: fst_conv snd_conv quiet(3) simp_thms)
next
  case (reply w2)
  let ?p = "k_ESteamNetworkingUDPMsg_NoConnection K #
                 Serialize_NoConnection PB
                   \<lparr>NoConnection_from_connection_id = Some (LittleDWord_at pkt 1),
                    NoConnection_to_connection_id = None\<rparr>"
  have 1: "packets_since w (emit (BSendRawPacketGather [?p]) w2) = [?p]"
    by (rule packets_sinceI) (simp add: sent_packets_emit reply(2))
  have 2: "decrypt_calls (trace (emit (BSendRawPacketGather [?p]) w2)) = decrypt_calls (trace w)"
    by (simp add: decrypt_calls_emit reply(3))
  have 3: "GetState (c\<lparr>m_statsEndToEnd := s\<rparr>) = GetState c" for s
    by simp
  show ?thesis
    unfolding reply(1) by (simp only: fst_conv snd_conv 1 2 3 reply(4) simp_thms)
qed

theorem Received_Data_wrong_connection_id_witness:
  "LittleDWord_at sample_data_pkt 1 \<noteq> m_unConnectionIDLocal sample_client
   \<and> decrypt_calls (trace (snd (Received_Data sample_constants sample_codec sample_collaborators
         sample_data_pkt 10485760 (sample_client, sample_world)))) = []
   \<and> GetState (fst (Received_Data sample_constants sample_codec sample_collaborators
         sample_data_pkt 10485760 (sample_client, sample_world)))
       = k_ESteamNetworkingConnectionState_Connecting
   \<and> packets_since sample_world (snd (Received_Data sample_constants sample_codec sample_collaborators
         sample_data_pkt 10485760 (sample_client, sample_world)))
       = [[37, 0x15, 0xAD, 0xDE, 0, 0]]"
proof -
  have ne: "LittleDWord_at sample_data_pkt 1 \<noteq> m_unConnectionIDLocal sample_client"
    using sample_data_pkt_to by (simp add: sample_client_def)
  have st: "GetState sample_client = k_ESteamNetworkingConnectionState_Connecting"
    "decrypt_calls (trace sample_world) = []"
    by (simp_all add: sample_client_def sample_world_def)
  have pk: "packets_since sample_world (snd (Received_Data sample_constants sample_codec sample_collaborators
         sample_data_pkt 10485760 (sample_client, sample_world)))
       = [[37, 0x15, 0xAD, 0xDE, 0, 0]]"
    unfolding sample_Received_Data by (simp add: packets_since_def sample_world_def)
  from Received_Data_wrong_connection_id [OF ne, of sample_constants sample_codec
      sample_collaborators 10485760 sample_world]
  have "decrypt_calls (trace (snd (Received_Data sample_constants sample_codec sample_collaborators
         sample_data_pkt 10485760 (sample_client, sample_world)))) = decrypt_calls (trace sample_world)"
    and "GetState (fst (Received_Data sample_constants sample_codec sample_collaborators
         sample_data_pkt 10485760 (sample_client, sample_world))) = GetState sample_client"
    by blast+
  with ne pk show ?thesis
    by (simp only: st simp_thms)
qed

subsection \<open>A retransmitted ConnectionClosed\<close>

text \<open>
  C6. A connection in state ClosedByPeer with an open socket that receives a
  ConnectionClosed whose connection IDs match sends exactly one NoConnection ack, the
  echo of the IDs received, whatever the gate for unsolicited replies would say: the
  gate is not asked and its state is unchanged. The handler then hands the connection,
  still in ClosedByPeer, to the generic \<^verbatim>\<open>ConnectionState_ClosedByPeer\<close>; where that
  ignores a connection already closed by its peer, the ack and its entry in the
  statistics are all that happens.
\<close>

theorem retransmitted_ConnectionClosed_acked:
  assumes "GetState c = k_ESteamNetworkingConnectionState_ClosedByPeer"
    and "pbval (ConnectionClosed_to_connection_id msg) = m_unConnectionIDLocal c
     \<or> (pbval (ConnectionClosed_to_connection_id msg) = 0
         \<and> pbval (ConnectionClosed_from_connection_id msg) \<noteq> 0
         \<and> pbval (ConnectionClosed_from_connection_id msg) = m_unConnectionIDRemote c)"
    and "m_pSocket c \<noteq> None"
    and "length body + 1 \<le> k_cbSteamNetworkingSocketsMaxUDPMsgLen K"
    and "body = Serialize_NoConnection PB
               \<lparr>NoConnection_from_connection_id =
                  set_if_nonzero (pbval (ConnectionClosed_to_connection_id msg)),
                NoConnection_to_connection_id =
                  set_if_nonzero (pbval (ConnectionClosed_from_connection_id msg))\<rparr>"
    and "c' = c\<lparr>m_statsEndToEnd := m_statsEndToEnd c @ [TrackSentPacket (int (length body) + 1)]\<rparr>"
    and "w' = emit (BSendRawPacketGather [k_ESteamNetworkingUDPMsg_NoConnection K # body]) w"
  shows "Received_ConnectionClosed K PB X msg usecNow (c, w)
           = ConnectionState_ClosedByPeer X (pbval (ConnectionClosed_reason_code msg))
               (pbstr (ConnectionClosed_debug msg)) (c', w')
    \<and> GetState c' = k_ESteamNetworkingConnectionState_ClosedByPeer
    \<and> packets_since w w' = [k_ESteamNetworkingUDPMsg_NoConnection K # body]
    \<and> s_spamReplyLimiter w' = s_spamReplyLimiter w
    \<and> ((\<forall>r d cw. GetState (fst cw) = k_ESteamNetworkingConnectionState_ClosedByPeer
                 \<longrightarrow> ConnectionState_ClosedByPeer X r d cw = cw)
        \<longrightarrow> Received_ConnectionClosed K PB X msg usecNow (c, w) = (c', w'))"
proof -
  have R: "Received_ConnectionClosed K PB X msg usecNow (c, w)
           = ConnectionState_ClosedByPeer X (pbval (ConnectionClosed_reason_code msg))
               (pbstr (ConnectionClosed_debug msg)) (c', w')"
    unfolding assms(6,7) using assms(2,3,4,5) by (rule Received_ConnectionClosed_match_sent)
  have S: "GetState c' = k_ESteamNetworkingConnectionState_ClosedByPeer"
    unfolding assms(6) using assms(1) by simp
  have P: "packets_since w w' = [k_ESteamNetworkingUDPMsg_NoConnection K # body]"
    unfolding assms(7) by (rule packets_since_emit_send)
  have L: "s_spamReplyLimiter w' = s_spamReplyLimiter w"
    unfolding assms(7) by (simp add: emit_def)
  have I: "Received_ConnectionClosed K PB X msg usecNow (c, w) = (c', w')"
    if "\<forall>r d cw. GetState (fst cw) = k_ESteamNetworkingConnectionState_ClosedByPeer
                 \<longrightarrow> ConnectionState_ClosedByPeer X r d cw = cw"
  proof -
    have "GetState (fst (c', w')) = k_ESteamNetworkingConnectionState_ClosedByPeer"
      using S by (simp only: fst_conv)
    with that have "ConnectionState_ClosedByPeer X (pbval (ConnectionClosed_reason_code msg))
               (pbstr (ConnectionClosed_debug msg)) (c', w') = (c', w')"
      by blast
    with R show ?thesis by (rule trans)
  qed
  from R S P L I show ?thesis by blast
qed

theorem retransmitted_ConnectionClosed_acked_witness:
  "Received_ConnectionClosed sample_constants sample_codec sample_collaborators
      sample_ConnectionClosed 10485761 (sample_closed_by_peer, sample_busy_world)
   = (sample_closed_by_peer\<lparr>m_statsEndToEnd := [TrackSentPacket 11]\<rparr>,
      emit (BSendRawPacketGather [[37, 0x15, 0x01, 0x00, 0xAA, 0xAA, 0x1d, 0x02, 0x00, 0xBB, 0xBB]])
        sample_busy_world)"
proof -
  have m: "pbval (ConnectionClosed_to_connection_id sample_ConnectionClosed)
             = m_unConnectionIDLocal sample_closed_by_peer
     \<or> (pbval (ConnectionClosed_to_connection_id sample_ConnectionClosed) = 0
         \<and> pbval (ConnectionClosed_from_connection_id sample_ConnectionClosed) \<noteq> 0
         \<and> pbval (ConnectionClosed_from_connection_id sample_ConnectionClosed)
             = m_unConnectionIDRemote sample_closed_by_peer)"
    by (simp add: sample_closed_by_peer_facts sample_ConnectionClosed_def pbval_def)
  have k: "k_cbSteamNetworkingSocketsMaxUDPMsgLen sample_constants = 1300"
    "k_ESteamNetworkingUDPMsg_NoConnection sample_constants = 37"
    by (simp_all add: sample_constants_def)
  have l: "length [0x15, 0x01, 0x00, 0xAA, 0xAA, 0x1d, 0x02, 0x00, 0xBB, 0xBB :: uint8] + 1
             \<le> k_cbSteamNetworkingSocketsMaxUDPMsgLen sample_constants"
    unfolding k by simp
  from retransmitted_ConnectionClosed_acked [OF sample_closed_by_peer_facts(1) m
      sample_closed_by_peer_facts(3) l sample_NoConnection_ack [symmetric] refl refl,
      of sample_collaborators 10485761 sample_busy_world]
  show ?thesis
    using sample_ClosedByPeer_ignored
    by (simp add: k sample_closed_by_peer_facts(4))
qed

text \<open>
  The claim as written makes the ack subject to the rate limiter. Here the limiter
  would refuse, and the ack is sent all the same.
\<close>

theorem ack_despite_rate_limiter_counterexample:
  "GetState sample_closed_by_peer = k_ESteamNetworkingConnectionState_ClosedByPeer
   \<and> pbval (ConnectionClosed_to_connection_id sample_ConnectionClosed)
       = m_unConnectionIDLocal sample_closed_by_peer
   \<and> pbval (ConnectionClosed_from_connection_id sample_ConnectionClosed)
       = m_unConnectionIDRemote sample_closed_by_peer
   \<and> BCheckGlobalSpamReplyRateLimit sample_collaborators 10485761
       (s_spamReplyLimiter sample_busy_world) = (False, 10485760)
   \<and> packets_since sample_busy_world
       (snd (Received_ConnectionClosed sample_constants sample_codec sample_collaborators
          sample_ConnectionClosed 10485761 (sample_closed_by_peer, sample_busy_world)))
     = [[37, 0x15, 0x01, 0x00, 0xAA, 0xAA, 0x1d, 0x02, 0x00, 0xBB, 0xBB]]"
proof -
  have "BCheckGlobalSpamReplyRateLimit sample_collaborators 10485761
       (s_spamReplyLimiter sample_busy_world) = (False, 10485760)"
    by (simp add: sample_collaborators_def sample_busy_world_def word_sless_alt)
  moreover have "pbval (ConnectionClosed_from_connection_id sample_ConnectionClosed)
       = m_unConnectionIDRemote sample_closed_by_peer"
    by (simp add: sample_closed_by_peer_def sample_ConnectionClosed_def pbval_def)
  moreover have "pbval (ConnectionClosed_to_connection_id sample_ConnectionClosed)
       = m_unConnectionIDLocal sample_closed_by_peer"
    by (simp add: sample_closed_by_peer_facts sample_ConnectionClosed_def pbval_def)
  ultimately show ?thesis
    unfolding sample_retransmitted_ConnectionClosed snd_conv packets_since_emit_send
    using sample_closed_by_peer_facts(1) by blast
qed

subsection \<open>Decoding the padded envelope\<close>

text \<open>
  C7. Decoding a padded-message envelope fails exactly when the packet is shorter than
  512 bytes, or the header's message length is not positive, or 3 plus the message
  length exceeds the packet length, or the body does not parse as the expected message.
  In every other case the result is the parsed body, and each of the four places that
  decode an envelope hands the message on: the listener's demultiplexer a
  ChallengeRequest to \<open>Received_ChallengeRequest\<close> and a ConnectionClosed to the
  listener's \<open>Received_ConnectionClosed\<close>, and \<open>PacketReceived\<close>, once it has counted the
  packet, a ConnectionClosed to the connection's \<open>Received_ConnectionClosed\<close> and a
  ChallengeRequest to \<open>Received_ChallengeOrConnectRequest\<close>.
\<close>

theorem ParsePaddedPacket_fails_iff:
  "((\<exists>e. ParsePaddedPacket P pkt = Inl e) \<longleftrightarrow>
      (length pkt < 512
       \<or> uint (LittleWord_at pkt 1) \<le> 0
       \<or> 3 + uint (LittleWord_at pkt 1) > int (length pkt)
       \<or> P (take (unat (LittleWord_at pkt 1)) (drop 3 pkt)) = None))
   \<and> (ParsePaddedPacket P pkt = Inr m \<longleftrightarrow>
        512 \<le> length pkt \<and> 0 < uint (LittleWord_at pkt 1)
        \<and> 3 + uint (LittleWord_at pkt 1) \<le> int (length pkt)
        \<and> P (take (unat (LittleWord_at pkt 1)) (drop 3 pkt)) = Some m)
   \<and> (ParsePaddedPacket (Parse_ChallengeRequest PB) pkt = Inr msg
        \<and> ((pkt ! 0) AND 0x80) = 0 \<and> pkt ! 0 = k_ESteamNetworkingUDPMsg_ChallengeRequest K \<longrightarrow>
        ReceivedFromUnknownHost K PB X pkt adrFrom usecNow (L, w)
          = (L, Received_ChallengeRequest K PB X msg adrFrom usecNow L w))
   \<and> (ParsePaddedPacket (Parse_ConnectionClosed PB) pkt = Inr closed
        \<and> ((pkt ! 0) AND 0x80) = 0
        \<and> pkt ! 0 \<noteq> k_ESteamNetworkingUDPMsg_ChallengeRequest K
        \<and> pkt ! 0 \<noteq> k_ESteamNetworkingUDPMsg_ConnectRequest K
        \<and> pkt ! 0 = k_ESteamNetworkingUDPMsg_ConnectionClosed K \<longrightarrow>
        ReceivedFromUnknownHost K PB X pkt adrFrom usecNow (L, w)
          = (L, ListenSocket_Received_ConnectionClosed K PB closed adrFrom usecNow L w))
   \<and> (ParsePaddedPacket (Parse_ConnectionClosed PB) pkt = Inr closed
        \<and> ((pkt ! 0) AND 0x80) = 0
        \<and> pkt ! 0 \<noteq> k_ESteamNetworkingUDPMsg_ChallengeReply K
        \<and> pkt ! 0 \<noteq> k_ESteamNetworkingUDPMsg_ConnectOK K
        \<and> pkt ! 0 = k_ESteamNetworkingUDPMsg_ConnectionClosed K \<longrightarrow>
        PacketReceived K PB X pkt adrFrom usecNow (c, w)
          = Received_ConnectionClosed K PB X closed usecNow
              (c\<lparr>m_statsEndToEnd :=
                   m_statsEndToEnd c @ [TrackRecvPacket (int (length pkt)) usecNow]\<rparr>, w))
   \<and> (ParsePaddedPacket (Parse_ChallengeRequest PB) pkt = Inr msg
        \<and> ((pkt ! 0) AND 0x80) = 0
        \<and> pkt ! 0 \<noteq> k_ESteamNetworkingUDPMsg_ChallengeReply K
        \<and> pkt ! 0 \<noteq> k_ESteamNetworkingUDPMsg_ConnectOK K
        \<and> pkt ! 0 \<noteq> k_ESteamNetworkingUDPMsg_ConnectionClosed K
        \<and> pkt ! 0 \<noteq> k_ESteamNetworkingUDPMsg_NoConnection K
        \<and> pkt ! 0 = k_ESteamNetworkingUDPMsg_ChallengeRequest K \<longrightarrow>
        PacketReceived K PB X pkt adrFrom usecNow (c, w)
          = Received_ChallengeOrConnectRequest K PB X ''ChallengeRequest''
              (pbval (ChallengeRequest_connection_id msg)) usecNow
              (c\<lparr>m_statsEndToEnd :=
                   m_statsEndToEnd c @ [TrackRecvPacket (int (length pkt)) usecNow]\<rparr>, w))"
  using ParsePaddedPacket_Inl_iff [of P pkt] ParsePaddedPacket_Inr_iff [of P pkt m]
    ReceivedFromUnknownHost_ChallengeRequest [of PB pkt msg K X adrFrom usecNow L w]
    ReceivedFromUnknownHost_ConnectionClosed [of PB pkt closed K X adrFrom usecNow L w]
    PacketReceived_ConnectionClosed [of PB pkt closed K X adrFrom usecNow c w]
    PacketReceived_ChallengeRequest [of PB pkt msg K X adrFrom usecNow c w]
  by (intro conjI impI; (elim conjE)?; assumption?) blast+

theorem ParsePaddedPacket_fails_iff_witness:
  "ParsePaddedPacket (Parse_ChallengeRequest sample_codec) sample_ChallengeRequest_pkt
     = Inr sample_ChallengeRequest
   \<and> ReceivedFromUnknownHost sample_constants sample_codec sample_collaborators
         sample_ChallengeRequest_pkt sample_client_adr 10485760 (sample_listener, sample_world)
       = (sample_listener,
          Received_ChallengeRequest sample_constants sample_codec sample_collaborators
            sample_ChallengeRequest sample_client_adr 10485760 sample_listener sample_world)
   \<and> ReceivedFromUnknownHost sample_constants sample_codec sample_collaborators
         sample_ConnectionClosed_pkt sample_client_adr 10485760 (sample_listener, sample_world)
       = (sample_listener,
          ListenSocket_Received_ConnectionClosed sample_constants sample_codec
            sample_parsed_ConnectionClosed sample_client_adr 10485760 sample_listener sample_world)
   \<and> PacketReceived sample_constants sample_codec sample_collaborators
         sample_ConnectionClosed_pkt sample_server_adr 10485760 (sample_client, sample_world)
       = Received_ConnectionClosed sample_constants sample_codec sample_collaborators
           sample_parsed_ConnectionClosed 10485760
           (sample_client\<lparr>m_statsEndToEnd := [TrackRecvPacket 512 10485760]\<rparr>, sample_world)
   \<and> PacketReceived sample_constants sample_codec sample_collaborators
         sample_ChallengeRequest_pkt sample_server_adr 10485760 (sample_client, sample_world)
       = Received_ChallengeOrConnectRequest sample_constants sample_codec sample_collaborators
           ''ChallengeRequest'' 0xAAAA0001 10485760
           (sample_client\<lparr>m_statsEndToEnd := [TrackRecvPacket 512 10485760]\<rparr>, sample_world)"
proof -
  have s: "m_statsEndToEnd sample_client = []"
    by (simp add: sample_client_def)
  have i: "pbval (ChallengeRequest_connection_id sample_ChallengeRequest) = 0xAAAA0001"
    by (simp add: sample_ChallengeRequest_def pbval_def)
  note a = ParsePaddedPacket_fails_iff [of "Parse_ChallengeRequest sample_codec"
      sample_ChallengeRequest_pkt sample_ChallengeRequest sample_codec sample_ChallengeRequest
      sample_constants sample_collaborators sample_client_adr 10485760 sample_listener sample_world
      sample_parsed_ConnectionClosed sample_client]
  note b = ParsePaddedPacket_fails_iff [of "Parse_ConnectionClosed sample_codec"
      sample_ConnectionClosed_pkt sample_parsed_ConnectionClosed sample_codec sample_ChallengeRequest
      sample_constants sample_collaborators sample_client_adr 10485760 sample_listener sample_world
      sample_parsed_ConnectionClosed sample_client]
  note c = ParsePaddedPacket_fails_iff [of "Parse_ConnectionClosed sample_codec"
      sample_ConnectionClosed_pkt sample_parsed_ConnectionClosed sample_codec sample_ChallengeRequest
      sample_constants sample_collaborators sample_server_adr 10485760 sample_listener sample_world
      sample_parsed_ConnectionClosed sample_client]
  note d = ParsePaddedPacket_fails_iff [of "Parse_ChallengeRequest sample_codec"
      sample_ChallengeRequest_pkt sample_ChallengeRequest sample_codec sample_ChallengeRequest
      sample_constants sample_collaborators sample_server_adr 10485760 sample_listener sample_world
      sample_parsed_ConnectionClosed sample_client]
  have 1: "ReceivedFromUnknownHost sample_constants sample_codec sample_collaborators
         sample_ChallengeRequest_pkt sample_client_adr 10485760 (sample_listener, sample_world)
       = (sample_listener,
          Received_ChallengeRequest sample_constants sample_codec sample_collaborators
            sample_ChallengeRequest sample_client_adr 10485760 sample_listener sample_world)"
    using a sample_ChallengeRequest_pkt_parse
    by (simp add: sample_pkt_heads sample_constants_tags)
  have 2: "ReceivedFromUnknownHost sample_constants sample_codec sample_collaborators
         sample_ConnectionClosed_pkt sample_client_adr 10485760 (sample_listener, sample_world)
       = (sample_listener,
          ListenSocket_Received_ConnectionClosed sample_constants sample_codec
            sample_parsed_ConnectionClosed sample_client_adr 10485760 sample_listener sample_world)"
    using b sample_ConnectionClosed_pkt_parse
    by (simp add: sample_pkt_heads sample_constants_tags)
  have 3: "PacketReceived sample_constants sample_codec sample_collaborators
         sample_ConnectionClosed_pkt sample_server_adr 10485760 (sample_client, sample_world)
       = Received_ConnectionClosed sample_constants sample_codec sample_collaborators
           sample_parsed_ConnectionClosed 10485760
           (sample_client\<lparr>m_statsEndToEnd := [TrackRecvPacket 512 10485760]\<rparr>, sample_world)"
    using c sample_ConnectionClosed_pkt_parse
    by (simp add: sample_pkt_heads sample_constants_tags s)
  have 4: "PacketReceived sample_constants sample_codec sample_collaborators
         sample_ChallengeRequest_pkt sample_server_adr 10485760 (sample_client, sample_world)
       = Received_ChallengeOrConnectRequest sample_constants sample_codec sample_collaborators
           ''ChallengeRequest'' 0xAAAA0001 10485760
           (sample_client\<lparr>m_statsEndToEnd := [TrackRecvPacket 512 10485760]\<rparr>, sample_world)"
    using d sample_ChallengeRequest_pkt_parse
    by (simp add: sample_pkt_heads sample_constants_tags s i sample_ChallengeRequest_pkt_length)
  from sample_ChallengeRequest_pkt_parse 1 2 3 4 show ?thesis
    by (simp only: simp_thms)
qed

subsection \<open>Timestamp echoes\<close>

text \<open>
  C8. The elapsed time computed from a timestamp echo is refused, with a warning and no
  ping sample, exactly when it lies outside 0 to 2000000 microseconds as a signed
  64-bit value; an accepted one records the ping sample
  \<open>(elapsed + 500) div 1000\<close> milliseconds. A ChallengeReply that passes the handler's
  checks is treated so with \<open>usecNow - your_timestamp\<close>, a ConnectOK with
  \<open>usecNow - your_timestamp - delay_time_usec\<close>, before the handler goes on.
\<close>

theorem timestamp_echo_ping:
  "ReceivedPing_from_elapsed usecElapsed usecNow (c, w) =
     (if 0 \<le> sint usecElapsed \<and> sint usecElapsed \<le> 2000000
      then (c\<lparr>m_statsEndToEnd := m_statsEndToEnd c @
                 [ReceivedPing ((sint usecElapsed + 500) div 1000) usecNow]\<rparr>, w)
      else (c, emit (SpewWarning ''Ignoring weird timestamp'') w))
   \<and> (\<not> m_pParentListenSocket c
        \<and> GetState c = k_ESteamNetworkingConnectionState_Connecting
        \<and> pbval (ChallengeReply_connection_id reply) = m_unConnectionIDLocal c
        \<and> \<not> pbval (ChallengeReply_protocol_version reply) < k_nMinRequiredProtocolVersion K
        \<and> ChallengeReply_your_timestamp reply = Some ts
      \<longrightarrow> Received_ChallengeReply K PB X reply usecNow (c, w) =
            ChallengeReply_send_ConnectRequest K PB X reply usecNow
              (ReceivedPing_from_elapsed (usecNow - ts) usecNow (c, w)))
   \<and> (\<not> m_pParentListenSocket c
        \<and> pbval (ConnectOK_client_connection_id ok) = m_unConnectionIDLocal c
        \<and> ConnectOK_identityRemote X c ok = Inr identityRemote
        \<and> (IsInvalid (m_identityRemote c) \<or> m_identityRemote c = identityRemote)
        \<and> ConnectOK_your_timestamp ok = Some ts'
      \<longrightarrow> Received_ConnectOK K PB X ok usecNow (c, w) =
            ConnectOK_check_state K PB X ok identityRemote usecNow
              (ReceivedPing_from_elapsed (usecNow - ts' - pbval (ConnectOK_delay_time_usec ok))
                 usecNow (c, w)))"
  using ReceivedPing_from_elapsed_sint [of usecElapsed usecNow c w]
    Received_ChallengeReply_echo [of c reply K ts PB X usecNow w]
    Received_ConnectOK_echo [of c ok X identityRemote ts' K PB usecNow w]
  by blast

theorem timestamp_echo_ping_witness:
  "ReceivedPing_from_elapsed 40000 10485760 (sample_client, sample_world) =
     (sample_client\<lparr>m_statsEndToEnd := [ReceivedPing 40 10485760]\<rparr>, sample_world)
   \<and> Received_ChallengeReply sample_constants sample_codec sample_collaborators
        sample_ChallengeReply 10485760 (sample_client, sample_world) =
      ChallengeReply_send_ConnectRequest sample_constants sample_codec sample_collaborators
        sample_ChallengeReply 10485760
        (ReceivedPing_from_elapsed 45000 10485760 (sample_client, sample_world))
   \<and> Received_ConnectOK sample_constants sample_codec sample_collaborators
        sample_expected_ConnectOK 10485760 (sample_client, sample_world) =
      ConnectOK_check_state sample_constants sample_codec sample_collaborators
        sample_expected_ConnectOK (SteamID 76) 10485760
        (ReceivedPing_from_elapsed 40000 10485760 (sample_client, sample_world))"
proof -
  have c: "\<not> m_pParentListenSocket sample_client"
      "GetState sample_client = k_ESteamNetworkingConnectionState_Connecting"
      "m_unConnectionIDLocal sample_client = 0xAAAA0001"
      "m_identityRemote sample_client = SteamID 76"
      "m_statsEndToEnd sample_client = []"
    by (simp_all add: sample_client_def)
  have r: "pbval (ChallengeReply_connection_id sample_ChallengeReply) = 0xAAAA0001"
      "\<not> pbval (ChallengeReply_protocol_version sample_ChallengeReply)
          < k_nMinRequiredProtocolVersion sample_constants"
      "ChallengeReply_your_timestamp sample_ChallengeReply = Some 10440760"
    by (simp_all add: sample_ChallengeReply_def sample_constants_def pbval_def)
  have k: "pbval (ConnectOK_client_connection_id sample_expected_ConnectOK) = 0xAAAA0001"
      "ConnectOK_your_timestamp sample_expected_ConnectOK = Some 10440760"
      "pbval (ConnectOK_delay_time_usec sample_expected_ConnectOK) = 5000"
    by (simp_all add: sample_expected_ConnectOK_def sample_ConnectOK_def pbval_def)
  have a: "(10485760 :: 64 word) - 10440760 = 45000" "(45000 :: 64 word) - 5000 = 40000"
      "sint (40000 :: 64 word) = 40000" "(40000 + 500) div 1000 = (40 :: int)"
    by simp_all
  from timestamp_echo_ping [of 40000 10485760 sample_client sample_world
      sample_ChallengeReply sample_constants 10440760 sample_codec sample_collaborators
      sample_expected_ConnectOK "SteamID 76" 10440760]
  show ?thesis
    using c r k sample_expected_ConnectOK_identity by (simp add: a)
qed

subsection \<open>NoConnection messages without a connection ID\<close>

text \<open>
  C9. \<open>SendNoConnection\<close> sends nothing when both of its arguments are zero. The claim
  goes on to say that every NoConnection a connection sends carries a connection ID;
  the reply that \<open>Received_ConnectionClosed\<close> builds inline does not go through
  \<open>SendNoConnection\<close>: when the received ConnectionClosed names no connection ID, the
  connection's own ID is nonzero and the gate for unsolicited replies permits, the
  NoConnection that goes out has neither field set.
\<close>

theorem NoConnection_without_connection_id:
  "packets_since w (snd (SendNoConnection K PB 0 0 (c, w))) = []
   \<and> (pbval (ConnectionClosed_to_connection_id msg) = 0
        \<and> pbval (ConnectionClosed_from_connection_id msg) = 0
        \<and> m_unConnectionIDLocal c \<noteq> 0
        \<and> fst (BCheckGlobalSpamReplyRateLimit X usecNow (s_spamReplyLimiter w))
        \<and> m_pSocket c \<noteq> None
        \<and> length (Serialize_NoConnection PB
              \<lparr>NoConnection_from_connection_id = None, NoConnection_to_connection_id = None\<rparr>) + 1
            \<le> k_cbSteamNetworkingSocketsMaxUDPMsgLen K
      \<longrightarrow> packets_since w (snd (Received_ConnectionClosed K PB X msg usecNow (c, w)))
            = [k_ESteamNetworkingUDPMsg_NoConnection K #
               Serialize_NoConnection PB
                 \<lparr>NoConnection_from_connection_id = None, NoConnection_to_connection_id = None\<rparr>])"
proof (intro conjI impI, goal_cases)
  case 1
  show ?case
    unfolding SendNoConnection_0_0
    by (rule packets_sinceI) (simp add: sent_packets_emit)
next
  case 2
  let ?body = "Serialize_NoConnection PB
                 \<lparr>NoConnection_from_connection_id = None, NoConnection_to_connection_id = None\<rparr>"
  obtain g' where lim: "BCheckGlobalSpamReplyRateLimit X usecNow (s_spamReplyLimiter w) = (True, g')"
    using 2 by (cases "BCheckGlobalSpamReplyRateLimit X usecNow (s_spamReplyLimiter w)") auto
  from 2 have nm: "\<not> (pbval (ConnectionClosed_to_connection_id msg) = m_unConnectionIDLocal c
     \<or> (pbval (ConnectionClosed_to_connection_id msg) = 0
         \<and> pbval (ConnectionClosed_from_connection_id msg) \<noteq> 0
         \<and> pbval (ConnectionClosed_from_connection_id msg) = m_unConnectionIDRemote c))"
    by auto
  from 2 have z: "set_if_nonzero (pbval (ConnectionClosed_to_connection_id msg)) = None"
      "set_if_nonzero (pbval (ConnectionClosed_from_connection_id msg)) = None"
    by (simp_all add: set_if_nonzero_def)
  have R: "Received_ConnectionClosed K PB X msg usecNow (c, w)
      = SendMsg K (k_ESteamNetworkingUDPMsg_NoConnection K) ?body (c, w\<lparr>s_spamReplyLimiter := g'\<rparr>)"
    unfolding Received_ConnectionClosed_no_match [OF nm lim] z by (simp only: if_True)
  show ?case
    unfolding R using 2 by (intro packets_sinceI) (simp add: SendMsg_frame)
qed

theorem NoConnection_without_connection_id_witness:
  "packets_since sample_world
     (snd (Received_ConnectionClosed sample_constants sample_codec sample_collaborators
             sample_bare_ConnectionClosed 10485760 (sample_client, sample_world)))
   = [[37]]"
proof -
  have "Serialize_NoConnection sample_codec
          \<lparr>NoConnection_from_connection_id = None, NoConnection_to_connection_id = None\<rparr> = []"
    by (simp add: sample_codec_def sample_field32_def)
  moreover have "k_ESteamNetworkingUDPMsg_NoConnection sample_constants = 37"
    "k_cbSteamNetworkingSocketsMaxUDPMsgLen sample_constants = 1300"
    by (simp_all add: sample_constants_def)
  moreover have "pbval (ConnectionClosed_to_connection_id sample_bare_ConnectionClosed) = 0"
    "pbval (ConnectionClosed_from_connection_id sample_bare_ConnectionClosed) = 0"
    by (simp_all add: sample_bare_ConnectionClosed_def pbval_def)
  moreover have "m_unConnectionIDLocal sample_client \<noteq> 0" "m_pSocket sample_client \<noteq> None"
    by (simp_all add: sample_client_def)
  moreover have "fst (BCheckGlobalSpamReplyRateLimit sample_collaborators 10485760
      (s_spamReplyLimiter sample_world))"
    by (simp add: sample_collaborators_def sample_world_def)
  ultimately show ?thesis
    using NoConnection_without_connection_id [of sample_world sample_constants sample_codec
        sample_client sample_bare_ConnectionClosed sample_collaborators 10485760]
    by simp
qed

subsection \<open>A ConnectOK from an unexpected identity\<close>

text \<open>
  C10. On a connection that already holds a valid remote identity, a ConnectOK whose
  derived remote identity differs from the stored one is dropped: the connection
  record, and so its state, remote identity and remote connection ID, is unchanged and
  nothing is sent.
\<close>

theorem ConnectOK_from_unexpected_identity_dropped:
  assumes "\<not> IsInvalid (m_identityRemote c)"
    and "ConnectOK_identityRemote X c msg = Inr identityRemote"
    and "identityRemote \<noteq> m_identityRemote c"
  shows "fst (Received_ConnectOK K PB X msg usecNow (c, w)) = c
    \<and> GetState (fst (Received_ConnectOK K PB X msg usecNow (c, w))) = GetState c
    \<and> m_identityRemote (fst (Received_ConnectOK K PB X msg usecNow (c, w))) = m_identityRemote c
    \<and> m_unConnectionIDRemote (fst (Received_ConnectOK K PB X msg usecNow (c, w)))
        = m_unConnectionIDRemote c
    \<and> packets_since w (snd (Received_ConnectOK K PB X msg usecNow (c, w))) = []"
proof -
  obtain t f where R: "Received_ConnectOK K PB X msg usecNow (c, w)
       = (c, ReportBadPacketIPv4 c t f usecNow w)"
    using assms by (rule Received_ConnectOK_identity_mismatch)
  have "packets_since w (ReportBadPacketIPv4 c t f usecNow w) = []"
    by (rule packets_sinceI) (simp add: ReportBadPacketIPv4_frame)
  then show ?thesis
    unfolding R by (simp only: fst_conv snd_conv simp_thms)
qed

theorem ConnectOK_from_unexpected_identity_dropped_witness:
  "ConnectOK_identityRemote sample_collaborators sample_client sample_ConnectOK = Inr (SteamID 99)
   \<and> m_identityRemote sample_client = SteamID 76
   \<and> fst (Received_ConnectOK sample_constants sample_codec sample_collaborators sample_ConnectOK
         10485760 (sample_client, sample_world)) = sample_client
   \<and> packets_since sample_world
        (snd (Received_ConnectOK sample_constants sample_codec sample_collaborators sample_ConnectOK
           10485760 (sample_client, sample_world))) = []"
proof -
  have id: "m_identityRemote sample_client = SteamID 76"
    by (simp add: sample_client_def)
  have 1: "\<not> IsInvalid (m_identityRemote sample_client)"
    and 2: "SteamID 99 \<noteq> m_identityRemote sample_client"
    unfolding id by (simp_all add: IsInvalid_def)
  from ConnectOK_from_unexpected_identity_dropped [OF 1 sample_ConnectOK_identity 2,
      of sample_constants sample_codec 10485760 sample_world]
  show ?thesis
    using sample_ConnectOK_identity id by blast
qed

end
